theory Spec2Isabelle
  imports Complex_Main
begin

section \<open>Numbers and vectors\<close>

text \<open>
  The simulation of \<^verbatim>\<open>src/js/main.js\<close> computes with JavaScript numbers. They are
  modelled as real numbers: the rounding of the double-precision arithmetic, NaN and the
  infinities are outside the model. Where the source can produce NaN or an infinity from
  finite inputs (a read past the end of a typed array, a division by zero), the model
  function returns \<open>None\<close> at that point.

  A store into a \<^verbatim>\<open>Float32Array\<close> rounds the number to single precision. The model rounds
  the stores into the two timer arrays \<^verbatim>\<open>explosionReturnTimes\<close> and
  \<^verbatim>\<open>explosionGlowEndTimes\<close> (lines 228-229, 1879 and 1885), with \<open>fround\<close> below; the
  stores into the other typed arrays are kept exact.
\<close>

type_synonym vec3 = "real \<times> real \<times> real"

definition clamp01 :: "real \<Rightarrow> real" where
  \<comment> \<open>\<^verbatim>\<open>Math.max(0, Math.min(1, x))\<close>\<close>
  "clamp01 x = max 0 (min 1 x)"

text \<open>
  Single precision: 24 significant bits; the binade \<open>e\<close> holds the numbers with
  \<open>2 powi e \<le> |x| < 2 powi (e + 1)\<close>, for \<open>e\<close> from -126 to 127, and the numbers below
  \<open>2 powi (- 126)\<close> lie on the grid of the lowest binade. The conversion rounds to the
  nearest number of the grid, a tie to the even one. A magnitude from
  \<open>2 powi 128 - 2 powi 103\<close> on is stored as an infinity; the model has none and keeps the
  grid of the highest binade there.
\<close>

definition roundHalfEven :: "real \<Rightarrow> int" where
  "roundHalfEven y =
     (let n = \<lfloor>y\<rfloor>; r = y - of_int n
      in if r < 1 / 2 then n else if r > 1 / 2 then n + 1 else if even n then n else n + 1)"

primrec binade :: "nat \<Rightarrow> real \<Rightarrow> int" where
  \<comment> \<open>the largest \<open>e\<close> from -126 to \<open>n - 126\<close> with \<open>2 powi e \<le> a\<close>, and -126 if there is none\<close>
  "binade 0 a = - 126"
| "binade (Suc n) a =
     (if 2 powi (int (Suc n) - 126) \<le> a then int (Suc n) - 126 else binade n a)"

definition toGrid :: "int \<Rightarrow> real \<Rightarrow> real" where
  \<comment> \<open>the nearest multiple of \<open>2 powi (e - 23)\<close>, the spacing of the singles of binade \<open>e\<close>\<close>
  "toGrid e x = of_int (roundHalfEven (x / 2 powi (e - 23))) * 2 powi (e - 23)"

definition fround :: "real \<Rightarrow> real" where
  \<comment> \<open>\<^verbatim>\<open>Math.fround\<close>, the conversion of a store into a \<^verbatim>\<open>Float32Array\<close>\<close>
  "fround x = toGrid (binade 253 \<bar>x\<bar>) x"


definition vlength :: "vec3 \<Rightarrow> real" where
  \<comment> \<open>three.js \<^verbatim>\<open>Vector3.length\<close>\<close>
  "vlength v = (case v of (x, y, z) \<Rightarrow> sqrt (x * x + y * y + z * z))"

definition lengthSq :: "vec3 \<Rightarrow> real" where
  \<comment> \<open>three.js \<^verbatim>\<open>Vector3.lengthSq\<close>\<close>
  "lengthSq v = (case v of (x, y, z) \<Rightarrow> x * x + y * y + z * z)"

definition multiplyScalar :: "vec3 \<Rightarrow> real \<Rightarrow> vec3" where
  "multiplyScalar v k = (case v of (x, y, z) \<Rightarrow> (x * k, y * k, z * k))"

definition addScaledVector :: "vec3 \<Rightarrow> vec3 \<Rightarrow> real \<Rightarrow> vec3" where
  "addScaledVector v w k =
     (case v of (x, y, z) \<Rightarrow> case w of (a, b, c) \<Rightarrow> (x + a * k, y + b * k, z + c * k))"

definition subVectors :: "vec3 \<Rightarrow> vec3 \<Rightarrow> vec3" where
  "subVectors v w = (case v of (x, y, z) \<Rightarrow> case w of (a, b, c) \<Rightarrow> (x - a, y - b, z - c))"

definition crossVectors :: "vec3 \<Rightarrow> vec3 \<Rightarrow> vec3" where
  "crossVectors v w =
     (case v of (ax, ay, az) \<Rightarrow> case w of (bx, by, bz) \<Rightarrow>
        (ay * bz - az * by, az * bx - ax * bz, ax * by - ay * bx))"

definition normalizeV :: "vec3 \<Rightarrow> vec3" where
  \<comment> \<open>three.js \<^verbatim>\<open>Vector3.normalize\<close>: \<^verbatim>\<open>divideScalar(this.length() || 1)\<close>\<close>
  "normalizeV v = (let l = vlength v in multiplyScalar v (1 / (if l = 0 then 1 else l)))"

section \<open>Data model\<close>

text \<open>
  The per-particle typed arrays hold three numbers per particle where they store vectors;
  they are allocated with three times the particle count, and the model keeps one
  \<open>vec3\<close> per particle, so that the source's guard \<^verbatim>\<open>i3 + 2 >= a.length\<close> is
  \<open>length a \<le> i\<close> and \<^verbatim>\<open>a.length / 3\<close> is \<open>length a\<close>.
\<close>

record wave =
  radius :: real
  waveStartTime :: real
  waveId :: real

record explosion =
  exPosition :: vec3
  exStartTime :: real
  exId :: nat
  applied :: bool

text \<open>The fields of \<^verbatim>\<open>CONFIG\<close> that \<^verbatim>\<open>updatePhysics\<close> reads or writes.\<close>

record config =
  particleCount :: nat
  forceStrength :: real
  interactionRadius :: real
  springConstant :: real
  damping :: real
  timeScale :: real
  pointSize :: real
  sizeVariation :: real
  autonomousMotionStrength :: real
  chaosAngle :: real
  chaosStrength :: real
  tangentialForceRatio :: real
  zAxisStrength :: real
  isLoadingAnimation :: bool
  loadAnimationStartTime :: "real option"
  loadAnimationDuration :: real
  easingP1x :: real
  easingP1y :: real
  easingP2x :: real
  easingP2y :: real
  waveEnabled :: bool
  waveInterval :: real
  waveSpeed :: real
  waveWidth :: real
  waveForce :: real
  waveGlowIntensity :: real
  waveForceFalloff :: real
  lastWaveTime :: "real option"
  waves :: "wave list"
  maxBrightness :: real
  depthDarkeningStrength :: real
  glowBrightness :: real
  velocityGlowMultiplier :: real
  explosionEnabled :: bool
  explosionForce :: real
  explosionSpeed :: real
  explosionReturnDelay :: real
  explosionGlowIntensity :: real
  explosionGlowDuration :: real
  explosions :: "explosion list"

text \<open>
  The module-level variables of the simulation. \<open>positions\<close> and \<open>colors\<close> are also
  the arrays of the geometry's \<^verbatim>\<open>position\<close> and \<^verbatim>\<open>color\<close> attributes
  (\<^verbatim>\<open>positionsArray\<close>, \<^verbatim>\<open>colorsArray\<close>).
\<close>

record sim =
  CONFIG :: config
  isInitialized :: bool
  hasGeometry :: bool
  hasColorAttribute :: bool
  totalParticleCount :: nat
  positions :: "vec3 list"
  originalPositions :: "vec3 list"
  baseOriginalPositions :: "vec3 list"
  startPositions :: "vec3 list"
  scrollDirections :: "vec3 list"
  velocities :: "vec3 list"
  colors :: "vec3 list"
  sizes :: "real list"
  baseSizes :: "real list"
  glows :: "real list"
  explosionGlowEndTimes :: "real list"
  explosionReturnTimes :: "real list"
  distanceBuffer :: "real list"
  cachedGlowBrightness :: real
  cachedVelocityGlowMultiplier :: real
  glowStaticNeedsUpdate :: bool
  wasWaveActive :: bool
  mouseVelocity :: "real \<times> real"
  mouseMovedThisFrame :: bool

text \<open>
  What one call of \<^verbatim>\<open>updatePhysics\<close> reads from outside the simulation: the two clocks,
  the camera, the pointer, and the values \<^verbatim>\<open>Math.random()\<close> returns. Each call site of
  \<^verbatim>\<open>Math.random()\<close> draws at most once per particle (per explosion, in the explosion
  loop), so the values drawn in one frame are a function of the particle and the call
  site; any such function is a possible run.
\<close>

datatype draw =
  ChaosAngle | ChaosAzimuth | TangentialAngle | ForceVariation | ZComponent
  | AutonomousGate | AutonomousX | AutonomousY | AutonomousZ
  | ExplosionX nat | ExplosionY nat | ExplosionZ nat

record frame =
  nowDate :: real
  nowPerf :: real
  cameraLeft :: real
  cameraRight :: real
  cameraTop :: real
  cameraBottom :: real
  cameraZ :: real
  mouse3D :: vec3
  isPointerInsideCanvas :: bool
  isPointerDown :: bool
  mathRandom :: "nat \<Rightarrow> draw \<Rightarrow> real"

section \<open>Loops\<close>

text \<open>
  A \<^verbatim>\<open>for (let i = k; i < n; i++)\<close> loop over the simulation state. One pass of the
  body ends the loop (\<^verbatim>\<open>break\<close>), goes on with the next index (also after
  \<^verbatim>\<open>continue\<close>), or leaves the model (\<open>Fault\<close>: a NaN or an infinity arose).
\<close>

datatype 'a step = Break | Continue 'a | Fault

function forLoop :: "nat \<Rightarrow> nat \<Rightarrow> (nat \<Rightarrow> 'a \<Rightarrow> 'a step) \<Rightarrow> 'a \<Rightarrow> 'a option" where
  "forLoop i n body s =
     (if i < n then
        (case body i s of
           Break \<Rightarrow> Some s
         | Fault \<Rightarrow> None
         | Continue s' \<Rightarrow> forLoop (Suc i) n body s')
      else Some s)"
  by pat_completeness auto
termination
  by (relation "measure (\<lambda>(i, n, body, s). n - i)") auto

declare forLoop.simps [simp del]

section \<open>Easing evaluator\<close>

text \<open>
  \<^verbatim>\<open>bezierEasing(t, p1x, p1y, p2x, p2y)\<close>, lines 1508-1527 of \<^verbatim>\<open>src/js/main.js\<close>
  (the same text stands in the older copy of the file).
\<close>

definition bezierEasing :: "real \<Rightarrow> real \<Rightarrow> real \<Rightarrow> real \<Rightarrow> real \<Rightarrow> real" where
  "bezierEasing t0 p1x p1y p2x p2y =
     (let t = max 0 (min 1 t0);
          oneMinusT = 1 - t;
          oneMinusT2 = oneMinusT * oneMinusT;
          oneMinusT3 = oneMinusT2 * oneMinusT;
          t2 = t * t;
          t3 = t2 * t
      in oneMinusT3 * 0 + 3 * oneMinusT2 * t * p1y + 3 * oneMinusT * t2 * p2y + t3 * 1)"

text \<open>
  The curve the CSS timing function \<^verbatim>\<open>cubic-bezier(p1x, p1y, p2x, p2y)\<close> is read from,
  written from the specification's words: the cubic Bezier curve with anchors
  \<open>(0,0)\<close> and \<open>(1,1)\<close>; at curve parameter \<open>s\<close> its point is
  \<open>(cssBezierCoord s p1x p2x, cssBezierCoord s p1y p2y)\<close>, and the timing function
  maps the first coordinate (the input progress) to the second.
\<close>

definition cssBezierCoord :: "real \<Rightarrow> real \<Rightarrow> real \<Rightarrow> real" where
  "cssBezierCoord s a b = 3 * (1 - s) * (1 - s) * s * a + 3 * (1 - s) * s * s * b + s * s * s"

section \<open>Reading typed arrays\<close>

text \<open>
  A read past the end of a typed array gives \<^verbatim>\<open>undefined\<close>, and arithmetic on it NaN.
  Where the source reads without a guard of its own, the model reads with \<open>readAt\<close>
  and leaves the model on \<open>None\<close>. A write past the end of a typed array is ignored,
  as \<open>list_update\<close> does.
\<close>

definition readAt :: "'a list \<Rightarrow> nat \<Rightarrow> 'a option" where
  "readAt xs i = (if i < length xs then Some (xs ! i) else None)"

section \<open>Loading sequencer\<close>

definition lerp3 :: "vec3 \<Rightarrow> vec3 \<Rightarrow> real \<Rightarrow> vec3" where
  \<comment> \<open>\<^verbatim>\<open>start + (target - start) * easingValue\<close>, per coordinate (lines 1579-1581)\<close>
  "lerp3 st tg e =
     (case st of (sx, sy, sz) \<Rightarrow> case tg of (tx, ty, tz) \<Rightarrow>
        (sx + (tx - sx) * e, sy + (ty - sy) * e, sz + (tz - sz) * e))"

definition loadProgress :: "real \<Rightarrow> real \<Rightarrow> real option" where
  \<comment> \<open>\<^verbatim>\<open>Math.min(1, elapsed / CONFIG.loadAnimationDuration)\<close>; with a zero duration the
      quotient is \<open>+Infinity\<close> for a positive \<open>elapsed\<close> (the minimum is 1), and NaN or
      \<open>-Infinity\<close> otherwise\<close>
  "loadProgress elapsed duration =
     (if duration = 0 then (if 0 < elapsed then Some 1 else None)
      else Some (min 1 (elapsed / duration)))"

definition loadPositionBody :: "real \<Rightarrow> nat \<Rightarrow> sim \<Rightarrow> sim step" where
  \<comment> \<open>lines 1565-1582\<close>
  "loadPositionBody easingValue i s =
     (if length (positions s) \<le> i then Break
      else case readAt (startPositions s) i of
             None \<Rightarrow> Fault
           | Some st \<Rightarrow>
               (case readAt (originalPositions s) i of
                  None \<Rightarrow> Fault
                | Some tg \<Rightarrow>
                    Continue (s\<lparr>positions := (positions s)[i := lerp3 st tg easingValue]\<rparr>)))"

definition loadColorBody :: "frame \<Rightarrow> nat \<Rightarrow> sim \<Rightarrow> sim step" where
  \<comment> \<open>lines 1597-1615\<close>
  "loadColorBody f i s =
     (if length (colors s) \<le> i then Break
      else case readAt (positions s) i of
             None \<Rightarrow> Fault
           | Some (x, y, z) \<Rightarrow>
               (let dz = z - cameraZ f;
                    distance = \<bar>dz\<bar>;
                    normalizedDistance = max 0 (min 1 (distance / (70 - 0)));
                    brightness = 1.0 - normalizedDistance * depthDarkeningStrength (CONFIG s);
                    clampedBrightness = max 0.0 (min 1.0 brightness)
                in Continue (s\<lparr>colors := (colors s)
                       [i := (clampedBrightness, clampedBrightness, clampedBrightness)]\<rparr>)))"

definition loadGlowBody :: "real \<Rightarrow> nat \<Rightarrow> sim \<Rightarrow> sim step" where
  \<comment> \<open>lines 1623-1627; the loop also ends at \<^verbatim>\<open>glows.length\<close>\<close>
  "loadGlowBody currentGlowValue i s =
     (if length (glows s) \<le> i then Break
      else Continue (s\<lparr>glows := (glows s)[i := currentGlowValue]\<rparr>))"

definition loadingAnimation :: "frame \<Rightarrow> real \<Rightarrow> sim \<Rightarrow> (sim \<times> real) option" where
  \<comment> \<open>lines 1547-1630: the body of the loading branch up to the test of \<^verbatim>\<open>progress\<close>;
      the second argument is \<^verbatim>\<open>CONFIG.loadAnimationStartTime\<close>\<close>
  "loadingAnimation f startT s =
     (let c = CONFIG s;
          elapsed = nowDate f - startT
      in case loadProgress elapsed (loadAnimationDuration c) of
           None \<Rightarrow> None
         | Some progress \<Rightarrow>
             (let easingValue =
                    bezierEasing progress (easingP1x c) (easingP1y c) (easingP2x c) (easingP2y c);
                  actualParticleCount = min (totalParticleCount s) (length (positions s))
              in case forLoop 0 actualParticleCount (loadPositionBody easingValue) s of
                   None \<Rightarrow> None
                 | Some s1 \<Rightarrow>
                     (case (if hasColorAttribute s1
                            then forLoop 0 actualParticleCount (loadColorBody f) s1
                            else Some s1) of
                        None \<Rightarrow> None
                      | Some s2 \<Rightarrow>
                          (let targetGlow = glowBrightness c;
                               currentGlowValue = targetGlow * easingValue
                           in case forLoop 0 actualParticleCount (loadGlowBody currentGlowValue) s2 of
                                None \<Rightarrow> None
                              | Some s3 \<Rightarrow> Some (s3, progress)))))"

section \<open>Waves: cadence, growth and removal\<close>

text \<open>
  \<^verbatim>\<open>waveBoundsMin\<close> and \<^verbatim>\<open>waveBoundsMax\<close> start at \<open>+Infinity\<close> and \<open>-Infinity\<close> and are
  updated together: \<open>None\<close> is that start (no distance lies between them),
  \<open>Some (lo, hi)\<close> the pair once a wave has set it.
\<close>

type_synonym waveBounds = "(real \<times> real) option"

definition maxWaveRadius :: "frame \<Rightarrow> real" where
  \<comment> \<open>lines 1651-1653\<close>
  "maxWaveRadius f =
     (let viewportWidth = cameraRight f - cameraLeft f;
          viewportHeight = cameraTop f - cameraBottom f
      in sqrt (viewportWidth * viewportWidth + viewportHeight * viewportHeight) / 2)"

definition extendBounds :: "waveBounds \<Rightarrow> real \<Rightarrow> real \<Rightarrow> waveBounds" where
  \<comment> \<open>\<^verbatim>\<open>Math.min(waveBoundsMin, waveMinRadius)\<close>, \<^verbatim>\<open>Math.max(waveBoundsMax, waveMaxRadius)\<close>\<close>
  "extendBounds b lo hi =
     (case b of None \<Rightarrow> Some (lo, hi) | Some (bmin, bmax) \<Rightarrow> Some (min bmin lo, max bmax hi))"

definition advanceWave :: "config \<Rightarrow> wave \<Rightarrow> wave" where
  \<comment> \<open>\<^verbatim>\<open>wave.radius += CONFIG.waveSpeed * dt * CONFIG.timeScale\<close> with \<^verbatim>\<open>dt = 0.016\<close>\<close>
  "advanceWave c w = w\<lparr>radius := radius w + waveSpeed c * 0.016 * timeScale c\<rparr>"

text \<open>
  The loop \<^verbatim>\<open>for (let i = CONFIG.waves.length - 1; i >= 0; i--)\<close> of lines 1682-1697;
  the first argument after the configuration and the radius is \<open>i + 1\<close>.
\<close>

fun propagateWaves :: "config \<Rightarrow> real \<Rightarrow> nat \<Rightarrow> wave list \<Rightarrow> waveBounds \<Rightarrow> wave list \<times> waveBounds" where
  "propagateWaves c maxR 0 ws b = (ws, b)"
| "propagateWaves c maxR (Suc i) ws b =
     (let wave = advanceWave c (ws ! i) in
      if radius wave \<ge> maxR + waveWidth c
      then propagateWaves c maxR i (take i ws @ drop (Suc i) ws) b
      else (let waveCutoffDistance = 2 * (waveWidth c / 2);
                waveCenterRadius = radius wave - waveWidth c / 2;
                waveMinRadius = waveCenterRadius - waveCutoffDistance;
                waveMaxRadius = waveCenterRadius + waveCutoffDistance
            in propagateWaves c maxR i (ws[i := wave]) (extendBounds b waveMinRadius waveMaxRadius)))"

definition waveLogic :: "frame \<Rightarrow> config \<Rightarrow> config \<times> waveBounds" where
  \<comment> \<open>lines 1663-1699\<close>
  "waveLogic f c =
     (if waveEnabled c \<and> \<not> isLoadingAnimation c then
        (let now = nowDate f;
             lastT = (case lastWaveTime c of None \<Rightarrow> now | Some t \<Rightarrow> t);
             timeSinceLastWave = now - lastT;
             c1 = (if timeSinceLastWave \<ge> waveInterval c
                   then c\<lparr>waves := waves c @ [\<lparr>radius = 0, waveStartTime = now, waveId = now\<rparr>],
                          lastWaveTime := Some now\<rparr>
                   else c\<lparr>lastWaveTime := Some lastT\<rparr>);
             r = propagateWaves c1 (maxWaveRadius f) (length (waves c1)) (waves c1) None
         in (c1\<lparr>waves := fst r\<rparr>, snd r))
      else (c, None))"

section \<open>Force accumulator\<close>

text \<open>
  The values \<^verbatim>\<open>updatePhysics\<close> computes once per frame before the particle loop
  (lines 1707-1758) and reads in it.
\<close>

record locals =
  actualParticleCount :: nat
  waveBounds :: waveBounds
  forceMultiplier :: real
  interactionActive :: bool
  hasExplosions :: bool
  waveActive :: bool

definition waveCenter :: vec3 where
  "waveCenter = (0, 0, 0)"

definition randomDirection3D :: "real \<Rightarrow> real \<Rightarrow> vec3 \<Rightarrow> real \<Rightarrow> real \<Rightarrow> vec3" where
  \<comment> \<open>lines 1466-1502; the first two arguments are the two values drawn\<close>
  "randomDirection3D r1 r2 baseDirection maxAngleDegrees chaosStrengthArg =
     (let maxAngle = (maxAngleDegrees * pi) / 180;
          angle = r1 * maxAngle * chaosStrengthArg;
          azimuth = r2 * pi * 2;
          axis = (if \<bar>fst baseDirection\<bar> < 0.9 then (1, 0, 0) else (0, 1, 0));
          tempPerpendicular = normalizeV (crossVectors baseDirection axis);
          tempPerpendicular2 = normalizeV (crossVectors baseDirection tempPerpendicular);
          cosAngle = cos angle;
          sinAngle = sin angle;
          cosAzimuth = cos azimuth;
          sinAzimuth = sin azimuth
      in normalizeV
           (addScaledVector
              (addScaledVector (multiplyScalar baseDirection cosAngle)
                 tempPerpendicular (sinAngle * cosAzimuth))
              tempPerpendicular2 (sinAngle * sinAzimuth)))"

definition pointerForce :: "frame \<Rightarrow> config \<Rightarrow> real \<Rightarrow> nat \<Rightarrow> vec3 \<Rightarrow> vec3 \<Rightarrow> vec3" where
  \<comment> \<open>lines 1775-1840, inside \<^verbatim>\<open>if (interactionActive)\<close>: the new velocity\<close>
  "pointerForce f c forceMul i p v =
     (let d = subVectors p (mouse3D f);
          distanceSq = (case d of (dx, dy, dz) \<Rightarrow> dx * dx + dy * dy + dz * dz);
          interactionRadiusSq = interactionRadius c * interactionRadius c
      in if distanceSq < interactionRadiusSq then
           (let distance = sqrt distanceSq;
                baseDirection = normalizeV (subVectors p (mouse3D f));
                chaoticDirection =
                  randomDirection3D (mathRandom f i ChaosAngle) (mathRandom f i ChaosAzimuth)
                    baseDirection (chaosAngle c) (chaosStrength c);
                tangentA = crossVectors baseDirection (0, 0, 1);
                tangentB = (if vlength tangentA < 0.1
                            then crossVectors baseDirection (1, 0, 0) else tangentA);
                tangentN = normalizeV tangentB;
                tangent2 = normalizeV (crossVectors baseDirection tangentN);
                tangentialAngle = mathRandom f i TangentialAngle * pi * 2;
                tangentX = cos tangentialAngle;
                tangentY = sin tangentialAngle;
                tangent = addScaledVector (multiplyScalar tangentN tangentX) tangent2 tangentY;
                distanceFactor = 1 - distance / interactionRadius c;
                baseForce = distanceFactor * forceMul;
                forceVariation = 0.7 + mathRandom f i ForceVariation * 0.6;
                force = baseForce * forceVariation;
                radialForce = force * (1 - tangentialForceRatio c);
                tangentialForce = force * tangentialForceRatio c;
                zComponent = (mathRandom f i ZComponent - 0.5) * 2 * zAxisStrength c;
                finalDirection =
                  addScaledVector (multiplyScalar chaoticDirection radialForce) tangent tangentialForce
            in case finalDirection of (fx, fy, fz) \<Rightarrow> case v of (vx, vy, vz) \<Rightarrow>
                 (vx + fx * 0.2 * timeScale c,
                  vy + fy * 0.2 * timeScale c,
                  vz + (fz + zComponent) * 0.2 * timeScale c))
         else v)"

definition autonomousMotion :: "frame \<Rightarrow> config \<Rightarrow> nat \<Rightarrow> vec3 \<Rightarrow> vec3" where
  \<comment> \<open>lines 1845-1850\<close>
  "autonomousMotion f c i v =
     (if autonomousMotionStrength c > 0 \<and> mathRandom f i AutonomousGate < 0.3 then
        (let randomFactor = autonomousMotionStrength c * 0.3 * timeScale c
         in case v of (vx, vy, vz) \<Rightarrow>
              (vx + (mathRandom f i AutonomousX - 0.5) * randomFactor,
               vy + (mathRandom f i AutonomousY - 0.5) * randomFactor,
               vz + (mathRandom f i AutonomousZ - 0.5) * randomFactor))
      else v)"

text \<open>
  The loop \<^verbatim>\<open>for (const explosion of CONFIG.explosions)\<close> of lines 1855-1887 for
  particle \<open>i\<close>. \<open>dir\<close> is the read of \<^verbatim>\<open>scrollDirections\<close>, which the source does not
  guard; \<open>k\<close> counts the explosions passed. The state is the particle's velocity and its
  entries of \<^verbatim>\<open>explosionReturnTimes\<close> and \<^verbatim>\<open>explosionGlowEndTimes\<close> (\<open>None\<close> past the
  end of the array, where the source skips the update).
\<close>

definition explosionImpulse :: "frame \<Rightarrow> config \<Rightarrow> nat \<Rightarrow> vec3 \<Rightarrow> nat \<Rightarrow> vec3" where
  \<comment> \<open>lines 1860-1874: what explosion number \<open>k\<close> of the list adds to the velocity of
      particle \<open>i\<close>, whose entry of \<^verbatim>\<open>scrollDirections\<close> is \<open>dir\<close>\<close>
  "explosionImpulse f c i dir k =
     (case dir of (expDirX, expDirY, expDirZ) \<Rightarrow>
        (let randomFactor = 0.2;
             randX = (mathRandom f i (ExplosionX k) - 0.5) * randomFactor;
             randY = (mathRandom f i (ExplosionY k) - 0.5) * randomFactor;
             randZ = (mathRandom f i (ExplosionZ k) - 0.5) * randomFactor;
             impulseStrength = explosionForce c * 0.1
         in ((expDirX + randX) * impulseStrength,
             (expDirY + randY) * impulseStrength,
             (expDirZ + randZ) * impulseStrength)))"

definition addVectors :: "vec3 \<Rightarrow> vec3 \<Rightarrow> vec3" where
  "addVectors v w = (case v of (x, y, z) \<Rightarrow> case w of (a, b, c) \<Rightarrow> (x + a, y + b, z + c))"

fun explosionLoop ::
  "frame \<Rightarrow> config \<Rightarrow> nat \<Rightarrow> vec3 option \<Rightarrow> nat \<Rightarrow> explosion list
   \<Rightarrow> vec3 \<times> real option \<times> real option \<Rightarrow> (vec3 \<times> real option \<times> real option) option" where
  "explosionLoop f c i dir k [] st = Some st"
| "explosionLoop f c i dir k (e # es) (v, ret, glowEnd) =
     (if applied e then explosionLoop f c i dir (Suc k) es (v, ret, glowEnd)
      else case dir of
             None \<Rightarrow> None
           | Some d \<Rightarrow>
               (let v' = addVectors v (explosionImpulse f c i d k);
                    returnTime = nowPerf f + explosionReturnDelay c;
                    ret' = map_option (\<lambda>old. fround (max old returnTime)) ret;
                    glowEndTime = nowPerf f + explosionGlowDuration c;
                    glowEnd' = map_option (\<lambda>old. fround (max old glowEndTime)) glowEnd
                in explosionLoop f c i dir (Suc k) es (v', ret', glowEnd')))"

definition waveFactor :: "config \<Rightarrow> real \<Rightarrow> wave \<Rightarrow> real option" where
  \<comment> \<open>lines 1920-1930 and 2125-2134: the Gaussian factor of one wave at a distance from
      the wave centre, \<open>None\<close> beyond the cutoff\<close>
  "waveFactor c cachedWaveDistance w =
     (let waveSigma = waveWidth c / 2;
          waveCutoffDistance = 2 * waveSigma;
          waveInvSigma = (if waveSigma > 0 then 1.0 / waveSigma else 0);
          waveCenterRadius = radius w - waveWidth c / 2;
          distanceFromCenter = \<bar>cachedWaveDistance - waveCenterRadius\<bar>
      in if distanceFromCenter \<le> waveCutoffDistance then
           (let normalizedDistance = distanceFromCenter * waveInvSigma;
                normalizedDistanceSq = normalizedDistance * normalizedDistance
            in Some (exp (- waveForceFalloff c * normalizedDistanceSq)))
         else None)"

fun waveForceLoop :: "config \<Rightarrow> real \<Rightarrow> vec3 \<Rightarrow> wave list \<Rightarrow> vec3 \<times> real \<Rightarrow> vec3 \<times> real" where
  \<comment> \<open>lines 1918-1943: the summed force and \<^verbatim>\<open>totalWaveSizeFactor\<close>\<close>
  "waveForceLoop c wdist dir [] acc = acc"
| "waveForceLoop c wdist dir (w # ws) (tot, sizeFactor) =
     (case waveFactor c wdist w of
        None \<Rightarrow> waveForceLoop c wdist dir ws (tot, sizeFactor)
      | Some forceFactor \<Rightarrow>
          (let force = waveForce c * forceFactor * timeScale c
           in waveForceLoop c wdist dir ws (addScaledVector tot dir force, sizeFactor + forceFactor)))"

definition inBounds :: "waveBounds \<Rightarrow> real \<Rightarrow> bool" where
  \<comment> \<open>\<^verbatim>\<open>d >= waveBoundsMin && d <= waveBoundsMax\<close>\<close>
  "inBounds b d = (case b of None \<Rightarrow> False | Some (lo, hi) \<Rightarrow> lo \<le> d \<and> d \<le> hi)"

definition waveBlock :: "config \<Rightarrow> locals \<Rightarrow> vec3 \<Rightarrow> vec3 \<Rightarrow> (vec3 \<times> real) option" where
  \<comment> \<open>lines 1891-1950: the new velocity and \<^verbatim>\<open>totalWaveSizeFactor\<close>. At distance 0 from
      the wave centre \<^verbatim>\<open>invDistance\<close> is infinite and the direction NaN; a wave within
      its cutoff then adds NaN to the velocity\<close>
  "waveBlock c L p v =
     (if waveActive L then
        (let d = subVectors p waveCenter;
             waveDistanceSq = (case d of (dx, dy, dz) \<Rightarrow> dx * dx + dy * dy + dz * dz);
             cachedWaveDistance = sqrt waveDistanceSq
         in if inBounds (waveBounds L) cachedWaveDistance then
              (if cachedWaveDistance = 0 then
                 (if list_all (\<lambda>w. waveFactor c cachedWaveDistance w = None) (waves c)
                  then Some (v, 0) else None)
               else
                 (let invDistance = 1.0 / cachedWaveDistance;
                      directionToParticle = multiplyScalar d invDistance;
                      r = waveForceLoop c cachedWaveDistance directionToParticle (waves c) ((0, 0, 0), 0)
                  in Some (addScaledVector v (fst r) 1, snd r)))
            else Some (v, 0))
      else Some (v, 0))"

definition derivedSize :: "config \<Rightarrow> nat \<Rightarrow> real \<Rightarrow> real \<Rightarrow> real" where
  \<comment> \<open>lines 1954-1978: the value written to \<^verbatim>\<open>sizes[i]\<close>; the product
      \<^verbatim>\<open>i * 2654435761\<close> is exact in a JavaScript number for \<open>i\<close> below three million\<close>
  "derivedSize c i baseSize totalWaveSizeFactor =
     (if baseSize = 0 then
        (if totalWaveSizeFactor > 0 then
           (let minSize = pointSize c * (1 - sizeVariation c);
                maxSize = pointSize c * (1 + sizeVariation c);
                hash = real ((i * 2654435761) mod 2147483647) / 2147483647;
                invisibleBaseSize = minSize + hash * (maxSize - minSize);
                fadeFactor = min totalWaveSizeFactor 1.0
            in invisibleBaseSize * fadeFactor)
         else 0)
      else (let sizeMultiplier = 1.0 + totalWaveSizeFactor * 0.5 in baseSize * sizeMultiplier))"

section \<open>Integrator\<close>

definition integrate :: "frame \<Rightarrow> config \<Rightarrow> real option \<Rightarrow> vec3 \<Rightarrow> vec3 \<Rightarrow> vec3 \<Rightarrow> vec3 \<times> vec3" where
  \<comment> \<open>lines 2001-2062: the new position and velocity of a particle. \<open>returnTime\<close> is its
      entry of \<^verbatim>\<open>explosionReturnTimes\<close> (\<open>None\<close> past the end), \<open>target\<close> its entry of
      \<^verbatim>\<open>originalPositions\<close>, \<open>p\<close> its position after line 1984\<close>
  "integrate f c returnTime target p v =
     (let isInExplosionFlight = (case returnTime of None \<Rightarrow> False | Some r \<Rightarrow> r > nowPerf f)
      in if isInExplosionFlight then
           (let dt = 0.016 * timeScale c * explosionSpeed c;
                v' = multiplyScalar v 0.98
            in (addScaledVector p v' dt, v'))
         else
           (let displacement = subVectors target p;
                displacementLengthSq = lengthSq displacement;
                velocityLengthSq = (case v of (vx, vy, vz) \<Rightarrow> vx * vx + vy * vy + vz * vz);
                threshold = 0.001;
                thresholdSq = threshold * threshold
            in if displacementLengthSq < thresholdSq \<and> velocityLengthSq < thresholdSq
               then (target, (0, 0, 0))
               else
                 (let springForce = multiplyScalar displacement (springConstant c);
                      dt = 0.016 * timeScale c;
                      v1 = addScaledVector v springForce dt;
                      v2 = multiplyScalar v1 (damping c)
                  in (addScaledVector p v2 dt, v2))))"

definition writeAt :: "'a list \<Rightarrow> nat \<Rightarrow> 'a option \<Rightarrow> 'a list" where
  \<comment> \<open>the write-back of an entry read with \<open>readAt\<close>\<close>
  "writeAt xs i v = (case v of None \<Rightarrow> xs | Some x \<Rightarrow> xs[i := x])"

text \<open>
  What one pass of the particle loop computes for particle \<open>i\<close>: its entries of
  \<^verbatim>\<open>explosionReturnTimes\<close> and \<^verbatim>\<open>explosionGlowEndTimes\<close> (\<open>None\<close> past the end of the
  array), the value written to \<^verbatim>\<open>sizes[i]\<close> (\<open>None\<close>: nothing is written), its
  position and its velocity.
\<close>

record particle =
  explosionReturnUntil :: "real option"
  explosionGlowUntil :: "real option"
  newSize :: "real option"
  position :: vec3
  velocity :: vec3

definition pointerAndJitter :: "frame \<Rightarrow> config \<Rightarrow> locals \<Rightarrow> nat \<Rightarrow> vec3 \<Rightarrow> vec3 \<Rightarrow> vec3" where
  \<comment> \<open>lines 1774-1850: the velocity after the pointer force and the autonomous motion\<close>
  "pointerAndJitter f c L i p0 v0 =
     (let v1 = (if interactionActive L then pointerForce f c (forceMultiplier L) i p0 v0 else v0)
      in autonomousMotion f c i v1)"

definition particleStep ::
  "frame \<Rightarrow> config \<Rightarrow> locals \<Rightarrow> nat \<Rightarrow> vec3 option \<Rightarrow> real option \<Rightarrow> vec3 option \<Rightarrow> vec3 \<Rightarrow> vec3
   \<Rightarrow> real option \<Rightarrow> real option \<Rightarrow> particle option" where
  \<comment> \<open>lines 1767-2062 for one particle. \<open>dir\<close>, \<open>bs\<close>: the reads of
      \<^verbatim>\<open>scrollDirections\<close> and \<^verbatim>\<open>baseSizes\<close>; \<open>target\<close>: the entry of
      \<^verbatim>\<open>originalPositions\<close>, \<open>None\<close> when the guard of line 1994 skips the integrator;
      \<open>p0\<close>, \<open>v0\<close>: position and velocity; \<open>ret0\<close>, \<open>glowEnd0\<close>: the two timers\<close>
  "particleStep f c L i dir bs target p0 v0 ret0 glowEnd0 =
     (let v2 = pointerAndJitter f c L i p0 v0
      in case (if hasExplosions L
               then explosionLoop f c i dir 0 (explosions c) (v2, ret0, glowEnd0)
               else Some (v2, ret0, glowEnd0)) of
           None \<Rightarrow> None
         | Some (v3, ret, glowEnd) \<Rightarrow>
            (case waveBlock c L p0 v3 of
               None \<Rightarrow> None
             | Some (v4, totalWaveSizeFactor) \<Rightarrow>
                (let sz = (if waveActive L
                           then map_option (\<lambda>baseSize. derivedSize c i baseSize totalWaveSizeFactor) bs
                           else None);
                     p1 = addScaledVector p0 v4 (timeScale c);
                     r = (case target of
                            None \<Rightarrow> (p1, v4)
                          | Some tg \<Rightarrow> integrate f c ret tg p1 v4)
                 in Some \<lparr>explosionReturnUntil = ret, explosionGlowUntil = glowEnd,
                          newSize = sz, position = fst r, velocity = snd r\<rparr>)))"

definition physicsBody :: "frame \<Rightarrow> locals \<Rightarrow> nat \<Rightarrow> sim \<Rightarrow> sim step" where
  \<comment> \<open>one pass of the particle loop, lines 1763-2066: the reads, the step, the writes\<close>
  "physicsBody f L i s =
     (if length (positions s) \<le> i then Break
      else case readAt (velocities s) i of
        None \<Rightarrow> Fault
      | Some v0 \<Rightarrow>
         (case particleStep f (CONFIG s) L i (readAt (scrollDirections s) i) (readAt (baseSizes s) i)
                 (if length (originalPositions s) \<le> i \<or> length (velocities s) \<le> i then None
                  else Some (originalPositions s ! i))
                 (positions s ! i) v0
                 (readAt (explosionReturnTimes s) i) (readAt (explosionGlowEndTimes s) i) of
            None \<Rightarrow> Fault
          | Some q \<Rightarrow>
              Continue (s\<lparr>explosionReturnTimes :=
                            writeAt (explosionReturnTimes s) i (explosionReturnUntil q),
                          explosionGlowEndTimes :=
                            writeAt (explosionGlowEndTimes s) i (explosionGlowUntil q),
                          sizes := writeAt (sizes s) i (newSize q),
                          positions := (positions s)[i := position q],
                          velocities := (velocities s)[i := velocity q]\<rparr>)))"

section \<open>Attribute deriver\<close>

definition distanceBody :: "frame \<Rightarrow> nat \<Rightarrow> sim \<Rightarrow> sim step" where
  \<comment> \<open>lines 1737-1747\<close>
  "distanceBody f i s =
     (if length (positions s) \<le> i then Break
      else (let dz = (case positions s ! i of (x, y, z) \<Rightarrow> z) - cameraZ f;
                distance = \<bar>dz\<bar>
            in Continue (s\<lparr>distanceBuffer := (distanceBuffer s)[i := distance]\<rparr>)))"

definition baseBrightness :: "config \<Rightarrow> real \<Rightarrow> real option \<Rightarrow> real option \<Rightarrow> real" where
  \<comment> \<open>lines 2093-2111: \<^verbatim>\<open>baseBrightness\<close> after the test for invisible points. \<open>bs\<close> is
      the entry of \<^verbatim>\<open>baseSizes\<close> (\<open>None\<close> past the end, where the source skips the
      test), \<open>sz\<close> the read of \<^verbatim>\<open>sizes[i]\<close>, with \<^verbatim>\<open>sizes[i] || 0\<close> for a read past the end\<close>
  "baseBrightness c distance bs sz =
     (let fixedMinDistance = 0;
          fixedMaxDistance = 70;
          distanceRange = fixedMaxDistance - fixedMinDistance;
          normalizedDistance =
            (if distanceRange > 0 then (distance - fixedMinDistance) / distanceRange else 0);
          clampedNormalizedDistance = max 0 (min 1 normalizedDistance);
          b = 1.0 - clampedNormalizedDistance * depthDarkeningStrength c
      in case bs of
           None \<Rightarrow> b
         | Some baseSize \<Rightarrow>
             (if baseSize = 0 then
                (let currentSize = (case sz of None \<Rightarrow> 0 | Some z \<Rightarrow> z)
                 in if currentSize = 0 then 0 else b)
              else b))"

fun waveGlowLoop :: "config \<Rightarrow> real \<Rightarrow> wave list \<Rightarrow> real \<Rightarrow> real" where
  \<comment> \<open>lines 2123-2140\<close>
  "waveGlowLoop c wdist [] totalWaveGlow = totalWaveGlow"
| "waveGlowLoop c wdist (w # ws) totalWaveGlow =
     (case waveFactor c wdist w of
        None \<Rightarrow> waveGlowLoop c wdist ws totalWaveGlow
      | Some glowFactor \<Rightarrow>
          (let waveGlow = waveGlowIntensity c * glowFactor
           in waveGlowLoop c wdist ws (totalWaveGlow + waveGlow)))"

definition totalWaveGlow :: "config \<Rightarrow> locals \<Rightarrow> vec3 option \<Rightarrow> real option" where
  \<comment> \<open>lines 2114-2145; \<open>p\<close> is the read of \<^verbatim>\<open>positionsArray\<close>, which the source does
      not guard here\<close>
  "totalWaveGlow c L p =
     (if waveActive L then
        (case p of
           None \<Rightarrow> None
         | Some pos \<Rightarrow>
             (let d = subVectors pos waveCenter;
                  cachedWaveDistance = sqrt (case d of (dx, dy, dz) \<Rightarrow> dx * dx + dy * dy + dz * dz)
              in if inBounds (waveBounds L) cachedWaveDistance
                 then Some (min (waveGlowLoop c cachedWaveDistance (waves c) 0) (waveGlowIntensity c))
                 else Some 0))
      else Some 0)"

definition scaledBrightness :: "config \<Rightarrow> nat \<Rightarrow> real \<Rightarrow> real" where
  \<comment> \<open>lines 2148-2155: \<^verbatim>\<open>scaledBrightness\<close> from \<^verbatim>\<open>baseBrightness\<close>\<close>
  "scaledBrightness c i b =
     (let brightnessScale = maxBrightness c;
          scaled = b * brightnessScale;
          isOutsideSVG = (i \<ge> particleCount c)
      in if isOutsideSVG \<and> maxBrightness c < 0.99 then scaled * 0.5 else scaled)"

definition explosionGlow :: "frame \<Rightarrow> config \<Rightarrow> real option \<Rightarrow> real option" where
  \<comment> \<open>lines 2161-2170: what is added to the brightness; \<open>glowEnd\<close> is the entry of
      \<^verbatim>\<open>explosionGlowEndTimes\<close>. With a zero \<^verbatim>\<open>explosionGlowDuration\<close> the fade factor is
      infinite\<close>
  "explosionGlow f c glowEnd =
     (if explosionEnabled c then
        (case glowEnd of
           None \<Rightarrow> Some 0
         | Some glowEndTime \<Rightarrow>
             (if glowEndTime > nowPerf f then
                (if explosionGlowDuration c = 0 then None
                 else (let remainingTime = glowEndTime - nowPerf f;
                           fadeFactor = remainingTime / explosionGlowDuration c
                       in Some (explosionGlowIntensity c * fadeFactor)))
              else Some 0))
      else Some 0)"

definition finalBrightness ::
  "frame \<Rightarrow> config \<Rightarrow> locals \<Rightarrow> nat \<Rightarrow> real \<Rightarrow> real option \<Rightarrow> real option \<Rightarrow> vec3 option
   \<Rightarrow> real option \<Rightarrow> real option" where
  \<comment> \<open>lines 2093-2170 and 2199: the value written to the three colour channels of
      particle \<open>i\<close>, from its entries of \<^verbatim>\<open>distanceBuffer\<close>, \<^verbatim>\<open>baseSizes\<close>, \<^verbatim>\<open>sizes\<close>,
      \<^verbatim>\<open>positionsArray\<close> and \<^verbatim>\<open>explosionGlowEndTimes\<close>\<close>
  "finalBrightness f c L i distance bs sz p glowEnd =
     (case totalWaveGlow c L p of
        None \<Rightarrow> None
      | Some wg \<Rightarrow>
          (case explosionGlow f c glowEnd of
             None \<Rightarrow> None
           | Some eg \<Rightarrow>
               Some (min (scaledBrightness c i (baseBrightness c distance bs sz) + wg + eg) 1.0)))"

definition particleGlow :: "config \<Rightarrow> bool \<Rightarrow> bool \<Rightarrow> vec3 option \<Rightarrow> real option option" where
  \<comment> \<open>lines 2173-2196: \<open>Some (Some g)\<close> when \<open>g\<close> is written to \<^verbatim>\<open>glows[i]\<close>, \<open>Some None\<close>
      when nothing is written; the read of \<^verbatim>\<open>velocities\<close> is not guarded\<close>
  "particleGlow c glowIsDynamic staticNeedsUpdate vel =
     (if glowIsDynamic then
        (case vel of
           None \<Rightarrow> None
         | Some (vx, vy, vz) \<Rightarrow>
             (let velocityMag = sqrt (vx * vx + vy * vy + vz * vz)
              in Some (Some (min (glowBrightness c + velocityMag * velocityGlowMultiplier c) 1.0))))
      else if staticNeedsUpdate then Some (Some (min (glowBrightness c) 1.0))
      else Some None)"

definition colorBody :: "frame \<Rightarrow> locals \<Rightarrow> bool \<Rightarrow> nat \<Rightarrow> sim \<Rightarrow> sim step" where
  \<comment> \<open>one pass of the colour loop, lines 2089-2205; the loop also ends at
      \<^verbatim>\<open>distanceBuffer.length\<close>\<close>
  "colorBody f L glowIsDynamic i s =
     (if length (distanceBuffer s) \<le> i then Break
      else if length (colors s) \<le> i then Break
      else case finalBrightness f (CONFIG s) L i (distanceBuffer s ! i) (readAt (baseSizes s) i)
                  (readAt (sizes s) i) (readAt (positions s) i)
                  (readAt (explosionGlowEndTimes s) i) of
        None \<Rightarrow> Fault
      | Some b \<Rightarrow>
         (case particleGlow (CONFIG s) glowIsDynamic (glowStaticNeedsUpdate s)
                 (readAt (velocities s) i) of
            None \<Rightarrow> Fault
          | Some g \<Rightarrow>
              Continue (s\<lparr>glows := writeAt (glows s) i g,
                          colors := (colors s)[i := (b, b, b)]\<rparr>)))"

section \<open>The frame step\<close>

definition cleanExplosions :: "explosion list \<Rightarrow> explosion list" where
  \<comment> \<open>lines 2214-2221\<close>
  "cleanExplosions es =
     (if length es > 0
      then filter (\<lambda>e. \<not> applied e) (map (\<lambda>e. e\<lparr>applied := True\<rparr>) es)
      else es)"

definition actualCount :: "sim \<Rightarrow> nat" where
  \<comment> \<open>lines 1704-1716: \<^verbatim>\<open>actualParticleCount\<close> of the settled frame\<close>
  "actualCount s =
     min (totalParticleCount s) (min (length (positions s))
       (min (length (originalPositions s)) (min (length (startPositions s))
         (min (length (velocities s)) (length (colors s))))))"

definition frameLocals :: "frame \<Rightarrow> waveBounds \<Rightarrow> sim \<Rightarrow> locals" where
  \<comment> \<open>lines 1707-1758\<close>
  "frameLocals f bounds s =
     (let c = CONFIG s;
          speed = (case mouseVelocity s of (mx, my) \<Rightarrow> sqrt (mx * mx + my * my))
      in \<lparr>actualParticleCount = actualCount s,
          waveBounds = bounds,
          forceMultiplier = min (speed * forceStrength c) (forceStrength c * 2),
          interactionActive = (isPointerInsideCanvas f \<and> (isPointerDown f \<or> speed > 0.001)),
          hasExplosions = (explosionEnabled c \<and> length (explosions c) > 0),
          waveActive = (waveEnabled c \<and> length (waves c) > 0)\<rparr>)"

definition resetSizes :: "locals \<Rightarrow> sim \<Rightarrow> sim" where
  \<comment> \<open>lines 2068-2075\<close>
  "resetSizes L s =
     (let s1 = (if \<not> waveActive L \<and> wasWaveActive s then
                  (let count = min (length (sizes s)) (length (baseSizes s))
                   in if count > 0
                      then s\<lparr>sizes := take count (baseSizes s) @ drop count (sizes s)\<rparr>
                      else s)
                else s)
      in s1\<lparr>wasWaveActive := waveActive L\<rparr>)"

definition refreshGlowCache :: "sim \<Rightarrow> sim" where
  \<comment> \<open>lines 2077-2081\<close>
  "refreshGlowCache s =
     (let c = CONFIG s
      in if cachedGlowBrightness s \<noteq> glowBrightness c
            \<or> cachedVelocityGlowMultiplier s \<noteq> velocityGlowMultiplier c
         then s\<lparr>cachedGlowBrightness := glowBrightness c,
                cachedVelocityGlowMultiplier := velocityGlowMultiplier c,
                glowStaticNeedsUpdate := True\<rparr>
         else s)"

definition startFrame :: "frame \<Rightarrow> sim \<Rightarrow> locals \<times> sim" where
  \<comment> \<open>lines 1645-1758 without the distance loop: the wave block, \<^verbatim>\<open>actualParticleCount\<close>,
      the distance buffer, and the values read by the loops\<close>
  "startFrame f s0 =
     (let wl = waveLogic f (CONFIG s0);
          s1 = s0\<lparr>CONFIG := fst wl\<rparr>;
          L = frameLocals f (snd wl) s1;
          n = actualParticleCount L;
          s2 = (if length (distanceBuffer s1) < n
                then s1\<lparr>distanceBuffer := replicate n 0\<rparr> else s1)
      in (L, s2))"

definition endFrame :: "bool \<Rightarrow> sim \<Rightarrow> sim" where
  \<comment> \<open>lines 2208-2221\<close>
  "endFrame glowIsDynamic s6 =
     (let s7 = (if \<not> glowIsDynamic \<and> glowStaticNeedsUpdate s6
                then s6\<lparr>glowStaticNeedsUpdate := False\<rparr> else s6)
      in s7\<lparr>CONFIG := (CONFIG s7)\<lparr>explosions := cleanExplosions (explosions (CONFIG s7))\<rparr>\<rparr>)"

definition settledPhysics :: "frame \<Rightarrow> sim \<Rightarrow> sim option" where
  \<comment> \<open>lines 1645-2232: \<^verbatim>\<open>updatePhysics\<close> after the loading branch\<close>
  "settledPhysics f s0 =
     (case startFrame f s0 of
        (L, s2) \<Rightarrow>
          (let n = actualParticleCount L
           in case forLoop 0 n (distanceBody f) s2 of
                None \<Rightarrow> None
              | Some s3 \<Rightarrow>
                 (case forLoop 0 n (physicsBody f L) s3 of
                    None \<Rightarrow> None
                  | Some s4 \<Rightarrow>
                     (let s5 = refreshGlowCache (resetSizes L s4);
                          glowIsDynamic = (velocityGlowMultiplier (CONFIG s5) > 0)
                      in case (if hasColorAttribute s5
                               then forLoop 0 n (colorBody f L glowIsDynamic) s5
                               else Some s5) of
                           None \<Rightarrow> None
                         | Some s6 \<Rightarrow> Some (endFrame glowIsDynamic s6)))))"

definition finishLoading :: "frame \<Rightarrow> config \<Rightarrow> config" where
  \<comment> \<open>lines 1635-1640: the writes to \<^verbatim>\<open>CONFIG\<close> when \<^verbatim>\<open>progress >= 1.0\<close>\<close>
  "finishLoading f c =
     (let c1 = c\<lparr>isLoadingAnimation := False\<rparr>
      in if waveEnabled c1 \<and> lastWaveTime c1 = None
         then c1\<lparr>lastWaveTime := Some (nowDate f)\<rparr> else c1)"

definition resetMouseVelocity :: "sim \<Rightarrow> sim" where
  \<comment> \<open>lines 1535-1540\<close>
  "resetMouseVelocity s =
     s\<lparr>mouseVelocity := (if mouseMovedThisFrame s then mouseVelocity s else (0, 0)),
       mouseMovedThisFrame := False\<rparr>"

definition updatePhysics :: "frame \<Rightarrow> sim \<Rightarrow> sim option" where
  \<comment> \<open>lines 1529-2233. \<open>None\<close>: a NaN or an infinity arose, and the frame is outside the
      model\<close>
  "updatePhysics f s0 =
     (if isInitialized s0 \<and> hasGeometry s0 then
        (let s1 = resetMouseVelocity s0
         in case (if isLoadingAnimation (CONFIG s1) then loadAnimationStartTime (CONFIG s1)
                  else None) of
              Some startT \<Rightarrow>
                (case loadingAnimation f startT s1 of
                   None \<Rightarrow> None
                 | Some (s2, progress) \<Rightarrow>
                     (if progress \<ge> 1.0
                      then settledPhysics f (s2\<lparr>CONFIG := finishLoading f (CONFIG s2)\<rparr>)
                      else Some s2))
            | None \<Rightarrow> settledPhysics f s1)
      else Some s0)"

section \<open>Frame conditions\<close>

text \<open>
  What a pass of the loading loops leaves as it is: every module-level variable but
  \<open>positions\<close>, \<open>colors\<close> and \<open>glows\<close>, and the lengths of these three.
\<close>

definition keptByLoading :: "sim \<Rightarrow> sim \<Rightarrow> bool" where
  "keptByLoading s t =
     (CONFIG t = CONFIG s \<and> velocities t = velocities s
      \<and> originalPositions t = originalPositions s
      \<and> baseOriginalPositions t = baseOriginalPositions s
      \<and> startPositions t = startPositions s
      \<and> scrollDirections t = scrollDirections s
      \<and> sizes t = sizes s \<and> baseSizes t = baseSizes s
      \<and> explosionReturnTimes t = explosionReturnTimes s
      \<and> explosionGlowEndTimes t = explosionGlowEndTimes s
      \<and> hasColorAttribute t = hasColorAttribute s
      \<and> totalParticleCount t = totalParticleCount s
      \<and> length (positions t) = length (positions s)
      \<and> length (colors t) = length (colors s)
      \<and> length (glows t) = length (glows s))"

text \<open>
  What a pass of the loops of the settled frame (distances, particles, colours) leaves as
  it is: the configuration, the arrays that are only read, and the length of every array.
\<close>

definition keptByLoops :: "sim \<Rightarrow> sim \<Rightarrow> bool" where
  "keptByLoops s t =
     (CONFIG t = CONFIG s
      \<and> hasColorAttribute t = hasColorAttribute s
      \<and> totalParticleCount t = totalParticleCount s
      \<and> glowStaticNeedsUpdate t = glowStaticNeedsUpdate s
      \<and> wasWaveActive t = wasWaveActive s
      \<and> originalPositions t = originalPositions s
      \<and> baseOriginalPositions t = baseOriginalPositions s
      \<and> startPositions t = startPositions s
      \<and> scrollDirections t = scrollDirections s
      \<and> baseSizes t = baseSizes s
      \<and> length (positions t) = length (positions s)
      \<and> length (velocities t) = length (velocities s)
      \<and> length (colors t) = length (colors s)
      \<and> length (sizes t) = length (sizes s)
      \<and> length (glows t) = length (glows s)
      \<and> length (explosionReturnTimes t) = length (explosionReturnTimes s)
      \<and> length (explosionGlowEndTimes t) = length (explosionGlowEndTimes s)
      \<and> length (distanceBuffer t) = length (distanceBuffer s))"

text \<open>
  A sufficient condition for a settled frame to stay inside the model: the unguarded read
  of \<^verbatim>\<open>scrollDirections\<close> is in range when explosions are processed, no processed
  particle sits on the wave centre while waves are enabled, and the glow duration is not
  zero.
\<close>

definition staysInModel :: "sim \<Rightarrow> bool" where
  "staysInModel s =
     ((explosionEnabled (CONFIG s) \<and> explosions (CONFIG s) \<noteq> []
         \<longrightarrow> actualCount s \<le> length (scrollDirections s))
      \<and> (waveEnabled (CONFIG s) \<longrightarrow> (\<forall>i < actualCount s. positions s ! i \<noteq> (0, 0, 0)))
      \<and> explosionGlowDuration (CONFIG s) \<noteq> 0)"

text \<open>
  Two states hold the same entries for particle \<open>i\<close> in the arrays the particle loop
  writes.
\<close>

definition sameParticle :: "nat \<Rightarrow> sim \<Rightarrow> sim \<Rightarrow> bool" where
  "sameParticle i s t =
     (positions t ! i = positions s ! i
      \<and> velocities t ! i = velocities s ! i
      \<and> sizes t ! i = sizes s ! i
      \<and> explosionReturnTimes t ! i = explosionReturnTimes s ! i
      \<and> explosionGlowEndTimes t ! i = explosionGlowEndTimes s ! i)"

section \<open>Example states\<close>

text \<open>The initial value of \<^verbatim>\<open>CONFIG\<close>, lines 65-117.\<close>

definition defaultConfig :: config where
  "defaultConfig =
     \<lparr>particleCount = 10000, forceStrength = 100.0, interactionRadius = 5.0,
      springConstant = 0.35, damping = 0.90, timeScale = 0.90, pointSize = 4,
      sizeVariation = 0.5, autonomousMotionStrength = 0.04, chaosAngle = 45,
      chaosStrength = 0.8, tangentialForceRatio = 0.4, zAxisStrength = 0.6,
      isLoadingAnimation = True, loadAnimationStartTime = None,
      loadAnimationDuration = 4000,
      easingP1x = 0.42, easingP1y = 0, easingP2x = 0.58, easingP2y = 1,
      waveEnabled = False, waveInterval = 8000, waveSpeed = 6.0, waveWidth = 1.6,
      waveForce = 0.001, waveGlowIntensity = 0.75, waveForceFalloff = 0.5,
      lastWaveTime = None, waves = [],
      maxBrightness = 1.0, depthDarkeningStrength = 1.85,
      glowBrightness = 0.19, velocityGlowMultiplier = 0.10,
      explosionEnabled = True, explosionForce = 10.0, explosionSpeed = 0.20,
      explosionReturnDelay = 1200, explosionGlowIntensity = 0.8,
      explosionGlowDuration = 500, explosions = []\<rparr>"

text \<open>
  A frame at time \<open>t\<close> on both clocks: the camera of lines 190-205 over a window of
  aspect 3:4 (the viewport is 15 wide and 20 high, its diagonal 25), the pointer outside
  the canvas, and every draw of \<^verbatim>\<open>Math.random()\<close> equal to 1/2.
\<close>

definition exampleFrame :: "real \<Rightarrow> frame" where
  "exampleFrame t =
     \<lparr>nowDate = t, nowPerf = t,
      cameraLeft = - 15 / 2, cameraRight = 15 / 2, cameraTop = 10, cameraBottom = - 10,
      cameraZ = 12, mouse3D = (0, 0, 0), isPointerInsideCanvas = False, isPointerDown = False,
      mathRandom = (\<lambda>i d. 1 / 2)\<rparr>"

text \<open>
  A simulation of two particles with configuration \<open>c\<close>: particle 0 rests on its target
  \<open>(3, 4, 0)\<close>, particle 1 rests on its target \<open>(0, 0, -58)\<close>, at distance 70 from the
  camera; no explosion timer is pending.
\<close>

definition exampleSim :: "config \<Rightarrow> sim" where
  "exampleSim c =
     \<lparr>CONFIG = c, isInitialized = True, hasGeometry = True, hasColorAttribute = True,
      totalParticleCount = 2,
      positions = [(3, 4, 0), (0, 0, - 58)],
      originalPositions = [(3, 4, 0), (0, 0, - 58)],
      baseOriginalPositions = [(3, 4, 0), (0, 0, - 58)],
      startPositions = [(30, 40, 0), (0, 0, 90)],
      scrollDirections = [(1, 0, 0), (0, 0, - 1)],
      velocities = [(0, 0, 0), (0, 0, 0)],
      colors = [(1, 1, 1), (1, 1, 1)],
      sizes = [4, 4], baseSizes = [4, 4], glows = [0, 0],
      explosionGlowEndTimes = [0, 0], explosionReturnTimes = [0, 0], distanceBuffer = [0, 0],
      cachedGlowBrightness = 0.19, cachedVelocityGlowMultiplier = 0.10,
      glowStaticNeedsUpdate = False, wasWaveActive = False,
      mouseVelocity = (0, 0), mouseMovedThisFrame = False\<rparr>"

text \<open>
  The example simulation, settled, in the default configuration: as it is, and with one
  explosion queued by a click.
\<close>

definition settledSim :: sim where
  "settledSim = exampleSim (defaultConfig\<lparr>isLoadingAnimation := False\<rparr>)"

definition explodingSim :: sim where
  "explodingSim =
     exampleSim (defaultConfig
       \<lparr>isLoadingAnimation := False,
        explosions := [\<lparr>exPosition = (0, 0, 0), exStartTime = 4990, exId = 0, applied = False\<rparr>]\<rparr>)"

text \<open>
  The settled example with both particles invisible (\<^verbatim>\<open>baseSizes[i] === 0\<close>, as for the points
  that only a wave reveals), with a given list of queued explosions.
\<close>

definition hiddenSim :: "explosion list \<Rightarrow> sim" where
  "hiddenSim es =
     (exampleSim (defaultConfig\<lparr>isLoadingAnimation := False, explosions := es\<rparr>))
       \<lparr>sizes := [0, 0], baseSizes := [0, 0]\<rparr>"

section \<open>Rounding to single precision\<close>

lemma roundHalfEven_bounds:
  "of_int (roundHalfEven y) - 1 / 2 \<le> y" "y \<le> of_int (roundHalfEven y) + 1 / 2"
  unfolding roundHalfEven_def Let_def by (auto; linarith)+

lemma roundHalfEven_of_int [simp]: "roundHalfEven (of_int k) = k"
  by (simp add: roundHalfEven_def)

lemma roundHalfEven_mono:
  assumes "x \<le> y"
  shows "roundHalfEven x \<le> roundHalfEven y"
proof (rule ccontr)
  assume "\<not> roundHalfEven x \<le> roundHalfEven y"
  then have "roundHalfEven y + 1 \<le> roundHalfEven x" by simp
  then have "(of_int (roundHalfEven y) :: real) + 1 \<le> of_int (roundHalfEven x)"
    by (metis of_int_1 of_int_add of_int_le_iff)
  with roundHalfEven_bounds(1) [of x] roundHalfEven_bounds(2) [of y] assms
  have "x = y" by linarith
  with \<open>\<not> roundHalfEven x \<le> roundHalfEven y\<close> show False by simp
qed

lemma binade_bounds: "- 126 \<le> binade n a" "binade n a \<le> int n - 126"
  by (induction n) auto

lemma binade_lower: "- 126 < binade n a \<Longrightarrow> 2 powi (binade n a) \<le> a"
  by (induction n) (auto split: if_splits)

lemma binade_upper: "binade n a < int n - 126 \<Longrightarrow> a < 2 powi (binade n a + 1)"
proof (induction n)
  case 0
  then show ?case by simp
next
  case (Suc n)
  show ?case
  proof (cases "2 powi (int (Suc n) - 126) \<le> a")
    case True
    with Suc.prems show ?thesis by simp
  next
    case False
    then have b: "binade (Suc n) a = binade n a" by simp
    show ?thesis
    proof (cases "binade n a < int n - 126")
      case True
      with Suc.IH b show ?thesis by simp
    next
      case False
      with binade_bounds(2) [of n a] have "binade n a = int n - 126" by simp
      with b \<open>\<not> 2 powi (int (Suc n) - 126) \<le> a\<close> show ?thesis
        by (simp add: add.commute)
    qed
  qed
qed

lemma binade_eq:
  assumes "- 126 \<le> e" and "e \<le> int n - 126"
    and "- 126 < e \<longrightarrow> 2 powi e \<le> a"
    and "e < int n - 126 \<longrightarrow> a < 2 powi (e + 1)"
  shows "binade n a = e"
proof (rule ccontr)
  assume ne: "binade n a \<noteq> e"
  let ?b = "binade n a"
  show False
  proof (cases "?b < e")
    case True
    with assms(1,2) binade_bounds(1) [of n a] have "2 powi e \<le> a" "a < 2 powi (?b + 1)"
      using assms(3) binade_upper [of n a] by auto
    moreover have "(2::real) powi (?b + 1) \<le> 2 powi e"
      using True by (intro power_int_increasing) auto
    ultimately show False by linarith
  next
    case False
    with ne have gt: "e < ?b" by simp
    with assms(1) binade_bounds(2) [of n a] have "2 powi ?b \<le> a" "a < 2 powi (e + 1)"
      using assms(4) binade_lower [of n a] by auto
    moreover have "(2::real) powi (e + 1) \<le> 2 powi ?b"
      using gt by (intro power_int_increasing) auto
    ultimately show False by linarith
  qed
qed

lemma fround_toGrid: "fround x = toGrid (binade 253 \<bar>x\<bar>) x"
  by (simp add: fround_def)

lemma toGrid_mono: "x \<le> y \<Longrightarrow> toGrid e x \<le> toGrid e y"
  unfolding toGrid_def
  by (intro mult_right_mono roundHalfEven_mono divide_right_mono)
     (simp_all add: roundHalfEven_mono divide_right_mono)

lemma toGrid_fix: "toGrid e (of_int m * 2 powi (e - 23)) = of_int m * 2 powi (e - 23)"
  by (simp add: toGrid_def)

lemma powi_split: "(2::real) powi e = of_int (2 ^ 23) * 2 powi (e - 23)"
  "(2::real) powi (e + 1) = of_int (2 ^ 24) * 2 powi (e - 23)"
proof -
  have "(2::real) powi e = 2 powi (23 + (e - 23))" by simp
  also have "\<dots> = 2 powi 23 * 2 powi (e - 23)" by (subst power_int_add) simp_all
  finally show "(2::real) powi e = of_int (2 ^ 23) * 2 powi (e - 23)" by simp
  have "e + 1 = 24 + (e - 23)" by simp
  then have "(2::real) powi (e + 1) = 2 powi (24 + (e - 23))" by (rule arg_cong)
  also have "\<dots> = 2 powi 24 * 2 powi (e - 23)" by (subst power_int_add) simp_all
  finally show "(2::real) powi (e + 1) = of_int (2 ^ 24) * 2 powi (e - 23)" by simp
qed

lemma toGrid_pow [simp]: "toGrid e (2 powi e) = 2 powi e" "toGrid e (2 powi (e + 1)) = 2 powi (e + 1)"
  "toGrid e (- (2 powi e)) = - (2 powi e)" "toGrid e (- (2 powi (e + 1))) = - (2 powi (e + 1))"
proof -
  show "toGrid e (2 powi e) = 2 powi e"
    by (subst (1 2) powi_split(1) [of e]) (rule toGrid_fix)
  show "toGrid e (2 powi (e + 1)) = 2 powi (e + 1)"
    by (subst (1 2) powi_split(2) [of e]) (rule toGrid_fix)
  have "toGrid e (of_int (- (2 ^ 23)) * 2 powi (e - 23)) = of_int (- (2 ^ 23)) * 2 powi (e - 23)"
    by (rule toGrid_fix)
  then show "toGrid e (- (2 powi e)) = - (2 powi e)"
    by (subst (1 2) powi_split(1) [of e]) simp
  have "toGrid e (of_int (- (2 ^ 24)) * 2 powi (e - 23)) = of_int (- (2 ^ 24)) * 2 powi (e - 23)"
    by (rule toGrid_fix)
  then show "toGrid e (- (2 powi (e + 1))) = - (2 powi (e + 1))"
    by (subst (1 2) powi_split(2) [of e]) simp
qed

lemma toGrid_le: "x \<le> 2 powi (e + 1) \<Longrightarrow> toGrid e x \<le> 2 powi (e + 1)"
  and toGrid_ge: "- (2 powi (e + 1)) \<le> x \<Longrightarrow> - (2 powi (e + 1)) \<le> toGrid e x"
  and toGrid_ge_pow: "2 powi e \<le> x \<Longrightarrow> 2 powi e \<le> toGrid e x"
  and toGrid_le_neg_pow: "x \<le> - (2 powi e) \<Longrightarrow> toGrid e x \<le> - (2 powi e)"
  using toGrid_mono [of x "2 powi (e + 1)" e] toGrid_mono [of "- (2 powi (e + 1))" x e]
    toGrid_mono [of "2 powi e" x e] toGrid_mono [of x "- (2 powi e)" e]
  by simp_all

lemma fround_mono:
  assumes "x \<le> y"
  shows "fround x \<le> fround y"
proof -
  let ?ex = "binade 253 \<bar>x\<bar>" and ?ey = "binade 253 \<bar>y\<bar>"
  consider "?ex = ?ey" | "?ex < ?ey" | "?ey < ?ex" by linarith
  then show ?thesis
  proof cases
    case 1
    with assms show ?thesis by (simp add: fround_toGrid toGrid_mono)
  next
    case 2
    with binade_bounds [of 253 "\<bar>x\<bar>"] binade_bounds [of 253 "\<bar>y\<bar>"]
    have "2 powi ?ey \<le> \<bar>y\<bar>" "\<bar>x\<bar> < 2 powi (?ex + 1)"
      using binade_lower [of 253 "\<bar>y\<bar>"] binade_upper [of 253 "\<bar>x\<bar>"] by auto
    moreover have le: "(2::real) powi (?ex + 1) \<le> 2 powi ?ey"
      using 2 by (intro power_int_increasing) auto
    ultimately have "2 powi ?ey \<le> y" using assms by linarith
    then have "2 powi ?ey \<le> fround y" unfolding fround_toGrid by (rule toGrid_ge_pow)
    moreover from \<open>\<bar>x\<bar> < 2 powi (?ex + 1)\<close> have "fround x \<le> 2 powi (?ex + 1)"
      unfolding fround_toGrid by (intro toGrid_le) linarith
    ultimately show ?thesis using le by linarith
  next
    case 3
    with binade_bounds [of 253 "\<bar>x\<bar>"] binade_bounds [of 253 "\<bar>y\<bar>"]
    have "2 powi ?ex \<le> \<bar>x\<bar>" "\<bar>y\<bar> < 2 powi (?ey + 1)"
      using binade_lower [of 253 "\<bar>x\<bar>"] binade_upper [of 253 "\<bar>y\<bar>"] by auto
    moreover have le: "(2::real) powi (?ey + 1) \<le> 2 powi ?ex"
      using 3 by (intro power_int_increasing) auto
    ultimately have "x \<le> - (2 powi ?ex)" using assms by linarith
    then have "fround x \<le> - (2 powi ?ex)" unfolding fround_toGrid by (rule toGrid_le_neg_pow)
    moreover from \<open>\<bar>y\<bar> < 2 powi (?ey + 1)\<close> have "- (2 powi (?ey + 1)) \<le> fround y"
      unfolding fround_toGrid by (intro toGrid_ge) linarith
    ultimately show ?thesis using le by linarith
  qed
qed


lemma fround_idem: "fround (fround x) = fround x"
proof -
  let ?e = "binade 253 \<bar>x\<bar>"
  let ?g = "fround x"
  let ?e' = "binade 253 \<bar>?g\<bar>"
  define m where "m = roundHalfEven (x / 2 powi (?e - 23))"
  have g: "?g = of_int m * 2 powi (?e - 23)" by (simp add: fround_toGrid toGrid_def m_def)
  have "\<exists>k. ?g = of_int k * 2 powi (?e' - 23)"
  proof (cases "?e' \<le> ?e")
    case True
    then have "(2::real) powi (?e - 23) = 2 powi ((?e - ?e') + (?e' - 23))" by simp
    also have "\<dots> = 2 powi (?e - ?e') * 2 powi (?e' - 23)" by (subst power_int_add) simp_all
    also have "(2::real) powi (?e - ?e') = of_int (2 ^ nat (?e - ?e'))"
      using True by (simp add: power_int_def)
    finally have "?g = of_int (m * 2 ^ nat (?e - ?e')) * 2 powi (?e' - 23)"
      unfolding g by simp
    then show ?thesis ..
  next
    case False
    then have lt: "?e < ?e'" by simp
    with binade_bounds [of 253 "\<bar>x\<bar>"] binade_bounds [of 253 "\<bar>?g\<bar>"]
    have up: "\<bar>x\<bar> < 2 powi (?e + 1)" and lo: "2 powi ?e' \<le> \<bar>?g\<bar>"
      using binade_upper [of 253 "\<bar>x\<bar>"] binade_lower [of 253 "\<bar>?g\<bar>"] by auto
    from up have "?g \<le> 2 powi (?e + 1)" "- (2 powi (?e + 1)) \<le> ?g"
      unfolding fround_toGrid by (intro toGrid_le toGrid_ge; linarith)+
    then have gle: "\<bar>?g\<bar> \<le> 2 powi (?e + 1)" by linarith
    have "(2::real) powi (?e + 1) \<le> 2 powi ?e'"
      using lt by (intro power_int_increasing) auto
    with gle lo have abs: "\<bar>?g\<bar> = 2 powi ?e'" by linarith
    have "(2::real) powi ?e' = of_int (2 ^ 23) * 2 powi (?e' - 23)" by (rule powi_split(1))
    with abs have "?g = of_int (2 ^ 23) * 2 powi (?e' - 23)
        \<or> ?g = of_int (- (2 ^ 23)) * 2 powi (?e' - 23)"
      by (cases "0 \<le> ?g") simp_all
    then show ?thesis by blast
  qed
  then obtain k where k: "?g = of_int k * 2 powi (?e' - 23)" ..
  have "fround ?g = toGrid ?e' ?g" by (rule fround_toGrid)
  also have "\<dots> = toGrid ?e' (of_int k * 2 powi (?e' - 23))" using k by simp
  also have "\<dots> = of_int k * 2 powi (?e' - 23)" by (rule toGrid_fix)
  finally show ?thesis using k by simp
qed

lemma fround_binade:
  assumes "- 126 \<le> e" and "e \<le> 127"
    and "- 126 < e \<longrightarrow> 2 powi e \<le> \<bar>x\<bar>" and "e < 127 \<longrightarrow> \<bar>x\<bar> < 2 powi (e + 1)"
  shows "fround x = toGrid e x"
proof -
  have "binade 253 \<bar>x\<bar> = e" using assms by (intro binade_eq) simp_all
  then show ?thesis by (simp add: fround_toGrid)
qed

lemma fround_0 [simp]: "fround 0 = 0"
  by (simp add: fround_toGrid toGrid_def roundHalfEven_def)

lemma fround_of_int:
  assumes "\<bar>n\<bar> \<le> 2 ^ 24"
  shows "fround (of_int n) = of_int n"
proof (cases "n = 0")
  case True
  then show ?thesis by simp
next
  case False
  let ?x = "of_int n :: real"
  let ?e = "binade 253 \<bar>?x\<bar>"
  from False have one: "2 powi 0 \<le> \<bar>?x\<bar>" by (simp add: abs_if)
  have e0: "0 \<le> ?e"
  proof (rule ccontr)
    assume "\<not> 0 \<le> ?e"
    then have "?e < 0" by simp
    with binade_upper [of 253 "\<bar>?x\<bar>"] have "\<bar>?x\<bar> < 2 powi (?e + 1)" by simp
    moreover have "(2::real) powi (?e + 1) \<le> 2 powi 0"
      using \<open>?e < 0\<close> by (intro power_int_increasing) auto
    ultimately show False using one by linarith
  qed
  then have lo: "2 powi ?e \<le> \<bar>?x\<bar>" using binade_lower [of 253 "\<bar>?x\<bar>"] by simp
  have x24: "\<bar>?x\<bar> \<le> 2 powi 24"
  proof -
    from assms have "real_of_int \<bar>n\<bar> \<le> real_of_int (2 ^ 24)" by (rule of_int_le_iff [THEN iffD2])
    then show ?thesis by simp
  qed
  have e24: "?e \<le> 24"
  proof (rule ccontr)
    assume "\<not> ?e \<le> 24"
    then have "(2::real) powi 25 \<le> 2 powi ?e" by (intro power_int_increasing) auto
    with lo x24 show False by simp
  qed
  have "\<exists>k. ?x = of_int k * 2 powi (?e - 23)"
  proof (cases "?e \<le> 23")
    case True
    have "(1::real) = 2 powi ((23 - ?e) + (?e - 23))" by simp
    also have "\<dots> = 2 powi (23 - ?e) * 2 powi (?e - 23)" by (subst power_int_add) simp_all
    also have "(2::real) powi (23 - ?e) = of_int (2 ^ nat (23 - ?e))"
      using True by (simp add: power_int_def)
    finally have "?x = of_int (n * 2 ^ nat (23 - ?e)) * 2 powi (?e - 23)" by simp
    then show ?thesis ..
  next
    case False
    with e24 have e: "?e = 24" by simp
    with lo x24 have "\<bar>?x\<bar> = 2 powi 24" by simp
    then have "?x = of_int (2 ^ 23) * 2 powi (?e - 23) \<or> ?x = of_int (- (2 ^ 23)) * 2 powi (?e - 23)"
      unfolding e by (cases "0 \<le> ?x") simp_all
    then show ?thesis by blast
  qed
  then obtain k where k: "?x = of_int k * 2 powi (?e - 23)" ..
  have "fround ?x = toGrid ?e ?x" by (rule fround_toGrid)
  also have "\<dots> = toGrid ?e (of_int k * 2 powi (?e - 23))" using k by simp
  also have "\<dots> = of_int k * 2 powi (?e - 23)" by (rule toGrid_fix)
  finally show ?thesis using k by simp
qed

lemma fround_numeral:
  "numeral k \<le> (16777216::int) \<Longrightarrow> fround (numeral k) = numeral k"
  using fround_of_int [of "numeral k"] by simp

text \<open>
  Storing the later of the stored number and \<open>x\<close> a second time changes nothing: the timer
  of a particle after several explosions of one frame is the timer after one.
\<close>

lemma fround_max_again: "fround (max (fround (max a x)) x) = fround (max a x)"
proof (cases "x \<le> fround (max a x)")
  case True
  then show ?thesis by (simp add: max.absorb1 fround_idem)
next
  case False
  then have lt: "fround (max a x) < x" by simp
  have "fround x \<le> fround (max a x)" by (rule fround_mono) simp
  moreover have "fround (fround (max a x)) \<le> fround x" using lt by (intro fround_mono) simp
  ultimately have "fround x = fround (max a x)" by (simp add: fround_idem)
  with lt show ?thesis by (simp add: max.absorb2)
qed

section \<open>Loop rules\<close>

lemma forLoop_indexed:
  assumes "forLoop k n body s = Some s'" and "I k s"
    and "\<And>i t t'. k \<le> i \<Longrightarrow> i < n \<Longrightarrow> I i t \<Longrightarrow> body i t = Continue t' \<Longrightarrow> I (Suc i) t'"
  shows "\<exists>j. k \<le> j \<and> I j s' \<and> (n \<le> j \<or> body j s' = Break)"
  using assms
proof (induction k n body s rule: forLoop.induct)
  case (1 i n body s)
  show ?case
  proof (cases "i < n")
    case False
    with "1.prems"(1) have "s' = s" by (simp add: forLoop.simps)
    with False "1.prems"(2) have "i \<le> i \<and> I i s' \<and> (n \<le> i \<or> body i s' = Break)" by simp
    then show ?thesis ..
  next
    case True
    show ?thesis
    proof (cases "body i s")
      case Break
      with True "1.prems"(1) have "s' = s" by (simp add: forLoop.simps)
      with Break "1.prems"(2) have "i \<le> i \<and> I i s' \<and> (n \<le> i \<or> body i s' = Break)" by simp
      then show ?thesis ..
    next
      case Fault
      with True "1.prems"(1) show ?thesis by (simp add: forLoop.simps)
    next
      case (Continue t)
      with True "1.prems"(1) have run: "forLoop (Suc i) n body t = Some s'"
        by (simp add: forLoop.simps)
      have inv: "I (Suc i) t" by (rule "1.prems"(3) [OF order_refl True "1.prems"(2) Continue])
      have step: "\<And>j u u'. Suc i \<le> j \<Longrightarrow> j < n \<Longrightarrow> I j u \<Longrightarrow> body j u = Continue u'
                    \<Longrightarrow> I (Suc j) u'"
      proof -
        fix j u u'
        assume a: "Suc i \<le> j" "j < n" "I j u" "body j u = Continue u'"
        from a(1) have "i \<le> j" by simp
        then show "I (Suc j) u'" using a(2,3,4) by (rule "1.prems"(3))
      qed
      have "\<exists>j. Suc i \<le> j \<and> I j s' \<and> (n \<le> j \<or> body j s' = Break)"
        using True Continue run inv step by (rule "1.IH")
      then obtain j where j: "Suc i \<le> j" "I j s'" "n \<le> j \<or> body j s' = Break" by blast
      from j(1) have "i \<le> j" by simp
      with j(2,3) have "i \<le> j \<and> I j s' \<and> (n \<le> j \<or> body j s' = Break)" by simp
      then show ?thesis ..
    qed
  qed
qed


lemma forLoop_invariant:
  assumes run: "forLoop k n body s = Some s'" and init: "P s"
    and step: "\<And>i t t'. P t \<Longrightarrow> body i t = Continue t' \<Longrightarrow> P t'"
  shows "P s'"
proof -
  have "\<exists>j. k \<le> j \<and> P s' \<and> (n \<le> j \<or> body j s' = Break)"
  proof (rule forLoop_indexed [OF run, where I = "\<lambda>i. P"])
    show "P s" by (rule init)
  next
    fix i t t'
    assume "P t" "body i t = Continue t'"
    then show "P t'" by (rule step)
  qed
  then obtain j where "P s'" by (elim exE conjE)
  then show ?thesis .
qed

lemma forLoop_total:
  assumes "I k s"
    and "\<And>i t. k \<le> i \<Longrightarrow> i < n \<Longrightarrow> I i t \<Longrightarrow> body i t \<noteq> Fault"
    and "\<And>i t t'. k \<le> i \<Longrightarrow> i < n \<Longrightarrow> I i t \<Longrightarrow> body i t = Continue t' \<Longrightarrow> I (Suc i) t'"
  shows "\<exists>s'. forLoop k n body s = Some s'"
  using assms
proof (induction k n body s rule: forLoop.induct)
  case (1 i n body s)
  show ?case
  proof (cases "i < n")
    case False
    then show ?thesis by (simp add: forLoop.simps)
  next
    case True
    show ?thesis
    proof (cases "body i s")
      case Break
      with True show ?thesis by (simp add: forLoop.simps)
    next
      case Fault
      moreover have "body i s \<noteq> Fault" by (rule "1.prems"(2) [OF order_refl True "1.prems"(1)])
      ultimately show ?thesis by simp
    next
      case (Continue t)
      have inv: "I (Suc i) t" by (rule "1.prems"(3) [OF order_refl True "1.prems"(1) Continue])
      have nf: "\<And>j u. Suc i \<le> j \<Longrightarrow> j < n \<Longrightarrow> I j u \<Longrightarrow> body j u \<noteq> Fault"
      proof -
        fix j u
        assume a: "Suc i \<le> j" "j < n" "I j u"
        from a(1) have "i \<le> j" by simp
        then show "body j u \<noteq> Fault" using a(2,3) by (rule "1.prems"(2))
      qed
      have step: "\<And>j u u'. Suc i \<le> j \<Longrightarrow> j < n \<Longrightarrow> I j u \<Longrightarrow> body j u = Continue u'
                    \<Longrightarrow> I (Suc j) u'"
      proof -
        fix j u u'
        assume a: "Suc i \<le> j" "j < n" "I j u" "body j u = Continue u'"
        from a(1) have "i \<le> j" by simp
        then show "I (Suc j) u'" using a(2,3,4) by (rule "1.prems"(3))
      qed
      have "\<exists>s'. forLoop (Suc i) n body t = Some s'"
        using True Continue inv nf step by (rule "1.IH")
      then obtain s' where "forLoop (Suc i) n body t = Some s'" ..
      with True Continue have "forLoop i n body s = Some s'" by (simp add: forLoop.simps)
      then show ?thesis ..
    qed
  qed
qed

section \<open>What one pass of each loop body writes\<close>

lemma length_writeAt [simp]: "length (writeAt xs i v) = length xs"
  by (simp add: writeAt_def split: option.splits)

lemma loadPositionBody_shape:
  assumes "loadPositionBody e i t = Continue t'"
  obtains p where "t' = t\<lparr>positions := (positions t)[i := p]\<rparr>"
  using assms
  by (simp add: loadPositionBody_def split: if_splits option.splits) (erule that [OF sym])

lemma loadColorBody_shape:
  assumes "loadColorBody f i t = Continue t'"
  obtains c where "t' = t\<lparr>colors := (colors t)[i := c]\<rparr>"
  using assms
  by (simp add: loadColorBody_def Let_def split: if_splits option.splits prod.splits)
     (erule that [OF sym])

lemma loadGlowBody_shape:
  assumes "loadGlowBody g i t = Continue t'"
  shows "t' = t\<lparr>glows := (glows t)[i := g]\<rparr>"
  using assms by (simp add: loadGlowBody_def split: if_splits)

lemma distanceBody_shape:
  assumes "distanceBody f i t = Continue t'"
  shows "t' = t\<lparr>distanceBuffer := (distanceBuffer t)
                  [i := \<bar>(case positions t ! i of (x, y, z) \<Rightarrow> z) - cameraZ f\<bar>]\<rparr>"
  using assms by (simp add: distanceBody_def Let_def split: if_splits)

lemma physicsBody_shape:
  assumes "physicsBody f L i t = Continue t'"
  obtains v0 q where
    "i < length (positions t)" "readAt (velocities t) i = Some v0"
    "particleStep f (CONFIG t) L i (readAt (scrollDirections t) i) (readAt (baseSizes t) i)
       (if length (originalPositions t) \<le> i \<or> length (velocities t) \<le> i then None
        else Some (originalPositions t ! i))
       (positions t ! i) v0
       (readAt (explosionReturnTimes t) i) (readAt (explosionGlowEndTimes t) i) = Some q"
    "t' = t\<lparr>explosionReturnTimes := writeAt (explosionReturnTimes t) i (explosionReturnUntil q),
            explosionGlowEndTimes := writeAt (explosionGlowEndTimes t) i (explosionGlowUntil q),
            sizes := writeAt (sizes t) i (newSize q),
            positions := (positions t)[i := position q],
            velocities := (velocities t)[i := velocity q]\<rparr>"
proof (cases "length (positions t) \<le> i")
  case True
  with assms show ?thesis by (simp add: physicsBody_def)
next
  case False
  show ?thesis
  proof (cases "readAt (velocities t) i")
    case None
    with False assms show ?thesis by (simp add: physicsBody_def)
  next
    case (Some v0)
    show ?thesis
    proof (cases "particleStep f (CONFIG t) L i (readAt (scrollDirections t) i) (readAt (baseSizes t) i)
       (if length (originalPositions t) \<le> i \<or> length (velocities t) \<le> i then None
        else Some (originalPositions t ! i))
       (positions t ! i) v0
       (readAt (explosionReturnTimes t) i) (readAt (explosionGlowEndTimes t) i)")
      case None
      with False Some assms show ?thesis by (simp add: physicsBody_def)
    next
      case q: (Some q)
      from False have lt: "i < length (positions t)" by simp
      from False Some q assms have "t' = t\<lparr>explosionReturnTimes := writeAt (explosionReturnTimes t) i (explosionReturnUntil q),
            explosionGlowEndTimes := writeAt (explosionGlowEndTimes t) i (explosionGlowUntil q),
            sizes := writeAt (sizes t) i (newSize q),
            positions := (positions t)[i := position q],
            velocities := (velocities t)[i := velocity q]\<rparr>"
        by (simp add: physicsBody_def)
      with lt Some q show ?thesis by (rule that)
    qed
  qed
qed

lemma colorBody_shape:
  assumes "colorBody f L dyn i t = Continue t'"
  obtains b g where
    "i < length (distanceBuffer t)" "i < length (colors t)"
    "finalBrightness f (CONFIG t) L i (distanceBuffer t ! i) (readAt (baseSizes t) i)
       (readAt (sizes t) i) (readAt (positions t) i) (readAt (explosionGlowEndTimes t) i) = Some b"
    "particleGlow (CONFIG t) dyn (glowStaticNeedsUpdate t) (readAt (velocities t) i) = Some g"
    "t' = t\<lparr>glows := writeAt (glows t) i g, colors := (colors t)[i := (b, b, b)]\<rparr>"
proof -
  from assms have l1: "i < length (distanceBuffer t)" and l2: "i < length (colors t)"
    by (simp_all add: colorBody_def split: if_splits)
  show ?thesis
  proof (cases "finalBrightness f (CONFIG t) L i (distanceBuffer t ! i) (readAt (baseSizes t) i)
       (readAt (sizes t) i) (readAt (positions t) i) (readAt (explosionGlowEndTimes t) i)")
    case None
    with l1 l2 assms show ?thesis by (simp add: colorBody_def)
  next
    case b: (Some b)
    show ?thesis
    proof (cases "particleGlow (CONFIG t) dyn (glowStaticNeedsUpdate t) (readAt (velocities t) i)")
      case None
      with l1 l2 b assms show ?thesis by (simp add: colorBody_def)
    next
      case g: (Some g)
      from l1 l2 b g assms
      have "t' = t\<lparr>glows := writeAt (glows t) i g, colors := (colors t)[i := (b, b, b)]\<rparr>"
        by (simp add: colorBody_def)
      with l1 l2 b g show ?thesis by (rule that)
    qed
  qed
qed

section \<open>The loading branch\<close>

lemma keptByLoading_refl: "keptByLoading s s"
  by (simp add: keptByLoading_def)

lemma loadPositionBody_kept:
  assumes "keptByLoading s t" and "loadPositionBody e i t = Continue t'"
  shows "keptByLoading s t'"
proof -
  from assms(2) obtain p where "t' = t\<lparr>positions := (positions t)[i := p]\<rparr>"
    by (rule loadPositionBody_shape)
  with assms(1) show ?thesis by (simp add: keptByLoading_def)
qed

lemma loadColorBody_kept:
  assumes "keptByLoading s t" and "loadColorBody f i t = Continue t'"
  shows "keptByLoading s t'"
proof -
  from assms(2) obtain c where "t' = t\<lparr>colors := (colors t)[i := c]\<rparr>"
    by (rule loadColorBody_shape)
  with assms(1) show ?thesis by (simp add: keptByLoading_def)
qed

lemma loadGlowBody_kept:
  assumes "keptByLoading s t" and "loadGlowBody g i t = Continue t'"
  shows "keptByLoading s t'"
  using assms(1) loadGlowBody_shape [OF assms(2)] by (simp add: keptByLoading_def)

lemma loadPositionBody_no_fault:
  "i < length (startPositions t) \<Longrightarrow> i < length (originalPositions t)
   \<Longrightarrow> loadPositionBody e i t \<noteq> Fault"
  by (simp add: loadPositionBody_def readAt_def)

lemma loadColorBody_no_fault:
  "i < length (positions t) \<Longrightarrow> loadColorBody f i t \<noteq> Fault"
  by (simp add: loadColorBody_def readAt_def Let_def split: prod.splits)

lemma loadGlowBody_no_fault: "loadGlowBody g i t \<noteq> Fault"
  by (simp add: loadGlowBody_def)

lemma loadingAnimation_kept:
  assumes "loadingAnimation f t0 s = Some (s', progress)"
  shows "keptByLoading s s'"
    and "loadProgress (nowDate f - t0) (loadAnimationDuration (CONFIG s)) = Some progress"
proof -
  define n where "n = min (totalParticleCount s) (length (positions s))"
  from assms obtain e s1 s2 where
        pr: "loadProgress (nowDate f - t0) (loadAnimationDuration (CONFIG s)) = Some progress"
    and l1: "forLoop 0 n (loadPositionBody e) s = Some s1"
    and l2: "(if hasColorAttribute s1 then forLoop 0 n (loadColorBody f) s1 else Some s1) = Some s2"
    and l3: "forLoop 0 n (loadGlowBody (glowBrightness (CONFIG s) * e)) s2 = Some s'"
    unfolding loadingAnimation_def n_def Let_def
    by (simp split: option.splits)
  show "loadProgress (nowDate f - t0) (loadAnimationDuration (CONFIG s)) = Some progress"
    by (rule pr)
  have k1: "keptByLoading s s1"
    using l1 keptByLoading_refl loadPositionBody_kept by (rule forLoop_invariant)
  have k2: "keptByLoading s s2"
  proof (cases "hasColorAttribute s1")
    case True
    with l2 have "forLoop 0 n (loadColorBody f) s1 = Some s2" by simp
    then show ?thesis using k1 loadColorBody_kept by (rule forLoop_invariant)
  next
    case False
    with l2 k1 show ?thesis by simp
  qed
  show "keptByLoading s s'"
    using l3 k2 loadGlowBody_kept by (rule forLoop_invariant)
qed

lemma loadingAnimation_total:
  assumes pr: "loadProgress (nowDate f - t0) (loadAnimationDuration (CONFIG s)) = Some progress"
    and al: "min (totalParticleCount s) (length (positions s))
             \<le> min (length (startPositions s)) (length (originalPositions s))"
  shows "\<exists>s'. loadingAnimation f t0 s = Some (s', progress)"
proof -
  define n where "n = min (totalParticleCount s) (length (positions s))"
  define e where "e = bezierEasing progress (easingP1x (CONFIG s)) (easingP1y (CONFIG s))
                        (easingP2x (CONFIG s)) (easingP2y (CONFIG s))"
  have "\<exists>s1. forLoop 0 n (loadPositionBody e) s = Some s1"
  proof (rule forLoop_total [where I = "\<lambda>i. keptByLoading s"])
    show "keptByLoading s s" by (rule keptByLoading_refl)
  next
    fix i t assume a: "i < n" "keptByLoading s t"
    from a(2) have "startPositions t = startPositions s" "originalPositions t = originalPositions s"
      by (simp_all add: keptByLoading_def)
    moreover from al a(1) have "i < length (startPositions s)" "i < length (originalPositions s)"
      unfolding n_def by linarith+
    ultimately show "loadPositionBody e i t \<noteq> Fault"
      by (intro loadPositionBody_no_fault) simp_all
  next
    fix i t t' assume "keptByLoading s t" "loadPositionBody e i t = Continue t'"
    then show "keptByLoading s t'" by (rule loadPositionBody_kept)
  qed
  then obtain s1 where l1: "forLoop 0 n (loadPositionBody e) s = Some s1" ..
  have k1: "keptByLoading s s1"
    using l1 keptByLoading_refl loadPositionBody_kept by (rule forLoop_invariant)
  have "\<exists>s2. forLoop 0 n (loadColorBody f) s1 = Some s2"
  proof (rule forLoop_total [where I = "\<lambda>i. keptByLoading s"])
    show "keptByLoading s s1" by (rule k1)
  next
    fix i t assume a: "i < n" "keptByLoading s t"
    from a(2) have "length (positions t) = length (positions s)"
      by (simp add: keptByLoading_def)
    moreover from a(1) have "i < length (positions s)" unfolding n_def by simp
    ultimately show "loadColorBody f i t \<noteq> Fault"
      by (intro loadColorBody_no_fault) simp
  next
    fix i t t' assume "keptByLoading s t" "loadColorBody f i t = Continue t'"
    then show "keptByLoading s t'" by (rule loadColorBody_kept)
  qed
  then obtain s2 where
    l2: "(if hasColorAttribute s1 then forLoop 0 n (loadColorBody f) s1 else Some s1) = Some s2"
    by (cases "hasColorAttribute s1") auto
  have "\<exists>s3. forLoop 0 n (loadGlowBody (glowBrightness (CONFIG s) * e)) s2 = Some s3"
  proof (rule forLoop_total [where I = "\<lambda>i t. True"])
    fix i t show "loadGlowBody (glowBrightness (CONFIG s) * e) i t \<noteq> Fault"
      by (rule loadGlowBody_no_fault)
  qed simp_all
  then obtain s3 where l3: "forLoop 0 n (loadGlowBody (glowBrightness (CONFIG s) * e)) s2 = Some s3" ..
  from pr l1 l2 l3 have "loadingAnimation f t0 s = Some (s3, progress)"
    unfolding loadingAnimation_def Let_def n_def e_def by simp
  then show ?thesis ..
qed


section \<open>Waves\<close>

lemma propagateWaves_fst:
  "i \<le> length ws \<Longrightarrow>
   fst (propagateWaves c m i ws b)
     = filter (\<lambda>w. radius w < m + waveWidth c) (map (advanceWave c) (take i ws)) @ drop i ws"
proof (induction i arbitrary: ws b)
  case 0
  then show ?case by simp
next
  case (Suc i)
  then have lt: "i < length ws" by simp
  have tk: "take (Suc i) ws = take i ws @ [ws ! i]"
    using lt by (simp add: take_Suc_conv_app_nth)
  show ?case
  proof (cases "radius (advanceWave c (ws ! i)) \<ge> m + waveWidth c")
    case True
    have len: "i \<le> length (take i ws @ drop (Suc i) ws)" using lt by simp
    have "fst (propagateWaves c m (Suc i) ws b)
            = fst (propagateWaves c m i (take i ws @ drop (Suc i) ws) b)"
      using True by (simp add: Let_def)
    also have "\<dots> = filter (\<lambda>w. radius w < m + waveWidth c)
                       (map (advanceWave c) (take i (take i ws @ drop (Suc i) ws)))
                     @ drop i (take i ws @ drop (Suc i) ws)"
      by (rule Suc.IH [OF len])
    also have "take i (take i ws @ drop (Suc i) ws) = take i ws" using lt by simp
    also have "drop i (take i ws @ drop (Suc i) ws) = drop (Suc i) ws" using lt by simp
    finally show ?thesis using True tk by simp
  next
    case False
    have len: "i \<le> length (ws[i := advanceWave c (ws ! i)])" using lt by simp
    have "\<exists>b'. fst (propagateWaves c m (Suc i) ws b)
            = fst (propagateWaves c m i (ws[i := advanceWave c (ws ! i)]) b')"
      using False by (simp add: Let_def) (rule exI, rule refl)
    then obtain b' where "fst (propagateWaves c m (Suc i) ws b)
            = fst (propagateWaves c m i (ws[i := advanceWave c (ws ! i)]) b')" ..
    also have "\<dots> = filter (\<lambda>w. radius w < m + waveWidth c)
                       (map (advanceWave c) (take i (ws[i := advanceWave c (ws ! i)])))
                     @ drop i (ws[i := advanceWave c (ws ! i)])"
      by (rule Suc.IH [OF len])
    also have "take i (ws[i := advanceWave c (ws ! i)]) = take i ws" by simp
    also have "drop i (ws[i := advanceWave c (ws ! i)]) = advanceWave c (ws ! i) # drop (Suc i) ws"
      using lt by (simp add: drop_update_cancel Cons_nth_drop_Suc upd_conv_take_nth_drop)
    finally show ?thesis using False tk by simp
  qed
qed

lemma propagateWaves_all:
  "fst (propagateWaves c m (length ws) ws b)
     = filter (\<lambda>w. radius w < m + waveWidth c) (map (advanceWave c) ws)"
  using propagateWaves_fst [of "length ws" ws c m b] by simp

text \<open>The configuration after the wave block: only the wave list and the timer change.\<close>

lemma waveLogic_off:
  "\<not> (waveEnabled c \<and> \<not> isLoadingAnimation c) \<Longrightarrow> waveLogic f c = (c, None)"
  by (cases "waveEnabled c"; cases "isLoadingAnimation c") (simp_all add: waveLogic_def)

lemma advanceWave_cong [simp]:
  "advanceWave (c\<lparr>waves := W\<rparr>) = advanceWave c"
  "advanceWave (c\<lparr>lastWaveTime := T\<rparr>) = advanceWave c"
  by (rule ext, simp add: advanceWave_def)+

lemma waveLogic_on:
  assumes "waveEnabled c" and "\<not> isLoadingAnimation c"
  shows "fst (waveLogic f c) =
           c\<lparr>waves := filter (\<lambda>w. radius w < maxWaveRadius f + waveWidth c)
                        (map (advanceWave c)
                           (waves c @
                              (if nowDate f - (case lastWaveTime c of None \<Rightarrow> nowDate f | Some t \<Rightarrow> t)
                                    \<ge> waveInterval c
                               then [\<lparr>radius = 0, waveStartTime = nowDate f, waveId = nowDate f\<rparr>]
                               else []))),
             lastWaveTime :=
               Some (if nowDate f - (case lastWaveTime c of None \<Rightarrow> nowDate f | Some t \<Rightarrow> t)
                          \<ge> waveInterval c
                     then nowDate f
                     else (case lastWaveTime c of None \<Rightarrow> nowDate f | Some t \<Rightarrow> t))\<rparr>"
proof (cases "nowDate f - (case lastWaveTime c of None \<Rightarrow> nowDate f | Some t \<Rightarrow> t)
                  \<ge> waveInterval c")
  case True
  with assms show ?thesis
    by (simp add: waveLogic_def Let_def propagateWaves_all)
next
  case False
  with assms show ?thesis
    by (simp add: waveLogic_def Let_def propagateWaves_all)
qed

lemma cleanExplosions_empty: "cleanExplosions es = []"
  by (cases es) (simp_all add: cleanExplosions_def filter_empty_conv)

section \<open>The loops of the settled frame\<close>

lemma keptByLoops_refl: "keptByLoops s s"
  by (simp add: keptByLoops_def)

lemma distanceBody_kept:
  assumes "keptByLoops s t" and "distanceBody f i t = Continue t'"
  shows "keptByLoops s t'"
  using assms(1) distanceBody_shape [OF assms(2)] by (simp add: keptByLoops_def)

lemma physicsBody_kept:
  assumes "keptByLoops s t" and "physicsBody f L i t = Continue t'"
  shows "keptByLoops s t'"
  using assms(2)
proof (rule physicsBody_shape)
  fix q
  assume "t' = t\<lparr>explosionReturnTimes := writeAt (explosionReturnTimes t) i (explosionReturnUntil q),
            explosionGlowEndTimes := writeAt (explosionGlowEndTimes t) i (explosionGlowUntil q),
            sizes := writeAt (sizes t) i (newSize q),
            positions := (positions t)[i := position q],
            velocities := (velocities t)[i := velocity q]\<rparr>"
  with assms(1) show ?thesis by (simp add: keptByLoops_def)
qed

lemma colorBody_kept:
  assumes "keptByLoops s t" and "colorBody f L dyn i t = Continue t'"
  shows "keptByLoops s t'"
  using assms(2)
proof (rule colorBody_shape)
  fix b g
  assume "t' = t\<lparr>glows := writeAt (glows t) i g, colors := (colors t)[i := (b, b, b)]\<rparr>"
  with assms(1) show ?thesis by (simp add: keptByLoops_def)
qed

lemma distanceBody_no_fault: "distanceBody f i t \<noteq> Fault"
  by (simp add: distanceBody_def Let_def)

lemma explosionLoop_total:
  "explosionLoop f c i (Some d) k es (v, r, g) \<noteq> None"
  by (induction es arbitrary: k v r g) (simp_all add: Let_def)

lemma explosionLoop_all_applied:
  "list_all applied es \<Longrightarrow> explosionLoop f c i dir k es st = Some st"
  by (induction es arbitrary: k) (cases st; simp)+

lemma sum_squares3_zero:
  fixes x y z :: real
  shows "x * x + y * y + z * z = 0 \<longleftrightarrow> x = 0 \<and> y = 0 \<and> z = 0"
proof
  assume a: "x * x + y * y + z * z = 0"
  have "0 \<le> x * x" "0 \<le> y * y" "0 \<le> z * z" by simp_all
  with a have "x * x = 0" "y * y = 0" "z * z = 0" by linarith+
  then show "x = 0 \<and> y = 0 \<and> z = 0" by simp
qed simp

lemma waveBlock_total:
  assumes "waveActive L \<longrightarrow> p \<noteq> (0, 0, 0)"
  shows "waveBlock c L p v \<noteq> None"
proof (cases "waveActive L")
  case False
  then show ?thesis by (simp add: waveBlock_def)
next
  case True
  obtain x y z where p: "p = (x, y, z)" by (cases p)
  with True assms have "x * x + y * y + z * z \<noteq> 0" by (simp add: sum_squares3_zero)
  then have nz: "sqrt (x * x + y * y + z * z) \<noteq> 0" by simp
  define dist where "dist = sqrt (x * x + y * y + z * z)"
  define r where "r = waveForceLoop c dist (multiplyScalar (x, y, z) (1.0 / dist)) (waves c) ((0, 0, 0), 0)"
  have "waveBlock c L p v
          = Some (if inBounds (waveBounds L) dist then (addScaledVector v (fst r) 1, snd r) else (v, 0))"
    using True p nz
    by (simp add: waveBlock_def Let_def subVectors_def waveCenter_def dist_def r_def)
  then show ?thesis by simp
qed

lemma particleStep_total:
  assumes "hasExplosions L \<longrightarrow> dir \<noteq> None" and "waveActive L \<longrightarrow> p0 \<noteq> (0, 0, 0)"
  shows "particleStep f c L i dir bs target p0 v0 r0 g0 \<noteq> None"
proof -
  define v2 where "v2 = pointerAndJitter f c L i p0 v0"
  have "(if hasExplosions L then explosionLoop f c i dir 0 (explosions c) (v2, r0, g0)
         else Some (v2, r0, g0)) \<noteq> None"
  proof (cases "hasExplosions L")
    case True
    with assms(1) obtain d where "dir = Some d" by (cases dir) simp_all
    with True show ?thesis by (simp add: explosionLoop_total)
  next
    case False
    then show ?thesis by simp
  qed
  then obtain x where
    "(if hasExplosions L then explosionLoop f c i dir 0 (explosions c) (v2, r0, g0)
         else Some (v2, r0, g0)) = Some x" by blast
  then obtain v3 r g where
    e: "(if hasExplosions L then explosionLoop f c i dir 0 (explosions c) (v2, r0, g0)
         else Some (v2, r0, g0)) = Some (v3, r, g)"
    by (cases x) simp
  from waveBlock_total [OF assms(2)] obtain y where "waveBlock c L p0 v3 = Some y" by blast
  then obtain v4 w where
    w: "waveBlock c L p0 v3 = Some (v4, w)" by (cases y) simp
  show ?thesis
    unfolding particleStep_def Let_def v2_def [symmetric] e using w by simp
qed

section \<open>The settled frame\<close>

lemma waveLogic_shape:
  "\<exists>W T. fst (waveLogic f c) = c\<lparr>waves := W, lastWaveTime := T\<rparr>"
proof (cases "waveEnabled c \<and> \<not> isLoadingAnimation c")
  case True
  then show ?thesis using waveLogic_on [of c f] by blast
next
  case False
  then have "fst (waveLogic f c) = c\<lparr>waves := waves c, lastWaveTime := lastWaveTime c\<rparr>"
    by (simp add: waveLogic_off)
  then show ?thesis by blast
qed

lemma actualCount_cong:
  "actualCount (s\<lparr>CONFIG := c\<rparr>) = actualCount s"
  "actualCount (s\<lparr>distanceBuffer := d\<rparr>) = actualCount s"
  by (simp_all add: actualCount_def)

lemma startFrame_count: "actualParticleCount (fst (startFrame f s)) = actualCount s"
  by (simp add: startFrame_def Let_def frameLocals_def actualCount_cong)

lemma startFrame_shape:
  obtains D where
    "snd (startFrame f s) = s\<lparr>CONFIG := fst (waveLogic f (CONFIG s)), distanceBuffer := D\<rparr>"
    "actualCount s \<le> length D"
proof (cases "length (distanceBuffer s) < actualCount s")
  case True
  then have "snd (startFrame f s)
      = s\<lparr>CONFIG := fst (waveLogic f (CONFIG s)), distanceBuffer := replicate (actualCount s) 0\<rparr>"
    by (simp add: startFrame_def Let_def frameLocals_def actualCount_cong)
  then show ?thesis by (rule that) simp
next
  case False
  then have "snd (startFrame f s)
      = s\<lparr>CONFIG := fst (waveLogic f (CONFIG s)), distanceBuffer := distanceBuffer s\<rparr>"
    by (simp add: startFrame_def Let_def frameLocals_def actualCount_cong)
  then show ?thesis using False by (intro that [of "distanceBuffer s"]) simp_all
qed

lemma startFrame_locals:
  "hasExplosions (fst (startFrame f s))
     = (explosionEnabled (CONFIG s) \<and> explosions (CONFIG s) \<noteq> [])"
  "waveActive (fst (startFrame f s))
     = (waveEnabled (CONFIG s) \<and> waves (fst (waveLogic f (CONFIG s))) \<noteq> [])"
  "interactionActive (fst (startFrame f s))
     = (isPointerInsideCanvas f
        \<and> (isPointerDown f
           \<or> (case mouseVelocity s of (mx, my) \<Rightarrow> sqrt (mx * mx + my * my)) > 0.001))"
  "waveBounds (fst (startFrame f s)) = snd (waveLogic f (CONFIG s))"
proof -
  obtain W T where wl: "fst (waveLogic f (CONFIG s)) = (CONFIG s)\<lparr>waves := W, lastWaveTime := T\<rparr>"
    using waveLogic_shape by blast
  show "hasExplosions (fst (startFrame f s))
     = (explosionEnabled (CONFIG s) \<and> explosions (CONFIG s) \<noteq> [])"
    by (simp add: startFrame_def Let_def frameLocals_def wl)
  show "waveActive (fst (startFrame f s))
     = (waveEnabled (CONFIG s) \<and> waves (fst (waveLogic f (CONFIG s))) \<noteq> [])"
    by (simp add: startFrame_def Let_def frameLocals_def wl)
  show "interactionActive (fst (startFrame f s))
     = (isPointerInsideCanvas f
        \<and> (isPointerDown f
           \<or> (case mouseVelocity s of (mx, my) \<Rightarrow> sqrt (mx * mx + my * my)) > 0.001))"
    by (simp add: startFrame_def Let_def frameLocals_def)
  show "waveBounds (fst (startFrame f s)) = snd (waveLogic f (CONFIG s))"
    by (simp add: startFrame_def Let_def frameLocals_def)
qed

lemma resetSizes_kept:
  "CONFIG (resetSizes L s) = CONFIG s"
  "positions (resetSizes L s) = positions s"
  "velocities (resetSizes L s) = velocities s"
  "colors (resetSizes L s) = colors s"
  "glows (resetSizes L s) = glows s"
  "baseSizes (resetSizes L s) = baseSizes s"
  "distanceBuffer (resetSizes L s) = distanceBuffer s"
  "explosionGlowEndTimes (resetSizes L s) = explosionGlowEndTimes s"
  "explosionReturnTimes (resetSizes L s) = explosionReturnTimes s"
  "hasColorAttribute (resetSizes L s) = hasColorAttribute s"
  "glowStaticNeedsUpdate (resetSizes L s) = glowStaticNeedsUpdate s"
  "cachedGlowBrightness (resetSizes L s) = cachedGlowBrightness s"
  "cachedVelocityGlowMultiplier (resetSizes L s) = cachedVelocityGlowMultiplier s"
  "length (sizes (resetSizes L s)) = length (sizes s)"
  by (simp_all add: resetSizes_def Let_def)

lemma refreshGlowCache_kept:
  "CONFIG (refreshGlowCache s) = CONFIG s"
  "positions (refreshGlowCache s) = positions s"
  "velocities (refreshGlowCache s) = velocities s"
  "colors (refreshGlowCache s) = colors s"
  "glows (refreshGlowCache s) = glows s"
  "sizes (refreshGlowCache s) = sizes s"
  "baseSizes (refreshGlowCache s) = baseSizes s"
  "distanceBuffer (refreshGlowCache s) = distanceBuffer s"
  "explosionGlowEndTimes (refreshGlowCache s) = explosionGlowEndTimes s"
  "explosionReturnTimes (refreshGlowCache s) = explosionReturnTimes s"
  "hasColorAttribute (refreshGlowCache s) = hasColorAttribute s"
  by (simp_all add: refreshGlowCache_def Let_def)

lemma endFrame_fields:
  "CONFIG (endFrame dyn s) = (CONFIG s)\<lparr>explosions := []\<rparr>"
  "positions (endFrame dyn s) = positions s"
  "velocities (endFrame dyn s) = velocities s"
  "colors (endFrame dyn s) = colors s"
  "glows (endFrame dyn s) = glows s"
  "sizes (endFrame dyn s) = sizes s"
  "explosionGlowEndTimes (endFrame dyn s) = explosionGlowEndTimes s"
  "explosionReturnTimes (endFrame dyn s) = explosionReturnTimes s"
  by (simp_all add: endFrame_def Let_def cleanExplosions_empty)

lemma settledPhysics_run:
  assumes "settledPhysics f s = Some s'"
  obtains s3 s4 s6 where
    "forLoop 0 (actualCount s) (distanceBody f) (snd (startFrame f s)) = Some s3"
    "forLoop 0 (actualCount s) (physicsBody f (fst (startFrame f s))) s3 = Some s4"
    "(if hasColorAttribute (refreshGlowCache (resetSizes (fst (startFrame f s)) s4))
      then forLoop 0 (actualCount s)
             (colorBody f (fst (startFrame f s))
                (velocityGlowMultiplier (CONFIG (refreshGlowCache (resetSizes (fst (startFrame f s)) s4))) > 0))
             (refreshGlowCache (resetSizes (fst (startFrame f s)) s4))
      else Some (refreshGlowCache (resetSizes (fst (startFrame f s)) s4))) = Some s6"
    "s' = endFrame
            (velocityGlowMultiplier (CONFIG (refreshGlowCache (resetSizes (fst (startFrame f s)) s4))) > 0)
            s6"
proof -
  obtain L s2 where sf: "startFrame f s = (L, s2)" by (cases "startFrame f s")
  then have L: "fst (startFrame f s) = L" and s2: "snd (startFrame f s) = s2" by simp_all
  have n: "actualParticleCount L = actualCount s" using startFrame_count [of f s] L by simp
  from assms obtain s3 where l1: "forLoop 0 (actualCount s) (distanceBody f) s2 = Some s3"
    by (simp add: settledPhysics_def sf Let_def n split: option.splits)
  from assms l1 obtain s4 where l2: "forLoop 0 (actualCount s) (physicsBody f L) s3 = Some s4"
    by (simp add: settledPhysics_def sf Let_def n split: option.splits)
  let ?s5 = "refreshGlowCache (resetSizes L s4)"
  let ?dyn = "velocityGlowMultiplier (CONFIG ?s5) > 0"
  have "\<exists>s6. (if hasColorAttribute ?s5 then forLoop 0 (actualCount s) (colorBody f L ?dyn) ?s5
              else Some ?s5) = Some s6 \<and> s' = endFrame ?dyn s6"
  proof (cases "hasColorAttribute ?s5")
    case True
    with assms l1 l2 show ?thesis
      by (simp add: settledPhysics_def sf Let_def n split: option.splits)
  next
    case False
    with assms l1 l2 show ?thesis
      by (simp add: settledPhysics_def sf Let_def n split: option.splits)
  qed
  then obtain s6 where
    l3: "(if hasColorAttribute ?s5 then forLoop 0 (actualCount s) (colorBody f L ?dyn) ?s5
         else Some ?s5) = Some s6"
    and e: "s' = endFrame ?dyn s6" by blast
  show ?thesis
    using l1 l2 l3 e by (rule that [unfolded L s2])
qed

lemma distanceLoop_kept:
  "forLoop k n (distanceBody f) s = Some s' \<Longrightarrow> keptByLoops s s'"
  by (erule forLoop_invariant [where P = "keptByLoops s"])
     (rule keptByLoops_refl, erule distanceBody_kept, assumption)

lemma physicsLoop_kept:
  "forLoop k n (physicsBody f L) s = Some s' \<Longrightarrow> keptByLoops s s'"
  by (erule forLoop_invariant [where P = "keptByLoops s"])
     (rule keptByLoops_refl, erule physicsBody_kept, assumption)

lemma colorLoop_kept:
  "forLoop k n (colorBody f L dyn) s = Some s' \<Longrightarrow> keptByLoops s s'"
  by (erule forLoop_invariant [where P = "keptByLoops s"])
     (rule keptByLoops_refl, erule colorBody_kept, assumption)

lemma settledPhysics_CONFIG:
  assumes "settledPhysics f s = Some s'"
  shows "CONFIG s' = (fst (waveLogic f (CONFIG s)))\<lparr>explosions := []\<rparr>"
  using assms
proof (rule settledPhysics_run)
  fix s3 s4 s6
  let ?L = "fst (startFrame f s)"
  let ?s5 = "refreshGlowCache (resetSizes ?L s4)"
  let ?dyn = "velocityGlowMultiplier (CONFIG ?s5) > 0"
  assume l1: "forLoop 0 (actualCount s) (distanceBody f) (snd (startFrame f s)) = Some s3"
    and l2: "forLoop 0 (actualCount s) (physicsBody f ?L) s3 = Some s4"
    and l3: "(if hasColorAttribute ?s5 then forLoop 0 (actualCount s) (colorBody f ?L ?dyn) ?s5
              else Some ?s5) = Some s6"
    and e: "s' = endFrame ?dyn s6"
  obtain D where "snd (startFrame f s) = s\<lparr>CONFIG := fst (waveLogic f (CONFIG s)), distanceBuffer := D\<rparr>"
    by (rule startFrame_shape)
  then have c2: "CONFIG (snd (startFrame f s)) = fst (waveLogic f (CONFIG s))" by simp
  from distanceLoop_kept [OF l1] have c3: "CONFIG s3 = CONFIG (snd (startFrame f s))"
    by (simp add: keptByLoops_def)
  from physicsLoop_kept [OF l2] have c4: "CONFIG s4 = CONFIG s3"
    by (simp add: keptByLoops_def)
  have c5: "CONFIG ?s5 = CONFIG s4" by (simp add: refreshGlowCache_kept resetSizes_kept)
  have c6: "CONFIG s6 = CONFIG ?s5"
  proof (cases "hasColorAttribute ?s5")
    case True
    with l3 have "forLoop 0 (actualCount s) (colorBody f ?L ?dyn) ?s5 = Some s6" by simp
    from colorLoop_kept [OF this] show ?thesis by (simp add: keptByLoops_def)
  next
    case False
    with l3 show ?thesis by simp
  qed
  show ?thesis unfolding e endFrame_fields c6 c5 c4 c3 c2 ..
qed

text \<open>A settled frame stays inside the model under \<open>staysInModel\<close>.\<close>

lemma physicsBody_no_fault:
  assumes "i < length (velocities t)"
    and "hasExplosions L \<longrightarrow> i < length (scrollDirections t)"
    and "waveActive L \<longrightarrow> positions t ! i \<noteq> (0, 0, 0)"
  shows "physicsBody f L i t \<noteq> Fault"
proof -
  from assms(1) have v: "readAt (velocities t) i = Some (velocities t ! i)" by (simp add: readAt_def)
  from assms(2) have "hasExplosions L \<longrightarrow> readAt (scrollDirections t) i \<noteq> None"
    by (simp add: readAt_def)
  from particleStep_total [OF this assms(3)]
  obtain q where
    "particleStep f (CONFIG t) L i (readAt (scrollDirections t) i) (readAt (baseSizes t) i)
       (if length (originalPositions t) \<le> i \<or> length (velocities t) \<le> i then None
        else Some (originalPositions t ! i))
       (positions t ! i) (velocities t ! i)
       (readAt (explosionReturnTimes t) i) (readAt (explosionGlowEndTimes t) i) = Some q"
    by blast
  then show ?thesis unfolding physicsBody_def v by simp
qed

lemma explosionGlow_total: "explosionGlowDuration c \<noteq> 0 \<Longrightarrow> explosionGlow f c g \<noteq> None"
  by (simp add: explosionGlow_def Let_def split: option.splits)

lemma colorBody_no_fault:
  assumes "i < length (positions t)" and "i < length (velocities t)"
    and "explosionGlowDuration (CONFIG t) \<noteq> 0"
  shows "colorBody f L dyn i t \<noteq> Fault"
proof -
  from assms(1) have "totalWaveGlow (CONFIG t) L (readAt (positions t) i) \<noteq> None"
    by (simp add: totalWaveGlow_def readAt_def Let_def)
  then obtain wg where wg: "totalWaveGlow (CONFIG t) L (readAt (positions t) i) = Some wg"
    by blast
  from explosionGlow_total [OF assms(3)]
  obtain eg where eg: "explosionGlow f (CONFIG t) (readAt (explosionGlowEndTimes t) i) = Some eg"
    by blast
  have "finalBrightness f (CONFIG t) L i (distanceBuffer t ! i) (readAt (baseSizes t) i)
       (readAt (sizes t) i) (readAt (positions t) i) (readAt (explosionGlowEndTimes t) i) \<noteq> None"
    by (simp add: finalBrightness_def wg eg)
  moreover from assms(2) have
    "particleGlow (CONFIG t) dyn (glowStaticNeedsUpdate t) (readAt (velocities t) i) \<noteq> None"
    by (simp add: particleGlow_def readAt_def Let_def split: prod.splits)
  ultimately show ?thesis by (auto simp: colorBody_def split: option.splits)
qed

lemma distanceLoop_shape:
  assumes "forLoop k n (distanceBody f) s = Some s'"
  shows "\<exists>D. s' = s\<lparr>distanceBuffer := D\<rparr> \<and> length D = length (distanceBuffer s)"
  using assms
proof (rule forLoop_invariant
    [where P = "\<lambda>t. \<exists>D. t = s\<lparr>distanceBuffer := D\<rparr> \<and> length D = length (distanceBuffer s)"])
  show "\<exists>D. s = s\<lparr>distanceBuffer := D\<rparr> \<and> length D = length (distanceBuffer s)"
    by (rule exI [of _ "distanceBuffer s"]) simp
next
  fix i t t'
  assume "\<exists>D. t = s\<lparr>distanceBuffer := D\<rparr> \<and> length D = length (distanceBuffer s)"
    and b: "distanceBody f i t = Continue t'"
  then obtain D where t: "t = s\<lparr>distanceBuffer := D\<rparr>" and l: "length D = length (distanceBuffer s)"
    by blast
  let ?D = "D[i := \<bar>(case positions t ! i of (x, y, z) \<Rightarrow> z) - cameraZ f\<bar>]"
  from distanceBody_shape [OF b] t have "t' = s\<lparr>distanceBuffer := ?D\<rparr>" by simp
  moreover from l have "length ?D = length (distanceBuffer s)" by simp
  ultimately show "\<exists>D. t' = s\<lparr>distanceBuffer := D\<rparr> \<and> length D = length (distanceBuffer s)"
    by blast
qed

lemma physicsBody_positions:
  assumes "physicsBody f L i t = Continue t'"
  shows "\<exists>p. positions t' = (positions t)[i := p]"
  using assms
proof (rule physicsBody_shape)
  fix q
  assume "t' = t\<lparr>explosionReturnTimes := writeAt (explosionReturnTimes t) i (explosionReturnUntil q),
            explosionGlowEndTimes := writeAt (explosionGlowEndTimes t) i (explosionGlowUntil q),
            sizes := writeAt (sizes t) i (newSize q),
            positions := (positions t)[i := position q],
            velocities := (velocities t)[i := velocity q]\<rparr>"
  then have "positions t' = (positions t)[i := position q]" by simp
  then show ?thesis ..
qed

lemma actualCount_le:
  "actualCount s \<le> length (positions s)" "actualCount s \<le> length (velocities s)"
  "actualCount s \<le> length (colors s)" "actualCount s \<le> length (originalPositions s)"
  by (simp_all add: actualCount_def)

lemma waveLogic_fields:
  "explosionEnabled (fst (waveLogic f c)) = explosionEnabled c"
  "explosions (fst (waveLogic f c)) = explosions c"
  "waveEnabled (fst (waveLogic f c)) = waveEnabled c"
  "explosionGlowDuration (fst (waveLogic f c)) = explosionGlowDuration c"
  "isLoadingAnimation (fst (waveLogic f c)) = isLoadingAnimation c"
  "autonomousMotionStrength (fst (waveLogic f c)) = autonomousMotionStrength c"
  "velocityGlowMultiplier (fst (waveLogic f c)) = velocityGlowMultiplier c"
  "timeScale (fst (waveLogic f c)) = timeScale c"
proof -
  obtain W T where "fst (waveLogic f c) = c\<lparr>waves := W, lastWaveTime := T\<rparr>"
    using waveLogic_shape by blast
  then show "explosionEnabled (fst (waveLogic f c)) = explosionEnabled c"
    "explosions (fst (waveLogic f c)) = explosions c"
    "waveEnabled (fst (waveLogic f c)) = waveEnabled c"
    "explosionGlowDuration (fst (waveLogic f c)) = explosionGlowDuration c"
    "isLoadingAnimation (fst (waveLogic f c)) = isLoadingAnimation c"
    "autonomousMotionStrength (fst (waveLogic f c)) = autonomousMotionStrength c"
    "velocityGlowMultiplier (fst (waveLogic f c)) = velocityGlowMultiplier c"
    "timeScale (fst (waveLogic f c)) = timeScale c"
    by simp_all
qed

lemma settledPhysics_total:
  assumes "staysInModel s"
  shows "\<exists>s'. settledPhysics f s = Some s'"
proof -
  let ?n = "actualCount s"
  let ?c1 = "fst (waveLogic f (CONFIG s))"
  obtain L s2 where sf: "startFrame f s = (L, s2)" by (cases "startFrame f s")
  then have L: "fst (startFrame f s) = L" and s2: "snd (startFrame f s) = s2" by simp_all
  have n: "actualParticleCount L = ?n" using startFrame_count [of f s] L by simp
  obtain D where s2D: "s2 = s\<lparr>CONFIG := ?c1, distanceBuffer := D\<rparr>"
    using startFrame_shape [of f s] s2 by metis
  \<comment> \<open>the distance loop\<close>
  have "\<exists>s3. forLoop 0 ?n (distanceBody f) s2 = Some s3"
    by (rule forLoop_total [where I = "\<lambda>i t. True"]) (simp_all add: distanceBody_no_fault)
  then obtain s3 where l1: "forLoop 0 ?n (distanceBody f) s2 = Some s3" ..
  from distanceLoop_shape [OF l1] s2D obtain D' where
    s3: "s3 = s\<lparr>CONFIG := ?c1, distanceBuffer := D'\<rparr>" by auto
  \<comment> \<open>the particle loop\<close>
  have hx: "hasExplosions L \<longrightarrow> ?n \<le> length (scrollDirections s)"
    using assms startFrame_locals(1) [of f s] L by (simp add: staysInModel_def)
  have wa: "waveActive L \<longrightarrow> (\<forall>i < ?n. positions s ! i \<noteq> (0, 0, 0))"
    using assms startFrame_locals(2) [of f s] L by (simp add: staysInModel_def)
  have "\<exists>s4. forLoop 0 ?n (physicsBody f L) s3 = Some s4"
  proof (rule forLoop_total
      [where I = "\<lambda>i t. keptByLoops s3 t \<and> (\<forall>j \<ge> i. positions t ! j = positions s3 ! j)"])
    show "keptByLoops s3 s3 \<and> (\<forall>j\<ge>0. positions s3 ! j = positions s3 ! j)"
      by (simp add: keptByLoops_refl)
  next
    fix i t
    assume i: "i < ?n" and "keptByLoops s3 t \<and> (\<forall>j \<ge> i. positions t ! j = positions s3 ! j)"
    then have k: "keptByLoops s3 t" and p: "positions t ! i = positions s3 ! i" by simp_all
    from k s3 have lv: "length (velocities t) = length (velocities s)"
      and sd: "scrollDirections t = scrollDirections s"
      by (simp_all add: keptByLoops_def)
    from i actualCount_le(2) [of s] lv have "i < length (velocities t)" by simp
    moreover from hx i sd have "hasExplosions L \<longrightarrow> i < length (scrollDirections t)" by auto
    moreover from wa i p s3 have "waveActive L \<longrightarrow> positions t ! i \<noteq> (0, 0, 0)" by simp
    ultimately show "physicsBody f L i t \<noteq> Fault" by (rule physicsBody_no_fault)
  next
    fix i t t'
    assume "keptByLoops s3 t \<and> (\<forall>j \<ge> i. positions t ! j = positions s3 ! j)"
      and b: "physicsBody f L i t = Continue t'"
    then have k: "keptByLoops s3 t" and p: "\<forall>j \<ge> i. positions t ! j = positions s3 ! j"
      by simp_all
    from physicsBody_positions [OF b] obtain q where "positions t' = (positions t)[i := q]" ..
    with p have "\<forall>j \<ge> Suc i. positions t' ! j = positions s3 ! j" by simp
    with physicsBody_kept [OF k b]
    show "keptByLoops s3 t' \<and> (\<forall>j \<ge> Suc i. positions t' ! j = positions s3 ! j)" by simp
  qed
  then obtain s4 where l2: "forLoop 0 ?n (physicsBody f L) s3 = Some s4" ..
  have k4: "keptByLoops s3 s4" by (rule physicsLoop_kept [OF l2])
  \<comment> \<open>the colour loop\<close>
  let ?s5 = "refreshGlowCache (resetSizes L s4)"
  let ?dyn = "velocityGlowMultiplier (CONFIG ?s5) > 0"
  have c5: "CONFIG ?s5 = ?c1" "length (positions ?s5) = length (positions s)"
    "length (velocities ?s5) = length (velocities s)"
    using k4 s3 by (simp_all add: refreshGlowCache_kept resetSizes_kept keptByLoops_def)
  have "\<exists>s6. forLoop 0 ?n (colorBody f L ?dyn) ?s5 = Some s6"
  proof (rule forLoop_total [where I = "\<lambda>i t. keptByLoops ?s5 t"])
    show "keptByLoops ?s5 ?s5" by (rule keptByLoops_refl)
  next
    fix i t
    assume i: "i < ?n" and k: "keptByLoops ?s5 t"
    from k c5 have "CONFIG t = ?c1" "length (positions t) = length (positions s)"
      "length (velocities t) = length (velocities s)"
      by (simp_all add: keptByLoops_def)
    with i actualCount_le(1,2) [of s] assms
    have "i < length (positions t)" "i < length (velocities t)"
      "explosionGlowDuration (CONFIG t) \<noteq> 0"
      by (simp_all add: waveLogic_fields staysInModel_def)
    then show "colorBody f L ?dyn i t \<noteq> Fault" by (rule colorBody_no_fault)
  next
    fix i t t'
    assume "keptByLoops ?s5 t" "colorBody f L ?dyn i t = Continue t'"
    then show "keptByLoops ?s5 t'" by (rule colorBody_kept)
  qed
  then obtain s6 where
    l3: "(if hasColorAttribute ?s5 then forLoop 0 ?n (colorBody f L ?dyn) ?s5 else Some ?s5)
           = Some s6"
    by (cases "hasColorAttribute ?s5") auto
  have "settledPhysics f s = Some (endFrame ?dyn s6)"
  proof (cases "hasColorAttribute ?s5")
    case True
    with l1 l2 l3 show ?thesis by (simp add: settledPhysics_def sf Let_def n)
  next
    case False
    with l1 l2 l3 show ?thesis by (simp add: settledPhysics_def sf Let_def n)
  qed
  then show ?thesis ..
qed

section \<open>Explosions\<close>

lemma updatePhysics_settled:
  assumes "isInitialized s" and "hasGeometry s" and "\<not> isLoadingAnimation (CONFIG s)"
  shows "updatePhysics f s = settledPhysics f (resetMouseVelocity s)"
  using assms by (simp add: updatePhysics_def Let_def resetMouseVelocity_def)

lemma resetMouseVelocity_fields:
  "CONFIG (resetMouseVelocity s) = CONFIG s"
  "positions (resetMouseVelocity s) = positions s"
  "velocities (resetMouseVelocity s) = velocities s"
  "originalPositions (resetMouseVelocity s) = originalPositions s"
  "scrollDirections (resetMouseVelocity s) = scrollDirections s"
  "sizes (resetMouseVelocity s) = sizes s"
  "baseSizes (resetMouseVelocity s) = baseSizes s"
  "explosionReturnTimes (resetMouseVelocity s) = explosionReturnTimes s"
  "explosionGlowEndTimes (resetMouseVelocity s) = explosionGlowEndTimes s"
  "hasColorAttribute (resetMouseVelocity s) = hasColorAttribute s"
  "wasWaveActive (resetMouseVelocity s) = wasWaveActive s"
  "actualCount (resetMouseVelocity s) = actualCount s"
  "staysInModel (resetMouseVelocity s) = staysInModel s"
  by (simp_all add: resetMouseVelocity_def actualCount_def staysInModel_def)


lemma explosionLoop_timers:
  assumes "explosionLoop f c i dir k es (v, r, g) = Some (v', r', g')"
  shows "r' = (if list_all applied es then r
               else map_option (\<lambda>old. fround (max old (nowPerf f + explosionReturnDelay c))) r)
         \<and> g' = (if list_all applied es then g
                  else map_option (\<lambda>old. fround (max old (nowPerf f + explosionGlowDuration c))) g)"
  using assms
proof (induction es arbitrary: k v r g)
  case Nil
  then show ?case by simp
next
  case (Cons e es)
  show ?case
  proof (cases "applied e")
    case True
    with Cons.prems have "explosionLoop f c i dir (Suc k) es (v, r, g) = Some (v', r', g')" by simp
    from Cons.IH [OF this] True show ?thesis by simp
  next
    case False
    with Cons.prems obtain d where d: "dir = Some d" by (cases dir) simp_all
    let ?v = "addVectors v (explosionImpulse f c i d k)"
    let ?r = "map_option (\<lambda>old. fround (max old (nowPerf f + explosionReturnDelay c))) r"
    let ?g = "map_option (\<lambda>old. fround (max old (nowPerf f + explosionGlowDuration c))) g"
    from Cons.prems False d
    have "explosionLoop f c i dir (Suc k) es (?v, ?r, ?g) = Some (v', r', g')"
      by (simp add: Let_def)
    from Cons.IH [OF this] False show ?thesis
      by (cases r; cases g) (simp_all add: fround_max_again)
  qed
qed

section \<open>The particle loop works on each particle alone\<close>

lemma readAt_cong:
  "length xs = length ys \<Longrightarrow> xs ! i = ys ! i \<Longrightarrow> readAt xs i = readAt ys i"
  by (simp add: readAt_def)

lemma writeAt_nth_same:
  "length xs = length ys \<Longrightarrow> xs ! i = ys ! i \<Longrightarrow> writeAt xs i v ! i = writeAt ys i v ! i"
  by (cases v; cases "i < length ys") (simp_all add: writeAt_def list_update_beyond)

lemma writeAt_nth_other: "j \<noteq> i \<Longrightarrow> writeAt xs i v ! j = xs ! j"
  by (cases v) (simp_all add: writeAt_def)

lemma list_update_nth_same:
  "length xs = length ys \<Longrightarrow> xs ! i = ys ! i \<Longrightarrow> xs[i := v] ! i = ys[i := v] ! i"
  by (cases "i < length ys") (simp_all add: list_update_beyond)

lemma physicsBody_local:
  assumes k: "keptByLoops s u" and a: "sameParticle j s u"
    and b: "physicsBody f L j u = Continue u'"
  shows "\<exists>t. physicsBody f L j s = Continue t \<and> sameParticle j t u'"
    and "\<forall>i. i \<noteq> j \<longrightarrow> sameParticle i u u'"
proof -
  from k have c: "CONFIG u = CONFIG s" "originalPositions u = originalPositions s"
    "scrollDirections u = scrollDirections s" "baseSizes u = baseSizes s"
    and len: "length (positions u) = length (positions s)"
      "length (velocities u) = length (velocities s)"
      "length (sizes u) = length (sizes s)"
      "length (explosionReturnTimes u) = length (explosionReturnTimes s)"
      "length (explosionGlowEndTimes u) = length (explosionGlowEndTimes s)"
    by (simp_all add: keptByLoops_def)
  from a have e: "positions u ! j = positions s ! j" "velocities u ! j = velocities s ! j"
    "sizes u ! j = sizes s ! j" "explosionReturnTimes u ! j = explosionReturnTimes s ! j"
    "explosionGlowEndTimes u ! j = explosionGlowEndTimes s ! j"
    by (simp_all add: sameParticle_def)
  have rd: "readAt (velocities u) j = readAt (velocities s) j"
    "readAt (explosionReturnTimes u) j = readAt (explosionReturnTimes s) j"
    "readAt (explosionGlowEndTimes u) j = readAt (explosionGlowEndTimes s) j"
    by (rule readAt_cong [OF len(2) e(2)], rule readAt_cong [OF len(4) e(4)],
        rule readAt_cong [OF len(5) e(5)])
  from b show "\<exists>t. physicsBody f L j s = Continue t \<and> sameParticle j t u'"
  proof (rule physicsBody_shape)
    fix v0 q
    assume lt: "j < length (positions u)" and v: "readAt (velocities u) j = Some v0"
      and q: "particleStep f (CONFIG u) L j (readAt (scrollDirections u) j) (readAt (baseSizes u) j)
                (if length (originalPositions u) \<le> j \<or> length (velocities u) \<le> j then None
                 else Some (originalPositions u ! j))
                (positions u ! j) v0
                (readAt (explosionReturnTimes u) j) (readAt (explosionGlowEndTimes u) j) = Some q"
      and u': "u' = u\<lparr>explosionReturnTimes := writeAt (explosionReturnTimes u) j (explosionReturnUntil q),
            explosionGlowEndTimes := writeAt (explosionGlowEndTimes u) j (explosionGlowUntil q),
            sizes := writeAt (sizes u) j (newSize q),
            positions := (positions u)[j := position q],
            velocities := (velocities u)[j := velocity q]\<rparr>"
    let ?t = "s\<lparr>explosionReturnTimes := writeAt (explosionReturnTimes s) j (explosionReturnUntil q),
            explosionGlowEndTimes := writeAt (explosionGlowEndTimes s) j (explosionGlowUntil q),
            sizes := writeAt (sizes s) j (newSize q),
            positions := (positions s)[j := position q],
            velocities := (velocities s)[j := velocity q]\<rparr>"
    from lt len have lt': "\<not> length (positions s) \<le> j" by simp
    from v rd have v': "readAt (velocities s) j = Some v0" by simp
    from q have q': "particleStep f (CONFIG s) L j (readAt (scrollDirections s) j) (readAt (baseSizes s) j)
                (if length (originalPositions s) \<le> j \<or> length (velocities s) \<le> j then None
                 else Some (originalPositions s ! j))
                (positions s ! j) v0
                (readAt (explosionReturnTimes s) j) (readAt (explosionGlowEndTimes s) j) = Some q"
      by (simp only: c len e rd)
    have "physicsBody f L j s = Continue ?t"
      unfolding physicsBody_def using lt' v' q' by simp
    moreover have "sameParticle j ?t u'"
    proof -
      have "positions u' ! j = positions ?t ! j"
        unfolding u' using list_update_nth_same [OF len(1) e(1)] by simp
      moreover have "velocities u' ! j = velocities ?t ! j"
        unfolding u' using list_update_nth_same [OF len(2) e(2)] by simp
      moreover have "sizes u' ! j = sizes ?t ! j"
        unfolding u' using writeAt_nth_same [OF len(3) e(3)] by simp
      moreover have "explosionReturnTimes u' ! j = explosionReturnTimes ?t ! j"
        unfolding u' using writeAt_nth_same [OF len(4) e(4)] by simp
      moreover have "explosionGlowEndTimes u' ! j = explosionGlowEndTimes ?t ! j"
        unfolding u' using writeAt_nth_same [OF len(5) e(5)] by simp
      ultimately show ?thesis unfolding sameParticle_def by blast
    qed
    ultimately show ?thesis by blast
  qed
  from b show "\<forall>i. i \<noteq> j \<longrightarrow> sameParticle i u u'"
  proof (rule physicsBody_shape)
    fix q
    assume u': "u' = u\<lparr>explosionReturnTimes := writeAt (explosionReturnTimes u) j (explosionReturnUntil q),
            explosionGlowEndTimes := writeAt (explosionGlowEndTimes u) j (explosionGlowUntil q),
            sizes := writeAt (sizes u) j (newSize q),
            positions := (positions u)[j := position q],
            velocities := (velocities u)[j := velocity q]\<rparr>"
    show ?thesis unfolding u' sameParticle_def by (simp add: writeAt_nth_other)
  qed
qed

lemma sameParticle_refl: "sameParticle i s s"
  by (simp add: sameParticle_def)

lemma sameParticle_trans: "sameParticle i s t \<Longrightarrow> sameParticle i t u \<Longrightarrow> sameParticle i s u"
  by (simp add: sameParticle_def)

lemma physicsBody_Break: "physicsBody f L j t = Break \<Longrightarrow> length (positions t) \<le> j"
  by (simp add: physicsBody_def split: if_splits option.splits)

lemma physicsLoop_local:
  assumes run: "forLoop 0 n (physicsBody f L) s = Some s'"
    and n: "n \<le> length (positions s)" and i: "i < n"
  shows "\<exists>t. physicsBody f L i s = Continue t \<and> sameParticle i t s'"
proof -
  let ?I = "\<lambda>j u. keptByLoops s u \<and> (\<forall>i \<ge> j. sameParticle i s u)
                  \<and> (\<forall>i < j. \<exists>t. physicsBody f L i s = Continue t \<and> sameParticle i t u)"
  have "\<exists>j. 0 \<le> j \<and> ?I j s' \<and> (n \<le> j \<or> physicsBody f L j s' = Break)"
    using run
  proof (rule forLoop_indexed [where I = ?I])
    show "?I 0 s" by (simp add: keptByLoops_refl sameParticle_refl)
  next
    fix j u u'
    assume inv: "?I j u" and b: "physicsBody f L j u = Continue u'"
    then have k: "keptByLoops s u" and ge: "\<forall>i \<ge> j. sameParticle i s u"
      and lt: "\<forall>i < j. \<exists>t. physicsBody f L i s = Continue t \<and> sameParticle i t u"
      by simp_all
    from ge have sj: "sameParticle j s u" by simp
    note loc = physicsBody_local [OF k sj b]
    have "keptByLoops s u'" by (rule physicsBody_kept [OF k b])
    moreover have "\<forall>i \<ge> Suc j. sameParticle i s u'"
    proof (intro allI impI)
      fix i assume "Suc j \<le> i"
      then have "sameParticle i s u" "sameParticle i u u'" using ge loc(2) by simp_all
      then show "sameParticle i s u'" by (rule sameParticle_trans)
    qed
    moreover have "\<forall>i < Suc j. \<exists>t. physicsBody f L i s = Continue t \<and> sameParticle i t u'"
    proof (intro allI impI)
      fix i assume a: "i < Suc j"
      show "\<exists>t. physicsBody f L i s = Continue t \<and> sameParticle i t u'"
      proof (cases "i = j")
        case True
        with loc(1) show ?thesis by simp
      next
        case False
        with a have "i < j" by simp
        with lt obtain t where t: "physicsBody f L i s = Continue t" "sameParticle i t u" by blast
        from False loc(2) have "sameParticle i u u'" by simp
        with t(2) have "sameParticle i t u'" by (rule sameParticle_trans)
        with t(1) show ?thesis by blast
      qed
    qed
    ultimately show "?I (Suc j) u'" by simp
  qed
  then obtain j where inv: "?I j s'" and stop: "n \<le> j \<or> physicsBody f L j s' = Break" by blast
  from inv have "length (positions s') = length (positions s)" by (simp add: keptByLoops_def)
  with stop n have "n \<le> j" using physicsBody_Break [of f L j s'] by auto
  with i inv show ?thesis by simp
qed

lemma distanceBody_Break: "distanceBody f j t = Break \<Longrightarrow> length (positions t) \<le> j"
  by (simp add: distanceBody_def Let_def split: if_splits)

lemma distanceLoop_local:
  assumes run: "forLoop 0 n (distanceBody f) s = Some s'"
    and n: "n \<le> length (positions s)" "n \<le> length (distanceBuffer s)" and i: "i < n"
  shows "distanceBuffer s' ! i = \<bar>(case positions s ! i of (x, y, z) \<Rightarrow> z) - cameraZ f\<bar>"
proof -
  let ?d = "\<lambda>i. \<bar>(case positions s ! i of (x, y, z) \<Rightarrow> z) - cameraZ f\<bar>"
  let ?I = "\<lambda>j u. \<exists>D. u = s\<lparr>distanceBuffer := D\<rparr> \<and> length D = length (distanceBuffer s)
                    \<and> (\<forall>i < j. D ! i = ?d i)"
  have "\<exists>j. 0 \<le> j \<and> ?I j s' \<and> (n \<le> j \<or> distanceBody f j s' = Break)"
    using run
  proof (rule forLoop_indexed [where I = ?I])
    show "?I 0 s" by (intro exI [of _ "distanceBuffer s"]) simp
  next
    fix j u u'
    assume j: "j < n" and "?I j u" and b: "distanceBody f j u = Continue u'"
    then obtain D where u: "u = s\<lparr>distanceBuffer := D\<rparr>"
      and l: "length D = length (distanceBuffer s)" and d: "\<forall>i < j. D ! i = ?d i" by blast
    from distanceBody_shape [OF b] u have u': "u' = s\<lparr>distanceBuffer := D[j := ?d j]\<rparr>" by simp
    from j n(2) l have "j < length D" by simp
    with d have "\<forall>i < Suc j. D[j := ?d j] ! i = ?d i" by (simp add: nth_list_update less_Suc_eq)
    with u' l show "?I (Suc j) u'" by (intro exI [of _ "D[j := ?d j]"]) simp
  qed
  then obtain j D where s': "s' = s\<lparr>distanceBuffer := D\<rparr>" and d: "\<forall>i < j. D ! i = ?d i"
    and stop: "n \<le> j \<or> distanceBody f j s' = Break" by blast
  from s' have "length (positions s') = length (positions s)" by simp
  with stop n(1) have "n \<le> j" using distanceBody_Break [of f j s'] by auto
  with i d s' show ?thesis by simp
qed

lemma colorBody_Break:
  "colorBody f L dyn j t = Break \<Longrightarrow> length (distanceBuffer t) \<le> j \<or> length (colors t) \<le> j"
  by (simp add: colorBody_def split: if_splits option.splits)

lemma colorLoop_local:
  assumes run: "forLoop 0 n (colorBody f L dyn) s = Some s'"
    and n: "n \<le> length (distanceBuffer s)" "n \<le> length (colors s)" and i: "i < n"
  shows "\<exists>b. finalBrightness f (CONFIG s) L i (distanceBuffer s ! i) (readAt (baseSizes s) i)
               (readAt (sizes s) i) (readAt (positions s) i) (readAt (explosionGlowEndTimes s) i)
             = Some b
           \<and> colors s' ! i = (b, b, b)"
    and "\<exists>G C. s' = s\<lparr>glows := G, colors := C\<rparr>"
proof -
  let ?fb = "\<lambda>i. finalBrightness f (CONFIG s) L i (distanceBuffer s ! i) (readAt (baseSizes s) i)
               (readAt (sizes s) i) (readAt (positions s) i) (readAt (explosionGlowEndTimes s) i)"
  let ?I = "\<lambda>j u. \<exists>G C. u = s\<lparr>glows := G, colors := C\<rparr> \<and> length C = length (colors s)
                    \<and> (\<forall>i < j. \<exists>b. ?fb i = Some b \<and> C ! i = (b, b, b))"
  have "\<exists>j. 0 \<le> j \<and> ?I j s' \<and> (n \<le> j \<or> colorBody f L dyn j s' = Break)"
    using run
  proof (rule forLoop_indexed [where I = ?I])
    show "?I 0 s" by (intro exI [of _ "glows s"] exI [of _ "colors s"]) simp
  next
    fix j u u'
    assume j: "j < n" and "?I j u" and b: "colorBody f L dyn j u = Continue u'"
    then obtain G C where u: "u = s\<lparr>glows := G, colors := C\<rparr>"
      and l: "length C = length (colors s)"
      and d: "\<forall>i < j. \<exists>b. ?fb i = Some b \<and> C ! i = (b, b, b)" by blast
    from b show "?I (Suc j) u'"
    proof (rule colorBody_shape)
      fix b g
      assume fb: "finalBrightness f (CONFIG u) L j (distanceBuffer u ! j) (readAt (baseSizes u) j)
          (readAt (sizes u) j) (readAt (positions u) j) (readAt (explosionGlowEndTimes u) j) = Some b"
        and u': "u' = u\<lparr>glows := writeAt (glows u) j g, colors := (colors u)[j := (b, b, b)]\<rparr>"
      from fb u have fbj: "?fb j = Some b" by simp
      from u' u have e: "u' = s\<lparr>glows := writeAt G j g, colors := C[j := (b, b, b)]\<rparr>" by simp
      from j n(2) l have "j < length C" by simp
      with d fbj have "\<forall>i < Suc j. \<exists>b'. ?fb i = Some b' \<and> C[j := (b, b, b)] ! i = (b', b', b')"
        by (simp add: nth_list_update less_Suc_eq)
      with e l show ?thesis
        by (intro exI [of _ "writeAt G j g"] exI [of _ "C[j := (b, b, b)]"]) simp
    qed
  qed
  then obtain j G C where s': "s' = s\<lparr>glows := G, colors := C\<rparr>"
    and l: "length C = length (colors s)"
    and d: "\<forall>i < j. \<exists>b. ?fb i = Some b \<and> C ! i = (b, b, b)"
    and stop: "n \<le> j \<or> colorBody f L dyn j s' = Break" by blast
  from s' l have "length (distanceBuffer s') = length (distanceBuffer s)"
    "length (colors s') = length (colors s)" by simp_all
  with stop n have "n \<le> j" using colorBody_Break [of f L dyn j s'] by auto
  with i d s' show "\<exists>b. ?fb i = Some b \<and> colors s' ! i = (b, b, b)" by simp
  from s' show "\<exists>G C. s' = s\<lparr>glows := G, colors := C\<rparr>" by blast
qed

section \<open>What a settled frame writes for one particle\<close>

lemma physicsLoop_distanceBuffer:
  assumes "forLoop k n (physicsBody f L) s = Some s'"
  shows "distanceBuffer s' = distanceBuffer s"
  using assms
proof (rule forLoop_invariant [where P = "\<lambda>t. distanceBuffer t = distanceBuffer s"])
  fix i t t'
  assume d: "distanceBuffer t = distanceBuffer s" and b: "physicsBody f L i t = Continue t'"
  from b show "distanceBuffer t' = distanceBuffer s"
  proof (rule physicsBody_shape)
    fix q
    assume "t' = t\<lparr>explosionReturnTimes := writeAt (explosionReturnTimes t) i (explosionReturnUntil q),
            explosionGlowEndTimes := writeAt (explosionGlowEndTimes t) i (explosionGlowUntil q),
            sizes := writeAt (sizes t) i (newSize q),
            positions := (positions t)[i := position q],
            velocities := (velocities t)[i := velocity q]\<rparr>"
    with d show ?thesis by simp
  qed
qed simp

lemma settledPhysics_motion:
  assumes run: "settledPhysics f s = Some s'" and i: "i < actualCount s"
  shows "\<exists>q. particleStep f (fst (waveLogic f (CONFIG s))) (fst (startFrame f s)) i
               (readAt (scrollDirections s) i) (readAt (baseSizes s) i)
               (Some (originalPositions s ! i)) (positions s ! i) (velocities s ! i)
               (readAt (explosionReturnTimes s) i) (readAt (explosionGlowEndTimes s) i) = Some q
             \<and> positions s' ! i = position q
             \<and> velocities s' ! i = velocity q
             \<and> explosionReturnTimes s' ! i
                 = writeAt (explosionReturnTimes s) i (explosionReturnUntil q) ! i
             \<and> explosionGlowEndTimes s' ! i
                 = writeAt (explosionGlowEndTimes s) i (explosionGlowUntil q) ! i"
  using run
proof (rule settledPhysics_run)
  fix s3 s4 s6
  let ?L = "fst (startFrame f s)"
  let ?c1 = "fst (waveLogic f (CONFIG s))"
  let ?s5 = "refreshGlowCache (resetSizes ?L s4)"
  let ?dyn = "velocityGlowMultiplier (CONFIG ?s5) > 0"
  assume l1: "forLoop 0 (actualCount s) (distanceBody f) (snd (startFrame f s)) = Some s3"
    and l2: "forLoop 0 (actualCount s) (physicsBody f ?L) s3 = Some s4"
    and l3: "(if hasColorAttribute ?s5 then forLoop 0 (actualCount s) (colorBody f ?L ?dyn) ?s5
              else Some ?s5) = Some s6"
    and e: "s' = endFrame ?dyn s6"
  obtain D where "snd (startFrame f s) = s\<lparr>CONFIG := ?c1, distanceBuffer := D\<rparr>"
    by (rule startFrame_shape)
  with distanceLoop_shape [OF l1] obtain D' where s3: "s3 = s\<lparr>CONFIG := ?c1, distanceBuffer := D'\<rparr>"
    by auto
  from i actualCount_le [of s] have il: "i < length (positions s)" "i < length (velocities s)"
    "i < length (originalPositions s)" by simp_all
  from actualCount_le(1) [of s] s3 have n3: "actualCount s \<le> length (positions s3)" by simp
  from physicsLoop_local [OF l2 n3 i] obtain t where
    b: "physicsBody f ?L i s3 = Continue t" and sp: "sameParticle i t s4" by blast
  \<comment> \<open>the later passes keep the five arrays\<close>
  have s5: "positions ?s5 = positions s4" "velocities ?s5 = velocities s4"
    "explosionReturnTimes ?s5 = explosionReturnTimes s4"
    "explosionGlowEndTimes ?s5 = explosionGlowEndTimes s4"
    by (simp_all add: refreshGlowCache_kept resetSizes_kept)
  have s6: "positions s6 = positions ?s5 \<and> velocities s6 = velocities ?s5
      \<and> explosionReturnTimes s6 = explosionReturnTimes ?s5
      \<and> explosionGlowEndTimes s6 = explosionGlowEndTimes ?s5"
  proof (cases "hasColorAttribute ?s5")
    case True
    with l3 have l3': "forLoop 0 (actualCount s) (colorBody f ?L ?dyn) ?s5 = Some s6" by simp
    have "positions s6 = positions ?s5 \<and> velocities s6 = velocities ?s5
      \<and> explosionReturnTimes s6 = explosionReturnTimes ?s5
      \<and> explosionGlowEndTimes s6 = explosionGlowEndTimes ?s5"
      using l3'
    proof (rule forLoop_invariant)
      fix j u u'
      assume a: "positions u = positions ?s5 \<and> velocities u = velocities ?s5
        \<and> explosionReturnTimes u = explosionReturnTimes ?s5
        \<and> explosionGlowEndTimes u = explosionGlowEndTimes ?s5"
        and cb: "colorBody f ?L ?dyn j u = Continue u'"
      from cb show "positions u' = positions ?s5 \<and> velocities u' = velocities ?s5
        \<and> explosionReturnTimes u' = explosionReturnTimes ?s5
        \<and> explosionGlowEndTimes u' = explosionGlowEndTimes ?s5"
      proof (rule colorBody_shape)
        fix b g
        assume "u' = u\<lparr>glows := writeAt (glows u) j g, colors := (colors u)[j := (b, b, b)]\<rparr>"
        with a show ?thesis by simp
      qed
    qed simp
    then show ?thesis .
  next
    case False
    with l3 show ?thesis by simp
  qed
  have fin: "positions s' = positions s4" "velocities s' = velocities s4"
    "explosionReturnTimes s' = explosionReturnTimes s4"
    "explosionGlowEndTimes s' = explosionGlowEndTimes s4"
    unfolding e using s5 s6 by (simp_all add: endFrame_fields)
  from b show ?thesis
  proof (rule physicsBody_shape)
    fix v0 q
    assume v: "readAt (velocities s3) i = Some v0"
      and q: "particleStep f (CONFIG s3) ?L i (readAt (scrollDirections s3) i) (readAt (baseSizes s3) i)
                (if length (originalPositions s3) \<le> i \<or> length (velocities s3) \<le> i then None
                 else Some (originalPositions s3 ! i))
                (positions s3 ! i) v0
                (readAt (explosionReturnTimes s3) i) (readAt (explosionGlowEndTimes s3) i) = Some q"
      and t: "t = s3\<lparr>explosionReturnTimes := writeAt (explosionReturnTimes s3) i (explosionReturnUntil q),
            explosionGlowEndTimes := writeAt (explosionGlowEndTimes s3) i (explosionGlowUntil q),
            sizes := writeAt (sizes s3) i (newSize q),
            positions := (positions s3)[i := position q],
            velocities := (velocities s3)[i := velocity q]\<rparr>"
    from v s3 il have v0: "v0 = velocities s ! i" by (simp add: readAt_def)
    from q s3 il v0 have q': "particleStep f ?c1 ?L i
               (readAt (scrollDirections s) i) (readAt (baseSizes s) i)
               (Some (originalPositions s ! i)) (positions s ! i) (velocities s ! i)
               (readAt (explosionReturnTimes s) i) (readAt (explosionGlowEndTimes s) i) = Some q"
      by simp
    from sp t s3 il have "positions s4 ! i = position q" "velocities s4 ! i = velocity q"
      "explosionReturnTimes s4 ! i = writeAt (explosionReturnTimes s) i (explosionReturnUntil q) ! i"
      "explosionGlowEndTimes s4 ! i = writeAt (explosionGlowEndTimes s) i (explosionGlowUntil q) ! i"
      by (simp_all add: sameParticle_def)
    with q' fin show ?thesis by simp
  qed
qed

lemma settledPhysics_color:
  assumes run: "settledPhysics f s = Some s'" and i: "i < actualCount s"
    and col: "hasColorAttribute s"
  shows "\<exists>b. finalBrightness f (fst (waveLogic f (CONFIG s))) (fst (startFrame f s)) i
               \<bar>(case positions s ! i of (x, y, z) \<Rightarrow> z) - cameraZ f\<bar>
               (readAt (baseSizes s) i) (readAt (sizes s') i) (readAt (positions s') i)
               (readAt (explosionGlowEndTimes s') i) = Some b
             \<and> colors s' ! i = (b, b, b)"
  using run
proof (rule settledPhysics_run)
  fix s3 s4 s6
  let ?L = "fst (startFrame f s)"
  let ?c1 = "fst (waveLogic f (CONFIG s))"
  let ?s5 = "refreshGlowCache (resetSizes ?L s4)"
  let ?dyn = "velocityGlowMultiplier (CONFIG ?s5) > 0"
  let ?n = "actualCount s"
  assume l1: "forLoop 0 ?n (distanceBody f) (snd (startFrame f s)) = Some s3"
    and l2: "forLoop 0 ?n (physicsBody f ?L) s3 = Some s4"
    and l3: "(if hasColorAttribute ?s5 then forLoop 0 ?n (colorBody f ?L ?dyn) ?s5
              else Some ?s5) = Some s6"
    and e: "s' = endFrame ?dyn s6"
  obtain D where s2: "snd (startFrame f s) = s\<lparr>CONFIG := ?c1, distanceBuffer := D\<rparr>"
    and lD: "?n \<le> length D"
    by (rule startFrame_shape)
  from distanceLoop_shape [OF l1] s2 obtain D' where
    s3: "s3 = s\<lparr>CONFIG := ?c1, distanceBuffer := D'\<rparr>" and lD': "length D' = length D"
    by auto
  have "distanceBuffer s3 ! i
          = \<bar>(case positions (snd (startFrame f s)) ! i of (x, y, z) \<Rightarrow> z) - cameraZ f\<bar>"
    using l1
  proof (rule distanceLoop_local)
    show "?n \<le> length (positions (snd (startFrame f s)))"
      unfolding s2 using actualCount_le(1) [of s] by simp
    show "?n \<le> length (distanceBuffer (snd (startFrame f s)))"
      unfolding s2 using lD by simp
    show "i < ?n" by (rule i)
  qed
  then have d3: "distanceBuffer s3 ! i = \<bar>(case positions s ! i of (x, y, z) \<Rightarrow> z) - cameraZ f\<bar>"
    unfolding s2 by simp
  have k4: "keptByLoops s3 s4" by (rule physicsLoop_kept [OF l2])
  have d4: "distanceBuffer s4 = distanceBuffer s3" by (rule physicsLoop_distanceBuffer [OF l2])
  have f5: "CONFIG ?s5 = ?c1" "baseSizes ?s5 = baseSizes s" "distanceBuffer ?s5 = distanceBuffer s3"
    "hasColorAttribute ?s5" "length (colors ?s5) = length (colors s)"
    using k4 s3 d4 col by (simp_all add: refreshGlowCache_kept resetSizes_kept keptByLoops_def)
  from l3 f5(4) have l3': "forLoop 0 ?n (colorBody f ?L ?dyn) ?s5 = Some s6" by simp
  have n5: "?n \<le> length (distanceBuffer ?s5)" "?n \<le> length (colors ?s5)"
    using f5 s3 lD lD' actualCount_le(3) [of s] by simp_all
  from colorLoop_local [OF l3' n5 i] obtain b G C where
    fb: "finalBrightness f (CONFIG ?s5) ?L i (distanceBuffer ?s5 ! i) (readAt (baseSizes ?s5) i)
           (readAt (sizes ?s5) i) (readAt (positions ?s5) i) (readAt (explosionGlowEndTimes ?s5) i)
         = Some b"
    and cb: "colors s6 ! i = (b, b, b)"
    and s6: "s6 = ?s5\<lparr>glows := G, colors := C\<rparr>" by blast
  from s6 have "sizes s6 = sizes ?s5" "positions s6 = positions ?s5"
    "explosionGlowEndTimes s6 = explosionGlowEndTimes ?s5" "colors s6 = C" by simp_all
  then have fin: "sizes s' = sizes ?s5" "positions s' = positions ?s5"
    "explosionGlowEndTimes s' = explosionGlowEndTimes ?s5" "colors s' = colors s6"
    unfolding e by (simp_all add: endFrame_fields)
  from fb have "finalBrightness f ?c1 ?L i \<bar>(case positions s ! i of (x, y, z) \<Rightarrow> z) - cameraZ f\<bar>
               (readAt (baseSizes s) i) (readAt (sizes s') i) (readAt (positions s') i)
               (readAt (explosionGlowEndTimes s') i) = Some b"
    unfolding f5 d3 fin .
  with cb fin(4) show ?thesis by simp
qed

section \<open>The particle step, block by block\<close>

lemma particleStep_Some:
  assumes "particleStep f c L i dir bs target p0 v0 r0 g0 = Some q"
  obtains v3 v4 w where
    "(if hasExplosions L
      then explosionLoop f c i dir 0 (explosions c)
             (pointerAndJitter f c L i p0 v0, r0, g0)
      else Some (pointerAndJitter f c L i p0 v0, r0, g0))
       = Some (v3, explosionReturnUntil q, explosionGlowUntil q)"
    "waveBlock c L p0 v3 = Some (v4, w)"
    "newSize q = (if waveActive L then map_option (\<lambda>baseSize. derivedSize c i baseSize w) bs else None)"
    "(position q, velocity q)
       = (case target of
            None \<Rightarrow> (addScaledVector p0 v4 (timeScale c), v4)
          | Some tg \<Rightarrow> integrate f c (explosionReturnUntil q) tg
                         (addScaledVector p0 v4 (timeScale c)) v4)"
proof -
  let ?v2 = "pointerAndJitter f c L i p0 v0"
  let ?e = "if hasExplosions L then explosionLoop f c i dir 0 (explosions c) (?v2, r0, g0)
            else Some (?v2, r0, g0)"
  show ?thesis
  proof (cases ?e)
    case None
    with assms show ?thesis by (simp add: particleStep_def Let_def)
  next
    case (Some x)
    obtain v3 r g where x: "x = (v3, r, g)" by (cases x)
    show ?thesis
    proof (cases "waveBlock c L p0 v3")
      case None
      with assms Some x show ?thesis by (simp add: particleStep_def Let_def)
    next
      case wb: (Some y)
      obtain v4 w where y: "y = (v4, w)" by (cases y)
      let ?r = "case target of
                  None \<Rightarrow> (addScaledVector p0 v4 (timeScale c), v4)
                | Some tg \<Rightarrow> integrate f c r tg (addScaledVector p0 v4 (timeScale c)) v4"
      from assms Some x wb y
      have q: "q = \<lparr>explosionReturnUntil = r, explosionGlowUntil = g,
                    newSize = (if waveActive L
                               then map_option (\<lambda>baseSize. derivedSize c i baseSize w) bs else None),
                    position = fst ?r, velocity = snd ?r\<rparr>"
        by (simp add: particleStep_def Let_def)
      show ?thesis
      proof (rule that [of v3 v4 w])
        show "?e = Some (v3, explosionReturnUntil q, explosionGlowUntil q)"
          using Some x q by simp
        show "waveBlock c L p0 v3 = Some (v4, w)" using wb y by simp
        show "newSize q = (if waveActive L
                           then map_option (\<lambda>baseSize. derivedSize c i baseSize w) bs else None)"
          using q by simp
        show "(position q, velocity q)
                = (case target of
                     None \<Rightarrow> (addScaledVector p0 v4 (timeScale c), v4)
                   | Some tg \<Rightarrow> integrate f c (explosionReturnUntil q) tg
                                  (addScaledVector p0 v4 (timeScale c)) v4)"
        proof -
          from q have sel: "explosionReturnUntil q = r" "position q = fst ?r" "velocity q = snd ?r"
            by simp_all
          show ?thesis unfolding sel by simp
        qed
      qed
    qed
  qed
qed

lemma particleStep_timers:
  assumes q: "particleStep f c L i dir bs target p0 v0 r0 g0 = Some q"
    and h: "hasExplosions L" and na: "\<not> list_all applied (explosions c)"
  shows "explosionReturnUntil q
           = map_option (\<lambda>old. fround (max old (nowPerf f + explosionReturnDelay c))) r0"
    and "explosionGlowUntil q
           = map_option (\<lambda>old. fround (max old (nowPerf f + explosionGlowDuration c))) g0"
proof -
  from q obtain v2 v3 where
    "explosionLoop f c i dir 0 (explosions c) (v2, r0, g0)
       = Some (v3, explosionReturnUntil q, explosionGlowUntil q)"
    using h by (elim particleStep_Some) simp
  from explosionLoop_timers [OF this] na
  show "explosionReturnUntil q
           = map_option (\<lambda>old. fround (max old (nowPerf f + explosionReturnDelay c))) r0"
    and "explosionGlowUntil q
           = map_option (\<lambda>old. fround (max old (nowPerf f + explosionGlowDuration c))) g0"
    by simp_all
qed

lemma particleStep_no_explosion:
  assumes q: "particleStep f c L i dir bs target p0 v0 r0 g0 = Some q"
    and h: "\<not> hasExplosions L \<or> list_all applied (explosions c)"
  shows "explosionReturnUntil q = r0" and "explosionGlowUntil q = g0"
proof -
  from q obtain v2 v3 where
    e: "(if hasExplosions L then explosionLoop f c i dir 0 (explosions c) (v2, r0, g0)
         else Some (v2, r0, g0))
       = Some (v3, explosionReturnUntil q, explosionGlowUntil q)"
    by (elim particleStep_Some)
  show "explosionReturnUntil q = r0" and "explosionGlowUntil q = g0"
  proof -
    show "explosionReturnUntil q = r0"
    proof (cases "hasExplosions L")
      case True
      with h e have "explosionLoop f c i dir 0 (explosions c) (v2, r0, g0)
          = Some (v3, explosionReturnUntil q, explosionGlowUntil q)" "list_all applied (explosions c)"
        by simp_all
      with explosionLoop_timers [OF this(1)] show ?thesis by simp
    next
      case False
      with e show ?thesis by simp
    qed
    show "explosionGlowUntil q = g0"
    proof (cases "hasExplosions L")
      case True
      with h e have "explosionLoop f c i dir 0 (explosions c) (v2, r0, g0)
          = Some (v3, explosionReturnUntil q, explosionGlowUntil q)" "list_all applied (explosions c)"
        by simp_all
      with explosionLoop_timers [OF this(1)] show ?thesis by simp
    next
      case False
      with e show ?thesis by simp
    qed
  qed
qed

lemma waveLogic_explosion_fields:
  "explosionReturnDelay (fst (waveLogic f c)) = explosionReturnDelay c"
  "explosionForce (fst (waveLogic f c)) = explosionForce c"
proof -
  obtain W T where "fst (waveLogic f c) = c\<lparr>waves := W, lastWaveTime := T\<rparr>"
    using waveLogic_shape by blast
  then show "explosionReturnDelay (fst (waveLogic f c)) = explosionReturnDelay c"
    "explosionForce (fst (waveLogic f c)) = explosionForce c"
    by simp_all
qed

lemma settled_frame_total:
  assumes "isInitialized s" and "hasGeometry s" and "\<not> isLoadingAnimation (CONFIG s)"
    and "staysInModel s"
  shows "\<exists>s'. updatePhysics f s = Some s'"
  unfolding updatePhysics_settled [OF assms(1-3)]
  by (rule settledPhysics_total) (simp add: resetMouseVelocity_fields assms(4))


section \<open>Evaluating the example states\<close>

lemmas frame_eval =
  updatePhysics_def resetMouseVelocity_def settledPhysics_def startFrame_def endFrame_def lengthSq_def
  waveLogic_def frameLocals_def actualCount_def forLoop.simps distanceBody_def physicsBody_def
  particleStep_def pointerAndJitter_def autonomousMotion_def waveBlock_def integrate_def
  explosionImpulse_def addVectors_def addScaledVector_def subVectors_def multiplyScalar_def
  readAt_def writeAt_def resetSizes_def refreshGlowCache_def colorBody_def finalBrightness_def
  totalWaveGlow_def explosionGlow_def scaledBrightness_def baseBrightness_def particleGlow_def
  cleanExplosions_def Let_def fround_numeral
  exampleSim_def exampleFrame_def defaultConfig_def




section \<open>The rest state\<close>



section \<open>Invisible points\<close>

lemma baseBrightness_hidden:
  "(case sz of None \<Rightarrow> 0 | Some z \<Rightarrow> z) = 0 \<Longrightarrow> baseBrightness c d (Some 0) sz = 0"
  by (simp add: baseBrightness_def Let_def)

lemma scaledBrightness_zero: "scaledBrightness c i 0 = 0"
  by (simp add: scaledBrightness_def Let_def)

lemma totalWaveGlow_off: "\<not> waveActive L \<Longrightarrow> totalWaveGlow c L p = Some 0"
  by (simp add: totalWaveGlow_def)

lemma explosionGlow_cong:
  "explosionEnabled c' = explosionEnabled c \<Longrightarrow> explosionGlowDuration c' = explosionGlowDuration c
   \<Longrightarrow> explosionGlowIntensity c' = explosionGlowIntensity c
   \<Longrightarrow> explosionGlow f c' e = explosionGlow f c e"
  by (cases e) (simp_all add: explosionGlow_def)

lemma explosionGlow_none_pending:
  "explosionEnabled c \<longrightarrow> (case e of None \<Rightarrow> True | Some t \<Rightarrow> t \<le> nowPerf f)
   \<Longrightarrow> explosionGlow f c e = Some 0"
  by (cases e; cases "explosionEnabled c") (simp_all add: explosionGlow_def)

lemma waveGlowLoop_explosions:
  "waveGlowLoop (c\<lparr>explosions := es\<rparr>) d ws t = waveGlowLoop c d ws t"
  by (induction ws arbitrary: t) (simp_all add: waveFactor_def Let_def)

lemma totalWaveGlow_explosions:
  "totalWaveGlow (c\<lparr>explosions := es\<rparr>) L p = totalWaveGlow c L p"
  by (cases p) (simp_all add: totalWaveGlow_def waveGlowLoop_explosions Let_def)

section \<open>The cadence of the waves\<close>

lemma maxWaveRadius_example: "maxWaveRadius (exampleFrame t) = 25 / 2"
proof -
  have "sqrt 625 = sqrt (25\<^sup>2)" by simp
  also have "\<dots> = 25" by simp
  finally have "sqrt 625 = 25" .
  then show ?thesis by (simp add: maxWaveRadius_def exampleFrame_def Let_def)
qed

lemma advanceWave_loaded [simp]:
  "advanceWave (c\<lparr>isLoadingAnimation := b\<rparr>) = advanceWave c"
  by (rule ext) (simp add: advanceWave_def)

lemma settled_frame_waves:
  assumes "isInitialized t" and "hasGeometry t" and "\<not> isLoadingAnimation (CONFIG t)"
    and "waveEnabled (CONFIG t)" and "lastWaveTime (CONFIG t) = Some tw"
    and "updatePhysics g t = Some t'"
  shows "waves (CONFIG t') =
           filter (\<lambda>w. radius w < maxWaveRadius g + waveWidth (CONFIG t))
             (map (advanceWave (CONFIG t))
                (waves (CONFIG t) @
                   (if nowDate g - tw \<ge> waveInterval (CONFIG t)
                    then [\<lparr>radius = 0, waveStartTime = nowDate g, waveId = nowDate g\<rparr>]
                    else [])))"
    and "lastWaveTime (CONFIG t') =
           Some (if nowDate g - tw \<ge> waveInterval (CONFIG t) then nowDate g else tw)"
    and "waveEnabled (CONFIG t')" and "\<not> isLoadingAnimation (CONFIG t')"
proof -
  from assms(6) have run: "settledPhysics g (resetMouseVelocity t) = Some t'"
    unfolding updatePhysics_settled [OF assms(1-3)] .
  have cfg: "CONFIG t' = (fst (waveLogic g (CONFIG t)))\<lparr>explosions := []\<rparr>"
    using settledPhysics_CONFIG [OF run] by (simp add: resetMouseVelocity_fields)
  note on = waveLogic_on [OF assms(4,3), of g]
  show "waves (CONFIG t') =
           filter (\<lambda>w. radius w < maxWaveRadius g + waveWidth (CONFIG t))
             (map (advanceWave (CONFIG t))
                (waves (CONFIG t) @
                   (if nowDate g - tw \<ge> waveInterval (CONFIG t)
                    then [\<lparr>radius = 0, waveStartTime = nowDate g, waveId = nowDate g\<rparr>]
                    else [])))"
    by (simp add: cfg on assms(5))
  show "lastWaveTime (CONFIG t') =
           Some (if nowDate g - tw \<ge> waveInterval (CONFIG t) then nowDate g else tw)"
    by (simp add: cfg on assms(5))
  show "waveEnabled (CONFIG t')" "\<not> isLoadingAnimation (CONFIG t')"
    using assms(3,4) by (simp_all add: cfg waveLogic_fields)
qed

lemma transition_frame:
  assumes "isInitialized s" and "hasGeometry s"
    and "isLoadingAnimation (CONFIG s)" and "loadAnimationStartTime (CONFIG s) = Some t0"
    and "loadProgress (nowDate f - t0) (loadAnimationDuration (CONFIG s)) = Some progress"
    and "progress \<ge> 1"
    and "updatePhysics f s = Some s'"
  obtains s2 where "keptByLoading (resetMouseVelocity s) s2"
    and "settledPhysics f (s2\<lparr>CONFIG := finishLoading f (CONFIG s)\<rparr>) = Some s'"
proof -
  define s1 where "s1 = resetMouseVelocity s"
  have up: "updatePhysics f s =
              (case loadingAnimation f t0 s1 of
                 None \<Rightarrow> None
               | Some (s2, pr) \<Rightarrow>
                   (if pr \<ge> 1.0 then settledPhysics f (s2\<lparr>CONFIG := finishLoading f (CONFIG s2)\<rparr>)
                    else Some s2))"
    using assms(1-4) unfolding updatePhysics_def s1_def Let_def
    by (simp add: resetMouseVelocity_def)
  have pr1: "loadProgress (nowDate f - t0) (loadAnimationDuration (CONFIG s1)) = Some progress"
    using assms(5) by (simp add: s1_def resetMouseVelocity_def)
  from assms(7) up obtain s2 pr where la: "loadingAnimation f t0 s1 = Some (s2, pr)"
    by (auto split: option.splits)
  from loadingAnimation_kept [OF la] pr1 have k: "keptByLoading s1 s2" and "pr = progress"
    by simp_all
  with assms(6,7) la up
  have "settledPhysics f (s2\<lparr>CONFIG := finishLoading f (CONFIG s2)\<rparr>) = Some s'" by simp
  moreover from k have "CONFIG s2 = CONFIG s"
    by (simp add: keptByLoading_def s1_def resetMouseVelocity_def)
  ultimately show ?thesis using k that unfolding s1_def by simp
qed

lemmas loading_eval =
  loadingAnimation_def loadProgress_def bezierEasing_def loadPositionBody_def loadColorBody_def
  loadGlowBody_def lerp3_def finishLoading_def

lemma transition_example:
  "map_option (\<lambda>s. (isLoadingAnimation (CONFIG s), waves (CONFIG s), lastWaveTime (CONFIG s)))
     (updatePhysics (exampleFrame 4000)
        (exampleSim (defaultConfig\<lparr>loadAnimationStartTime := Some 0, waveEnabled := True\<rparr>)))
   = Some (False, [], Some 4000)"
  by (simp add: frame_eval loading_eval)

section \<open>Growth and removal of the waves\<close>

lemma sqrt_625: "sqrt 625 = 25"
proof -
  have "sqrt 625 = sqrt (25\<^sup>2)" by simp
  also have "\<dots> = 25" by simp
  finally show ?thesis .
qed

lemma settled_frame_wave_list:
  assumes "isInitialized t" and "hasGeometry t" and "\<not> isLoadingAnimation (CONFIG t)"
    and "waveEnabled (CONFIG t)"
    and "updatePhysics g t = Some t'"
  shows "waves (CONFIG t') =
           filter (\<lambda>w. radius w < maxWaveRadius g + waveWidth (CONFIG t))
             (map (advanceWave (CONFIG t))
                (waves (CONFIG t) @
                   (if nowDate g - (case lastWaveTime (CONFIG t) of None \<Rightarrow> nowDate g | Some l \<Rightarrow> l)
                         \<ge> waveInterval (CONFIG t)
                    then [\<lparr>radius = 0, waveStartTime = nowDate g, waveId = nowDate g\<rparr>]
                    else [])))"
proof -
  from assms(5) have run: "settledPhysics g (resetMouseVelocity t) = Some t'"
    unfolding updatePhysics_settled [OF assms(1-3)] .
  have cfg: "CONFIG t' = (fst (waveLogic g (CONFIG t)))\<lparr>explosions := []\<rparr>"
    using settledPhysics_CONFIG [OF run] by (simp add: resetMouseVelocity_fields)
  show ?thesis by (simp add: cfg waveLogic_on [OF assms(4,3), of g])
qed

section \<open>The depth term of the brightness\<close>

lemma settled_frame_color:
  assumes "isInitialized s" and "hasGeometry s" and "\<not> isLoadingAnimation (CONFIG s)"
    and "hasColorAttribute s"
    and "updatePhysics f s = Some s'"
    and "i < actualCount s"
  obtains wg eg where
    "totalWaveGlow (CONFIG s') (fst (startFrame f (resetMouseVelocity s)))
       (readAt (positions s') i) = Some wg"
    and "explosionGlow f (CONFIG s') (readAt (explosionGlowEndTimes s') i) = Some eg"
    and "colors s' ! i =
           (let b = min (scaledBrightness (CONFIG s) i
                           (baseBrightness (CONFIG s)
                              \<bar>(case positions s ! i of (x, y, z) \<Rightarrow> z) - cameraZ f\<bar>
                              (readAt (baseSizes s) i) (readAt (sizes s') i)) + wg + eg) 1
            in (b, b, b))"
proof -
  let ?s1 = "resetMouseVelocity s"
  let ?c1 = "fst (waveLogic f (CONFIG s))"
  let ?L = "fst (startFrame f ?s1)"
  let ?p = "readAt (positions s') i"
  let ?e = "readAt (explosionGlowEndTimes s') i"
  let ?d = "\<bar>(case positions s ! i of (x, y, z) \<Rightarrow> z) - cameraZ f\<bar>"
  from assms(5) have run: "settledPhysics f ?s1 = Some s'"
    unfolding updatePhysics_settled [OF assms(1-3)] .
  have i1: "i < actualCount ?s1" and ca: "hasColorAttribute ?s1"
    using assms(4,6) by (simp_all add: resetMouseVelocity_fields)
  from settledPhysics_color [OF run i1 ca] obtain b where
    fb: "finalBrightness f ?c1 ?L i ?d
           (readAt (baseSizes s) i) (readAt (sizes s') i) ?p ?e = Some b"
    and col: "colors s' ! i = (b, b, b)"
    unfolding resetMouseVelocity_fields by blast
  have cfg: "CONFIG s' = ?c1\<lparr>explosions := []\<rparr>"
    using settledPhysics_CONFIG [OF run] by (simp add: resetMouseVelocity_fields)
  have wgc: "totalWaveGlow (CONFIG s') ?L ?p = totalWaveGlow ?c1 ?L ?p"
    by (simp add: cfg totalWaveGlow_explosions)
  have egc: "explosionGlow f (CONFIG s') ?e = explosionGlow f ?c1 ?e"
    by (rule explosionGlow_cong) (simp_all add: cfg)
  obtain W T where wl: "?c1 = (CONFIG s)\<lparr>waves := W, lastWaveTime := T\<rparr>"
    using waveLogic_shape by blast
  have depth: "scaledBrightness ?c1 i (baseBrightness ?c1 ?d bs sz)
                 = scaledBrightness (CONFIG s) i (baseBrightness (CONFIG s) ?d bs sz)" for bs sz
    unfolding wl by (simp add: scaledBrightness_def baseBrightness_def)
  from fb obtain wg where wg: "totalWaveGlow ?c1 ?L ?p = Some wg"
    by (cases "totalWaveGlow ?c1 ?L ?p") (simp_all add: finalBrightness_def)
  from fb wg obtain eg where eg: "explosionGlow f ?c1 ?e = Some eg"
    by (cases "explosionGlow f ?c1 ?e") (simp_all add: finalBrightness_def)
  from fb wg eg have "b = min (scaledBrightness (CONFIG s) i
                           (baseBrightness (CONFIG s) ?d
                              (readAt (baseSizes s) i) (readAt (sizes s') i)) + wg + eg) 1"
    by (simp add: finalBrightness_def depth)
  with col wg eg wgc egc that show ?thesis by (simp add: Let_def)
qed

lemma settled_frame_color_quiet:
  assumes "isInitialized s" and "hasGeometry s" and "\<not> isLoadingAnimation (CONFIG s)"
    and "hasColorAttribute s"
    and "updatePhysics f s = Some s'"
    and "i < actualCount s"
    and "\<not> waveEnabled (CONFIG s)" and "\<not> explosionEnabled (CONFIG s)"
  shows "colors s' ! i =
           (let b = min (scaledBrightness (CONFIG s) i
                           (baseBrightness (CONFIG s)
                              \<bar>(case positions s ! i of (x, y, z) \<Rightarrow> z) - cameraZ f\<bar>
                              (readAt (baseSizes s) i) (readAt (sizes s') i))) 1
            in (b, b, b))"
  using assms(1-6)
proof (rule settled_frame_color)
  fix wg eg
  let ?L = "fst (startFrame f (resetMouseVelocity s))"
  assume wg: "totalWaveGlow (CONFIG s') ?L (readAt (positions s') i) = Some wg"
    and eg: "explosionGlow f (CONFIG s') (readAt (explosionGlowEndTimes s') i) = Some eg"
    and col: "colors s' ! i =
           (let b = min (scaledBrightness (CONFIG s) i
                           (baseBrightness (CONFIG s)
                              \<bar>(case positions s ! i of (x, y, z) \<Rightarrow> z) - cameraZ f\<bar>
                              (readAt (baseSizes s) i) (readAt (sizes s') i)) + wg + eg) 1
            in (b, b, b))"
  from assms(5) have run: "settledPhysics f (resetMouseVelocity s) = Some s'"
    unfolding updatePhysics_settled [OF assms(1-3)] .
  have cfg: "CONFIG s' = (fst (waveLogic f (CONFIG s)))\<lparr>explosions := []\<rparr>"
    using settledPhysics_CONFIG [OF run] by (simp add: resetMouseVelocity_fields)
  have "\<not> waveActive ?L" using assms(7)
    by (simp add: startFrame_locals resetMouseVelocity_fields)
  with wg have "wg = 0" by (simp add: totalWaveGlow_off)
  moreover have "\<not> explosionEnabled (CONFIG s')" using assms(8)
    by (simp add: cfg waveLogic_fields)
  with eg have "eg = 0" by (simp add: explosionGlow_def)
  ultimately show ?thesis using col by simp
qed

section \<open>The stored timers\<close>

lemma fround_6200_1: "fround (62001 / 10) = 12697805 / 2048"
proof -
  have "fround (62001 / 10) = toGrid 12 (62001 / 10)"
    by (rule fround_binade) simp_all
  also have "\<dots> = 12697805 / 2048"
    by (simp add: toGrid_def roundHalfEven_def)
  finally show ?thesis .
qed

lemma fround_5500_1: "fround (55001 / 10) = 11264205 / 2048"
proof -
  have "fround (55001 / 10) = toGrid 12 (55001 / 10)"
    by (rule fround_binade) simp_all
  also have "\<dots> = 11264205 / 2048"
    by (simp add: toGrid_def roundHalfEven_def)
  finally show ?thesis .
qed

section \<open>The snap to the target\<close>




section \<open>The derived size\<close>

lemma resetSizes_entry:
  "readAt (sizes (resetSizes L u)) i =
     (case readAt (sizes u) i of
        None \<Rightarrow> None
      | Some sz \<Rightarrow>
          (if \<not> waveActive L \<and> wasWaveActive u
           then (case readAt (baseSizes u) i of Some b \<Rightarrow> Some b | None \<Rightarrow> Some sz)
           else Some sz))"
proof (cases "\<not> waveActive L \<and> wasWaveActive u")
  case False
  then show ?thesis by (auto simp add: resetSizes_def Let_def readAt_def)
next
  case True
  let ?n = "min (length (sizes u)) (length (baseSizes u))"
  show ?thesis
  proof (cases "0 < ?n")
    case False
    with True show ?thesis by (auto simp add: resetSizes_def Let_def readAt_def)
  next
    case n: True
    with True have sz: "sizes (resetSizes L u) = take ?n (baseSizes u) @ drop ?n (sizes u)"
      by (simp add: resetSizes_def Let_def)
    have len: "length (take ?n (baseSizes u) @ drop ?n (sizes u)) = length (sizes u)" by simp
    show ?thesis
    proof (cases "i < length (sizes u)")
      case False
      with len show ?thesis unfolding sz by (simp add: readAt_def)
    next
      case il: True
      show ?thesis
      proof (cases "i < length (baseSizes u)")
        case True
        with il have "(take ?n (baseSizes u) @ drop ?n (sizes u)) ! i = baseSizes u ! i"
          by (simp add: nth_append)
        with il True \<open>\<not> waveActive L \<and> wasWaveActive u\<close> show ?thesis
          unfolding sz by (simp add: readAt_def)
      next
        case False
        then have m: "?n = length (baseSizes u)" using il by simp
        from False il have "(take ?n (baseSizes u) @ drop ?n (sizes u)) ! i = sizes u ! i"
          unfolding m by (simp add: nth_append)
        with il False \<open>\<not> waveActive L \<and> wasWaveActive u\<close> show ?thesis
          unfolding sz by (simp add: readAt_def)
      qed
    qed
  qed
qed

lemma colorLoop_sizes:
  assumes "forLoop k n (colorBody f L dyn) s = Some s'"
  shows "sizes s' = sizes s"
  using assms
proof (rule forLoop_invariant [where P = "\<lambda>u. sizes u = sizes s"])
  fix j u u'
  assume a: "sizes u = sizes s" and cb: "colorBody f L dyn j u = Continue u'"
  from cb show "sizes u' = sizes s"
  proof (rule colorBody_shape)
    fix b g
    assume "u' = u\<lparr>glows := writeAt (glows u) j g, colors := (colors u)[j := (b, b, b)]\<rparr>"
    with a show ?thesis by simp
  qed
qed simp

text \<open>
  The entry of \<^verbatim>\<open>sizes\<close> that the colour loop of a settled frame reads for particle \<open>i\<close>:
  the size that the particle loop derives from \<^verbatim>\<open>totalWaveSizeFactor\<close> while a wave is
  active, the base size on the frame after the last wave, and the stored size otherwise.
\<close>

lemma settledPhysics_sizes:
  assumes run: "settledPhysics f s = Some s'" and i: "i < actualCount s"
  shows "\<exists>q. particleStep f (fst (waveLogic f (CONFIG s))) (fst (startFrame f s)) i
               (readAt (scrollDirections s) i) (readAt (baseSizes s) i)
               (Some (originalPositions s ! i)) (positions s ! i) (velocities s ! i)
               (readAt (explosionReturnTimes s) i) (readAt (explosionGlowEndTimes s) i) = Some q
             \<and> readAt (sizes s') i =
                 (case readAt (sizes s) i of
                    None \<Rightarrow> None
                  | Some sz \<Rightarrow>
                      (if \<not> waveActive (fst (startFrame f s)) \<and> wasWaveActive s
                       then (case readAt (baseSizes s) i of
                               Some b \<Rightarrow> Some b
                             | None \<Rightarrow> Some (case newSize q of None \<Rightarrow> sz | Some x \<Rightarrow> x))
                       else Some (case newSize q of None \<Rightarrow> sz | Some x \<Rightarrow> x)))"
  using run
proof (rule settledPhysics_run)
  fix s3 s4 s6
  let ?L = "fst (startFrame f s)"
  let ?c1 = "fst (waveLogic f (CONFIG s))"
  let ?s5 = "refreshGlowCache (resetSizes ?L s4)"
  let ?dyn = "velocityGlowMultiplier (CONFIG ?s5) > 0"
  assume l1: "forLoop 0 (actualCount s) (distanceBody f) (snd (startFrame f s)) = Some s3"
    and l2: "forLoop 0 (actualCount s) (physicsBody f ?L) s3 = Some s4"
    and l3: "(if hasColorAttribute ?s5 then forLoop 0 (actualCount s) (colorBody f ?L ?dyn) ?s5
              else Some ?s5) = Some s6"
    and e: "s' = endFrame ?dyn s6"
  obtain D where "snd (startFrame f s) = s\<lparr>CONFIG := ?c1, distanceBuffer := D\<rparr>"
    by (rule startFrame_shape)
  with distanceLoop_shape [OF l1] obtain D' where s3: "s3 = s\<lparr>CONFIG := ?c1, distanceBuffer := D'\<rparr>"
    by auto
  from i actualCount_le [of s] have il: "i < length (positions s)" "i < length (velocities s)"
    "i < length (originalPositions s)" by simp_all
  from actualCount_le(1) [of s] s3 have n3: "actualCount s \<le> length (positions s3)" by simp
  from physicsLoop_local [OF l2 n3 i] obtain t where
    b: "physicsBody f ?L i s3 = Continue t" and sp: "sameParticle i t s4" by blast
  have k4: "keptByLoops s3 s4" by (rule physicsLoop_kept [OF l2])
  then have f4: "length (sizes s4) = length (sizes s)" "baseSizes s4 = baseSizes s"
    "wasWaveActive s4 = wasWaveActive s"
    using s3 by (simp_all add: keptByLoops_def)
  have "sizes s6 = sizes ?s5"
  proof (cases "hasColorAttribute ?s5")
    case True
    with l3 show ?thesis by (simp add: colorLoop_sizes)
  next
    case False
    with l3 show ?thesis by simp
  qed
  then have fin: "sizes s' = sizes (resetSizes ?L s4)"
    unfolding e by (simp add: endFrame_fields refreshGlowCache_kept)
  from b show ?thesis
  proof (rule physicsBody_shape)
    fix v0 q
    assume v: "readAt (velocities s3) i = Some v0"
      and q: "particleStep f (CONFIG s3) ?L i (readAt (scrollDirections s3) i) (readAt (baseSizes s3) i)
                (if length (originalPositions s3) \<le> i \<or> length (velocities s3) \<le> i then None
                 else Some (originalPositions s3 ! i))
                (positions s3 ! i) v0
                (readAt (explosionReturnTimes s3) i) (readAt (explosionGlowEndTimes s3) i) = Some q"
      and t: "t = s3\<lparr>explosionReturnTimes := writeAt (explosionReturnTimes s3) i (explosionReturnUntil q),
            explosionGlowEndTimes := writeAt (explosionGlowEndTimes s3) i (explosionGlowUntil q),
            sizes := writeAt (sizes s3) i (newSize q),
            positions := (positions s3)[i := position q],
            velocities := (velocities s3)[i := velocity q]\<rparr>"
    from v s3 il have v0: "v0 = velocities s ! i" by (simp add: readAt_def)
    from q s3 il v0 have q': "particleStep f ?c1 ?L i
               (readAt (scrollDirections s) i) (readAt (baseSizes s) i)
               (Some (originalPositions s ! i)) (positions s ! i) (velocities s ! i)
               (readAt (explosionReturnTimes s) i) (readAt (explosionGlowEndTimes s) i) = Some q"
      by simp
    from sp t s3 have "sizes s4 ! i = writeAt (sizes s) i (newSize q) ! i"
      by (simp add: sameParticle_def)
    with f4(1) have r4: "readAt (sizes s4) i =
        (case readAt (sizes s) i of None \<Rightarrow> None
         | Some sz \<Rightarrow> Some (case newSize q of None \<Rightarrow> sz | Some x \<Rightarrow> x))"
      by (cases "newSize q") (simp_all add: readAt_def writeAt_def)
    have "readAt (sizes s') i =
                 (case readAt (sizes s) i of
                    None \<Rightarrow> None
                  | Some sz \<Rightarrow>
                      (if \<not> waveActive ?L \<and> wasWaveActive s
                       then (case readAt (baseSizes s) i of
                               Some b \<Rightarrow> Some b
                             | None \<Rightarrow> Some (case newSize q of None \<Rightarrow> sz | Some x \<Rightarrow> x))
                       else Some (case newSize q of None \<Rightarrow> sz | Some x \<Rightarrow> x)))"
      unfolding fin resetSizes_entry r4 f4 by (cases "readAt (sizes s) i") simp_all
    with q' show ?thesis by blast
  qed
qed

lemma waveBlock_size_factor:
  assumes "waveBlock c L p v = Some (v4, w)" and "waveBlock c L' p v' = Some (v4', w')"
    and "waveActive L' = waveActive L" and "waveBounds L' = waveBounds L"
  shows "w' = w"
  using assms by (auto simp add: waveBlock_def Let_def split: if_splits)


lemma settled_frames_same_size:
  assumes ss: "isInitialized s" "hasGeometry s" "\<not> isLoadingAnimation (CONFIG s)"
    and st: "isInitialized t" "hasGeometry t"
    and c: "CONFIG t = CONFIG s" and ww: "wasWaveActive t = wasWaveActive s"
    and rs: "updatePhysics f s = Some s'" and rt: "updatePhysics f t = Some t'"
    and i: "i < actualCount s" "i < actualCount t"
    and p: "waveEnabled (CONFIG s) \<longrightarrow> positions t ! i = positions s ! i"
    and b: "readAt (baseSizes t) i = readAt (baseSizes s) i"
    and z: "readAt (sizes t) i = readAt (sizes s) i"
  shows "readAt (sizes t') i = readAt (sizes s') i"
proof -
  let ?s1 = "resetMouseVelocity s" and ?t1 = "resetMouseVelocity t"
  let ?c1 = "fst (waveLogic f (CONFIG s))"
  let ?Ls = "fst (startFrame f ?s1)" and ?Lt = "fst (startFrame f ?t1)"
  have lt: "\<not> isLoadingAnimation (CONFIG t)" using ss(3) c by simp
  from rs have rs1: "settledPhysics f ?s1 = Some s'" unfolding updatePhysics_settled [OF ss] .
  from rt have rt1: "settledPhysics f ?t1 = Some t'"
    unfolding updatePhysics_settled [OF st lt] .
  have i1: "i < actualCount ?s1" "i < actualCount ?t1"
    using i by (simp_all add: resetMouseVelocity_fields)
  have wa: "waveActive ?Lt = waveActive ?Ls" and wb: "waveBounds ?Lt = waveBounds ?Ls"
    by (simp_all add: startFrame_locals resetMouseVelocity_fields c)
  have we: "waveActive ?Ls \<Longrightarrow> waveEnabled (CONFIG s)"
    by (simp add: startFrame_locals resetMouseVelocity_fields)
  have fw: "wasWaveActive ?s1 = wasWaveActive s" "wasWaveActive ?t1 = wasWaveActive s"
    by (simp_all add: resetMouseVelocity_fields ww)
  from settledPhysics_sizes [OF rs1 i1(1)] obtain qs where
    qs: "particleStep f ?c1 ?Ls i (readAt (scrollDirections s) i) (readAt (baseSizes s) i)
           (Some (originalPositions s ! i)) (positions s ! i) (velocities s ! i)
           (readAt (explosionReturnTimes s) i) (readAt (explosionGlowEndTimes s) i) = Some qs"
    and es: "readAt (sizes s') i =
                 (case readAt (sizes s) i of
                    None \<Rightarrow> None
                  | Some sz \<Rightarrow>
                      (if \<not> waveActive ?Ls \<and> wasWaveActive s
                       then (case readAt (baseSizes s) i of
                               Some b \<Rightarrow> Some b
                             | None \<Rightarrow> Some (case newSize qs of None \<Rightarrow> sz | Some x \<Rightarrow> x))
                       else Some (case newSize qs of None \<Rightarrow> sz | Some x \<Rightarrow> x)))"
    unfolding resetMouseVelocity_fields fw by blast
  from settledPhysics_sizes [OF rt1 i1(2)] obtain qt where
    qt: "particleStep f ?c1 ?Lt i (readAt (scrollDirections t) i) (readAt (baseSizes s) i)
           (Some (originalPositions t ! i)) (positions t ! i) (velocities t ! i)
           (readAt (explosionReturnTimes t) i) (readAt (explosionGlowEndTimes t) i) = Some qt"
    and et: "readAt (sizes t') i =
                 (case readAt (sizes s) i of
                    None \<Rightarrow> None
                  | Some sz \<Rightarrow>
                      (if \<not> waveActive ?Ls \<and> wasWaveActive s
                       then (case readAt (baseSizes s) i of
                               Some b \<Rightarrow> Some b
                             | None \<Rightarrow> Some (case newSize qt of None \<Rightarrow> sz | Some x \<Rightarrow> x))
                       else Some (case newSize qt of None \<Rightarrow> sz | Some x \<Rightarrow> x)))"
    unfolding resetMouseVelocity_fields fw ww c b z wa by blast
  from qs obtain v3s v4s w_s where
    ws: "waveBlock ?c1 ?Ls (positions s ! i) v3s = Some (v4s, w_s)"
    and ns: "newSize qs = (if waveActive ?Ls
                           then map_option (\<lambda>baseSize. derivedSize ?c1 i baseSize w_s)
                                  (readAt (baseSizes s) i)
                           else None)"
    by (rule particleStep_Some)
  from qt obtain v3t v4t w_t where
    wt: "waveBlock ?c1 ?Lt (positions t ! i) v3t = Some (v4t, w_t)"
    and nt: "newSize qt = (if waveActive ?Lt
                           then map_option (\<lambda>baseSize. derivedSize ?c1 i baseSize w_t)
                                  (readAt (baseSizes s) i)
                           else None)"
    by (rule particleStep_Some)
  have nq: "newSize qt = newSize qs"
  proof (cases "waveActive ?Ls")
    case True
    with we p have "positions t ! i = positions s ! i" by simp
    with wt have "waveBlock ?c1 ?Lt (positions s ! i) v3t = Some (v4t, w_t)" by simp
    with ws have "w_t = w_s" using wa wb by (rule waveBlock_size_factor)
    with ns nt wa show ?thesis by simp
  next
    case False
    with ns nt wa show ?thesis by simp
  qed
  show ?thesis unfolding es et nq ..
qed

lemma depth_term_value:
  "scaledBrightness c i (baseBrightness c d bs sz) =
     (if bs = Some 0 \<and> (case sz of None \<Rightarrow> 0 | Some z \<Rightarrow> z) = 0 then 0
      else (if particleCount c \<le> i \<and> maxBrightness c < 0.99 then 1 / 2 else 1)
           * (maxBrightness c * (1 - clamp01 (d / 70) * depthDarkeningStrength c)))"
proof -
  have b: "baseBrightness c d bs sz =
      (if bs = Some 0 \<and> (case sz of None \<Rightarrow> 0 | Some z \<Rightarrow> z) = 0 then 0
       else 1 - clamp01 (d / 70) * depthDarkeningStrength c)"
    by (cases bs) (auto simp add: baseBrightness_def Let_def clamp01_def)
  have s: "scaledBrightness c i x =
      (if particleCount c \<le> i \<and> maxBrightness c < 0.99 then 1 / 2 else 1) * (maxBrightness c * x)"
    for x
    by (auto simp add: scaledBrightness_def Let_def)
  show ?thesis unfolding s b by simp
qed


lemma sqrt_25: "sqrt 25 = 5"
proof -
  have "sqrt 25 = sqrt (5\<^sup>2)" by simp
  also have "\<dots> = 5" by simp
  finally show ?thesis .
qed

lemma sqrt_2500: "sqrt 2500 = 50"
proof -
  have "sqrt 2500 = sqrt (50\<^sup>2)" by simp
  also have "\<dots> = 50" by simp
  finally show ?thesis .
qed

lemma sqrt_3364: "sqrt 3364 = 58"
proof -
  have "sqrt 3364 = sqrt (58\<^sup>2)" by simp
  also have "\<dots> = 58" by simp
  finally show ?thesis .
qed

lemmas wave_eval =
  maxWaveRadius_def sqrt_625 sqrt_25 sqrt_2500 sqrt_3364 advanceWave_def extendBounds_def
  inBounds_def waveFactor_def derivedSize_def waveCenter_def

text \<open>
  An invisible particle at distance 5 from the wave centre, in the middle of a wave of
  radius 5.8 after the step of the frame: the wave reveals it with size 2.
\<close>

lemma revealed_example:
  "map_option (\<lambda>s. (readAt (sizes s) 0, colors s ! 0))
     (updatePhysics (exampleFrame 4016)
        ((exampleSim (defaultConfig
            \<lparr>isLoadingAnimation := False, waveEnabled := True, waveForce := 0,
             waveGlowIntensity := 0, lastWaveTime := Some 4000,
             waves := [\<lparr>radius = 5 + 4 / 5 - 54 / 625, waveStartTime = 0, waveId = 0\<rparr>],
             explosionEnabled := False\<rparr>))
           \<lparr>sizes := [0, 4], baseSizes := [0, 4]\<rparr>))
   = Some (Some 2, (239 / 350, 239 / 350, 239 / 350))"
  by (simp add: frame_eval wave_eval)

lemma quiet_example:
  "map_option (\<lambda>s. colors s ! 0)
     (updatePhysics (exampleFrame 5000)
        (exampleSim (defaultConfig\<lparr>isLoadingAnimation := False, explosionEnabled := False\<rparr>)))
   = Some (239 / 350, 239 / 350, 239 / 350)"
  by (simp add: frame_eval)

section \<open>Claims\<close>

text \<open>
  Claim C1. The claim says that the easing evaluator returns the CSS
  \<^verbatim>\<open>cubic-bezier\<close> timing function, so that the preset \<^verbatim>\<open>linear\<close>, with control points
  \<open>(0.25, 0.25)\<close> and \<open>(0.75, 0.75)\<close>, returns \<open>t\<close> itself. The code evaluates the
  Y polynomial at \<open>t\<close> and never reads \<open>p1x\<close> and \<open>p2x\<close>: at \<open>t = 1/4\<close> the preset
  \<^verbatim>\<open>linear\<close> returns \<open>29/128\<close>. The point of that curve at parameter \<open>1/4\<close> is
  \<open>(29/128, 29/128)\<close>, so the CSS value at progress \<open>29/128\<close> is \<open>29/128\<close>, where the
  code returns \<open>849787/4194304\<close>.
\<close>

theorem bezierEasing_linear_preset_not_identity:
  "bezierEasing (1/4) (1/4) (1/4) (3/4) (3/4) = 29/128
   \<and> cssBezierCoord (1/4) (1/4) (3/4) = 29/128
   \<and> bezierEasing (29/128) (1/4) (1/4) (3/4) (3/4) = 849787/4194304"
  by (simp add: bezierEasing_def cssBezierCoord_def Let_def)

text \<open>
  Claim C10. While the loading animation is active (the progress of the frame is below
  1), \<^verbatim>\<open>updatePhysics\<close> returns after the loading branch: the configuration and every
  particle's velocity, target position, base position, start position, scroll direction,
  size, base size and explosion timers are as they were; only positions, colours and
  glows are written. The frame stays inside the model when the start and target arrays
  cover the particles processed.
\<close>

theorem loading_frame_effect:
  assumes "isInitialized s" and "hasGeometry s"
    and "isLoadingAnimation (CONFIG s)" and "loadAnimationStartTime (CONFIG s) = Some t0"
    and "loadProgress (nowDate f - t0) (loadAnimationDuration (CONFIG s)) = Some progress"
    and "progress < 1"
  shows "(\<forall>s'. updatePhysics f s = Some s' \<longrightarrow>
            CONFIG s' = CONFIG s
            \<and> velocities s' = velocities s
            \<and> originalPositions s' = originalPositions s
            \<and> baseOriginalPositions s' = baseOriginalPositions s
            \<and> startPositions s' = startPositions s
            \<and> scrollDirections s' = scrollDirections s
            \<and> sizes s' = sizes s \<and> baseSizes s' = baseSizes s
            \<and> explosionReturnTimes s' = explosionReturnTimes s
            \<and> explosionGlowEndTimes s' = explosionGlowEndTimes s)
         \<and> (min (totalParticleCount s) (length (positions s))
               \<le> min (length (startPositions s)) (length (originalPositions s))
             \<longrightarrow> (\<exists>s'. updatePhysics f s = Some s'))"
proof -
  define s1 where "s1 = resetMouseVelocity s"
  have up: "updatePhysics f s =
              (case loadingAnimation f t0 s1 of
                 None \<Rightarrow> None
               | Some (s2, pr) \<Rightarrow>
                   (if pr \<ge> 1.0 then settledPhysics f (s2\<lparr>CONFIG := finishLoading f (CONFIG s2)\<rparr>)
                    else Some s2))"
    using assms(1-4) unfolding updatePhysics_def s1_def Let_def
    by (simp add: resetMouseVelocity_def)
  have pr1: "loadProgress (nowDate f - t0) (loadAnimationDuration (CONFIG s1)) = Some progress"
    using assms(5) by (simp add: s1_def resetMouseVelocity_def)
  have part1: "keptByLoading s s'" if "updatePhysics f s = Some s'" for s'
  proof -
    from that up obtain s2 pr where la: "loadingAnimation f t0 s1 = Some (s2, pr)"
      by (auto split: option.splits)
    from loadingAnimation_kept [OF la] pr1 have k: "keptByLoading s1 s2" and "pr = progress"
      by simp_all
    with assms(6) la up that have "s' = s2" by simp
    with k show ?thesis by (simp add: keptByLoading_def s1_def resetMouseVelocity_def)
  qed
  have part2: "\<exists>s'. updatePhysics f s = Some s'"
    if "min (totalParticleCount s) (length (positions s))
          \<le> min (length (startPositions s)) (length (originalPositions s))"
  proof -
    from that have "min (totalParticleCount s1) (length (positions s1))
          \<le> min (length (startPositions s1)) (length (originalPositions s1))"
      by (simp add: s1_def resetMouseVelocity_def)
    from loadingAnimation_total [OF pr1 this] obtain s2 where
      "loadingAnimation f t0 s1 = Some (s2, progress)" ..
    with up assms(6) have "updatePhysics f s = Some s2" by simp
    then show ?thesis ..
  qed
  show ?thesis
  proof (intro conjI allI impI)
    fix s' assume "updatePhysics f s = Some s'"
    from part1 [OF this] show "CONFIG s' = CONFIG s"
      "velocities s' = velocities s" "originalPositions s' = originalPositions s"
      "baseOriginalPositions s' = baseOriginalPositions s" "startPositions s' = startPositions s"
      "scrollDirections s' = scrollDirections s" "sizes s' = sizes s" "baseSizes s' = baseSizes s"
      "explosionReturnTimes s' = explosionReturnTimes s"
      "explosionGlowEndTimes s' = explosionGlowEndTimes s"
      by (simp_all add: keptByLoading_def)
  next
    assume "min (totalParticleCount s) (length (positions s))
          \<le> min (length (startPositions s)) (length (originalPositions s))"
    then show "\<exists>s'. updatePhysics f s = Some s'" by (rule part2)
  qed
qed

theorem loading_frame_effect_witness:
  "loadProgress (nowDate (exampleFrame 2000) - 0)
      (loadAnimationDuration (CONFIG (exampleSim (defaultConfig\<lparr>loadAnimationStartTime := Some 0\<rparr>))))
     = Some (1 / 2)
   \<and> (\<exists>s'. updatePhysics (exampleFrame 2000)
               (exampleSim (defaultConfig\<lparr>loadAnimationStartTime := Some 0\<rparr>)) = Some s'
          \<and> velocities s' = [(0, 0, 0), (0, 0, 0)]
          \<and> originalPositions s' = [(3, 4, 0), (0, 0, - 58)]
          \<and> sizes s' = [4, 4]
          \<and> explosionReturnTimes s' = [0, 0])"
proof -
  define s where "s = exampleSim (defaultConfig\<lparr>loadAnimationStartTime := Some 0\<rparr>)"
  define f where "f = exampleFrame 2000"
  have h: "isInitialized s" "hasGeometry s" "isLoadingAnimation (CONFIG s)"
    "loadAnimationStartTime (CONFIG s) = Some 0"
    "loadProgress (nowDate f - 0) (loadAnimationDuration (CONFIG s)) = Some (1 / 2)"
    "(1 / 2 :: real) < 1"
    by (simp_all add: s_def f_def exampleSim_def exampleFrame_def defaultConfig_def loadProgress_def)
  note t = loading_frame_effect [OF h]
  have al: "min (totalParticleCount s) (length (positions s))
              \<le> min (length (startPositions s)) (length (originalPositions s))"
    by (simp add: s_def exampleSim_def)
  from t al obtain s' where s': "updatePhysics f s = Some s'" by blast
  with t have "velocities s' = velocities s" "originalPositions s' = originalPositions s"
    "sizes s' = sizes s" "explosionReturnTimes s' = explosionReturnTimes s"
    by blast+
  then have "velocities s' = [(0, 0, 0), (0, 0, 0)]" "originalPositions s' = [(3, 4, 0), (0, 0, - 58)]"
    "sizes s' = [4, 4]" "explosionReturnTimes s' = [0, 0]"
    by (simp_all add: s_def exampleSim_def)
  with s' h(5) show ?thesis unfolding s_def f_def by blast
qed



text \<open>
  Claim C2. The colour loop of a settled frame (lines 2089-2205) bounds the final brightness
  from above only, by \<^verbatim>\<open>Math.min(finalBrightness, 1.0)\<close>; the loading branch bounds the same
  depth term at both ends (lines 1612-1613). With the initial configuration
  (\<open>depthDarkeningStrength = 1.85\<close>, \<open>maxBrightness = 1\<close>) a settled particle resting at
  \<open>z = -58\<close>, at distance 70 from the camera at \<open>z = 12\<close>, is written the brightness
  \<open>1 - 1.85 = -17/20\<close> in all three channels, below 0; the particle at distance 12 is
  written \<open>1 - 12/70 * 1.85 = 239/350\<close>.
\<close>

theorem settled_brightness_below_zero:
  "map_option colors (updatePhysics (exampleFrame 5000) settledSim)
   = Some [(239 / 350, 239 / 350, 239 / 350), (- 17 / 20, - 17 / 20, - 17 / 20)]"
  by (simp add: frame_eval settledSim_def)

text \<open>
  Claim C3. For a particle with \<^verbatim>\<open>baseSizes[i] === 0\<close> whose size after the size update is 0,
  the colour loop of a settled frame sets only the depth term \<^verbatim>\<open>baseBrightness\<close> to 0 (lines
  2104-2111); the wave glow and the explosion glow are added afterwards (lines 2158-2170). The
  brightness written to the three channels is \<open>min (waveGlow + explosionGlow) 1\<close>, whatever the
  depth, the index and \<^verbatim>\<open>maxBrightness\<close>; it is 0 when waves are off and no explosion glow is
  pending for the particle.
\<close>

theorem invisible_point_brightness:
  assumes "isInitialized s" and "hasGeometry s" and "\<not> isLoadingAnimation (CONFIG s)"
    and "hasColorAttribute s"
    and "updatePhysics f s = Some s'"
    and "i < actualCount s"
    and "readAt (baseSizes s) i = Some 0"
    and "(case readAt (sizes s') i of None \<Rightarrow> 0 | Some z \<Rightarrow> z) = 0"
  shows "(\<exists>wg eg.
            totalWaveGlow (CONFIG s') (fst (startFrame f (resetMouseVelocity s)))
              (readAt (positions s') i) = Some wg
          \<and> explosionGlow f (CONFIG s') (readAt (explosionGlowEndTimes s') i) = Some eg
          \<and> colors s' ! i = (min (wg + eg) 1, min (wg + eg) 1, min (wg + eg) 1))
       \<and> (\<not> waveEnabled (CONFIG s)
            \<and> (explosionEnabled (CONFIG s) \<longrightarrow>
                 (case readAt (explosionGlowEndTimes s') i of None \<Rightarrow> True
                  | Some t \<Rightarrow> t \<le> nowPerf f))
          \<longrightarrow> colors s' ! i = (0, 0, 0))"
proof -
  let ?s1 = "resetMouseVelocity s"
  let ?c1 = "fst (waveLogic f (CONFIG s))"
  let ?L = "fst (startFrame f ?s1)"
  let ?p = "readAt (positions s') i"
  let ?e = "readAt (explosionGlowEndTimes s') i"
  from assms(5) have run: "settledPhysics f ?s1 = Some s'"
    unfolding updatePhysics_settled [OF assms(1-3)] .
  have i1: "i < actualCount ?s1" and ca: "hasColorAttribute ?s1"
    using assms(4,6) by (simp_all add: resetMouseVelocity_fields)
  from settledPhysics_color [OF run i1 ca] obtain b where
    fb: "finalBrightness f ?c1 ?L i
           \<bar>(case positions s ! i of (x, y, z) \<Rightarrow> z) - cameraZ f\<bar>
           (readAt (baseSizes s) i) (readAt (sizes s') i) ?p ?e = Some b"
    and col: "colors s' ! i = (b, b, b)"
    unfolding resetMouseVelocity_fields by blast
  have cfg: "CONFIG s' = ?c1\<lparr>explosions := []\<rparr>"
    using settledPhysics_CONFIG [OF run] by (simp add: resetMouseVelocity_fields)
  have wgc: "totalWaveGlow (CONFIG s') ?L ?p = totalWaveGlow ?c1 ?L ?p"
    by (simp add: cfg totalWaveGlow_explosions)
  have egc: "explosionGlow f (CONFIG s') ?e = explosionGlow f ?c1 ?e"
    by (rule explosionGlow_cong) (simp_all add: cfg)
  have zero: "scaledBrightness ?c1 i
      (baseBrightness ?c1 \<bar>(case positions s ! i of (x, y, z) \<Rightarrow> z) - cameraZ f\<bar>
         (readAt (baseSizes s) i) (readAt (sizes s') i)) = 0"
    by (simp add: assms(7) baseBrightness_hidden [OF assms(8)] scaledBrightness_zero)
  from fb obtain wg where wg: "totalWaveGlow ?c1 ?L ?p = Some wg"
    by (cases "totalWaveGlow ?c1 ?L ?p") (simp_all add: finalBrightness_def)
  from fb wg obtain eg where eg: "explosionGlow f ?c1 ?e = Some eg"
    by (cases "explosionGlow f ?c1 ?e") (simp_all add: finalBrightness_def)
  from fb wg eg zero have b: "b = min (wg + eg) 1" by (simp add: finalBrightness_def)
  have one: "\<exists>wg eg.
            totalWaveGlow (CONFIG s') ?L ?p = Some wg
          \<and> explosionGlow f (CONFIG s') ?e = Some eg
          \<and> colors s' ! i = (min (wg + eg) 1, min (wg + eg) 1, min (wg + eg) 1)"
    using wg eg col b wgc egc by simp
  have two: "colors s' ! i = (0, 0, 0)"
    if h: "\<not> waveEnabled (CONFIG s)
            \<and> (explosionEnabled (CONFIG s) \<longrightarrow>
                 (case ?e of None \<Rightarrow> True | Some t \<Rightarrow> t \<le> nowPerf f))"
  proof -
    from h have "\<not> waveActive ?L"
      by (simp add: startFrame_locals resetMouseVelocity_fields)
    then have "wg = 0" using wg by (simp add: totalWaveGlow_off)
    moreover have "explosionGlow f ?c1 ?e = Some 0"
      by (rule explosionGlow_none_pending) (use h in \<open>simp add: waveLogic_fields\<close>)
    with eg have "eg = 0" by simp
    ultimately show ?thesis using col b by simp
  qed
  from one two show ?thesis by blast
qed

theorem invisible_point_brightness_witness:
  "\<exists>s'. updatePhysics (exampleFrame 5000) (hiddenSim []) = Some s'
        \<and> readAt (baseSizes (hiddenSim [])) 0 = Some 0 \<and> readAt (sizes s') 0 = Some 0
        \<and> colors s' ! 0 = (0, 0, 0)"
proof -
  define s where "s = hiddenSim []"
  define f where "f = exampleFrame 5000"
  have fields: "isInitialized s" "hasGeometry s" "\<not> isLoadingAnimation (CONFIG s)"
    "hasColorAttribute s" "0 < actualCount s" "readAt (baseSizes s) 0 = Some 0"
    "\<not> waveEnabled (CONFIG s)" "explosionEnabled (CONFIG s)"
    by (simp_all add: s_def hiddenSim_def exampleSim_def defaultConfig_def actualCount_def
        readAt_def)
  have "map_option (\<lambda>s. (sizes s, explosionGlowEndTimes s)) (updatePhysics f s)
        = Some ([0, 0], [0, 0])"
    unfolding s_def f_def by (simp add: frame_eval hiddenSim_def)
  then obtain s' where s': "updatePhysics f s = Some s'"
    and after: "sizes s' = [0, 0]" "explosionGlowEndTimes s' = [0, 0]"
    by auto
  have sz: "(case readAt (sizes s') 0 of None \<Rightarrow> 0 | Some z \<Rightarrow> z) = 0"
    and ge: "(case readAt (explosionGlowEndTimes s') 0 of None \<Rightarrow> True
              | Some t \<Rightarrow> t \<le> nowPerf f)"
    by (simp_all add: after readAt_def f_def exampleFrame_def)
  from invisible_point_brightness [OF fields(1-4) s' fields(5,6) sz] fields(7) ge
  have "colors s' ! 0 = (0, 0, 0)" by blast
  moreover have "readAt (sizes s') 0 = Some 0" by (simp add: after readAt_def)
  ultimately show ?thesis using s' fields(6) unfolding s_def f_def by blast
qed

theorem invisible_point_lit_by_explosion:
  "map_option (\<lambda>s. (baseSizes s, sizes s, colors s))
     (updatePhysics (exampleFrame 5000)
        (hiddenSim [\<lparr>exPosition = (0, 0, 0), exStartTime = 4990, exId = 0, applied = False\<rparr>]))
   = Some ([0, 0], [0, 0], [(4 / 5, 4 / 5, 4 / 5), (4 / 5, 4 / 5, 4 / 5)])"
  by (simp add: frame_eval hiddenSim_def)

text \<open>
  Claim C4. On the frame in which the loading animation reaches \<^verbatim>\<open>progress >= 1.0\<close> with
  waves enabled and \<^verbatim>\<open>CONFIG.lastWaveTime === null\<close>, the timer is set to the time of that
  frame (lines 1635-1640). The wave block of the same frame then finds
  \<^verbatim>\<open>timeSinceLastWave = 0\<close>, and with a positive \<^verbatim>\<open>waveInterval\<close> it creates no wave: the list
  holds the waves it held before, advanced and filtered. In a settled frame with the timer
  at \<open>tw\<close> a wave is created exactly when \<open>now - tw >= waveInterval\<close> (lines 1670-1678): the
  first wave after the transition comes one full interval after it.
\<close>

theorem first_wave_one_interval_after_settling:
  "(isInitialized s \<and> hasGeometry s
      \<and> isLoadingAnimation (CONFIG s) \<and> loadAnimationStartTime (CONFIG s) = Some t0
      \<and> loadProgress (nowDate f - t0) (loadAnimationDuration (CONFIG s)) = Some progress
      \<and> progress \<ge> 1
      \<and> waveEnabled (CONFIG s) \<and> lastWaveTime (CONFIG s) = None \<and> 0 < waveInterval (CONFIG s)
      \<and> updatePhysics f s = Some s'
    \<longrightarrow> \<not> isLoadingAnimation (CONFIG s') \<and> waveEnabled (CONFIG s')
        \<and> lastWaveTime (CONFIG s') = Some (nowDate f)
        \<and> waves (CONFIG s') =
            filter (\<lambda>w. radius w < maxWaveRadius f + waveWidth (CONFIG s))
              (map (advanceWave (CONFIG s)) (waves (CONFIG s))))
   \<and> (isInitialized t \<and> hasGeometry t \<and> \<not> isLoadingAnimation (CONFIG t)
        \<and> waveEnabled (CONFIG t) \<and> lastWaveTime (CONFIG t) = Some tw
        \<and> updatePhysics g t = Some t'
      \<longrightarrow> (nowDate g - tw < waveInterval (CONFIG t) \<longrightarrow>
             lastWaveTime (CONFIG t') = Some tw
             \<and> waves (CONFIG t') =
                 filter (\<lambda>w. radius w < maxWaveRadius g + waveWidth (CONFIG t))
                   (map (advanceWave (CONFIG t)) (waves (CONFIG t))))
          \<and> (nowDate g - tw \<ge> waveInterval (CONFIG t) \<longrightarrow>
             lastWaveTime (CONFIG t') = Some (nowDate g)
             \<and> waves (CONFIG t') =
                 filter (\<lambda>w. radius w < maxWaveRadius g + waveWidth (CONFIG t))
                   (map (advanceWave (CONFIG t))
                      (waves (CONFIG t)
                       @ [\<lparr>radius = 0, waveStartTime = nowDate g, waveId = nowDate g\<rparr>]))))"
proof (intro conjI impI)
  assume h: "isInitialized s \<and> hasGeometry s
      \<and> isLoadingAnimation (CONFIG s) \<and> loadAnimationStartTime (CONFIG s) = Some t0
      \<and> loadProgress (nowDate f - t0) (loadAnimationDuration (CONFIG s)) = Some progress
      \<and> progress \<ge> 1
      \<and> waveEnabled (CONFIG s) \<and> lastWaveTime (CONFIG s) = None \<and> 0 < waveInterval (CONFIG s)
      \<and> updatePhysics f s = Some s'"
  define c2 where "c2 = finishLoading f (CONFIG s)"
  from h have c2: "c2 = (CONFIG s)\<lparr>isLoadingAnimation := False, lastWaveTime := Some (nowDate f)\<rparr>"
    by (simp add: c2_def finishLoading_def Let_def)
  from h obtain s2 where "settledPhysics f (s2\<lparr>CONFIG := c2\<rparr>) = Some s'"
    unfolding c2_def by (rule_tac transition_frame [of s t0 f progress s']) simp_all
  from settledPhysics_CONFIG [OF this]
  have cfg: "CONFIG s' = (fst (waveLogic f c2))\<lparr>explosions := []\<rparr>" by simp
  have "waveEnabled c2" "\<not> isLoadingAnimation c2" using h by (simp_all add: c2)
  note on = waveLogic_on [OF this, of f]
  have nz: "\<not> waveInterval (CONFIG s) \<le> 0" using h by simp
  show "\<not> isLoadingAnimation (CONFIG s')" "waveEnabled (CONFIG s')"
    using h by (simp_all add: cfg waveLogic_fields c2)
  show "lastWaveTime (CONFIG s') = Some (nowDate f)"
    using nz by (simp add: cfg on) (simp add: c2)
  show "waves (CONFIG s') =
            filter (\<lambda>w. radius w < maxWaveRadius f + waveWidth (CONFIG s))
              (map (advanceWave (CONFIG s)) (waves (CONFIG s)))"
    using nz by (simp add: cfg on) (simp add: c2)
next
  assume h: "isInitialized t \<and> hasGeometry t \<and> \<not> isLoadingAnimation (CONFIG t)
        \<and> waveEnabled (CONFIG t) \<and> lastWaveTime (CONFIG t) = Some tw
        \<and> updatePhysics g t = Some t'"
    and lt: "nowDate g - tw < waveInterval (CONFIG t)"
  from h have a: "isInitialized t" "hasGeometry t" "\<not> isLoadingAnimation (CONFIG t)"
    "waveEnabled (CONFIG t)" "lastWaveTime (CONFIG t) = Some tw" "updatePhysics g t = Some t'"
    by simp_all
  from settled_frame_waves(2) [OF a] lt show "lastWaveTime (CONFIG t') = Some tw" by simp
  from settled_frame_waves(1) [OF a] lt
  show "waves (CONFIG t') =
          filter (\<lambda>w. radius w < maxWaveRadius g + waveWidth (CONFIG t))
            (map (advanceWave (CONFIG t)) (waves (CONFIG t)))"
    by simp
next
  assume h: "isInitialized t \<and> hasGeometry t \<and> \<not> isLoadingAnimation (CONFIG t)
        \<and> waveEnabled (CONFIG t) \<and> lastWaveTime (CONFIG t) = Some tw
        \<and> updatePhysics g t = Some t'"
    and ge: "nowDate g - tw \<ge> waveInterval (CONFIG t)"
  from h have a: "isInitialized t" "hasGeometry t" "\<not> isLoadingAnimation (CONFIG t)"
    "waveEnabled (CONFIG t)" "lastWaveTime (CONFIG t) = Some tw" "updatePhysics g t = Some t'"
    by simp_all
  from settled_frame_waves(2) [OF a] ge show "lastWaveTime (CONFIG t') = Some (nowDate g)"
    by simp
  from settled_frame_waves(1) [OF a] ge
  show "waves (CONFIG t') =
          filter (\<lambda>w. radius w < maxWaveRadius g + waveWidth (CONFIG t))
            (map (advanceWave (CONFIG t))
               (waves (CONFIG t)
                @ [\<lparr>radius = 0, waveStartTime = nowDate g, waveId = nowDate g\<rparr>]))"
    by simp
qed

theorem first_wave_one_interval_after_settling_witness:
  "(\<exists>s'. updatePhysics (exampleFrame 4000)
            (exampleSim (defaultConfig\<lparr>loadAnimationStartTime := Some 0, waveEnabled := True\<rparr>))
          = Some s'
        \<and> lastWaveTime (CONFIG s') = Some 4000 \<and> waves (CONFIG s') = [])
   \<and> (\<exists>t'. updatePhysics (exampleFrame 4016)
               (exampleSim (defaultConfig\<lparr>isLoadingAnimation := False, waveEnabled := True,
                                          lastWaveTime := Some 4000\<rparr>))
             = Some t'
          \<and> lastWaveTime (CONFIG t') = Some 4000 \<and> waves (CONFIG t') = [])
   \<and> (\<exists>t'. updatePhysics (exampleFrame 12000)
               (exampleSim (defaultConfig\<lparr>isLoadingAnimation := False, waveEnabled := True,
                                          lastWaveTime := Some 4000\<rparr>))
             = Some t'
          \<and> lastWaveTime (CONFIG t') = Some 12000
          \<and> waves (CONFIG t') = [\<lparr>radius = 54 / 625, waveStartTime = 12000, waveId = 12000\<rparr>])"
proof -
  define s where
    "s = exampleSim (defaultConfig\<lparr>loadAnimationStartTime := Some 0, waveEnabled := True\<rparr>)"
  define t where
    "t = exampleSim (defaultConfig\<lparr>isLoadingAnimation := False, waveEnabled := True,
                                   lastWaveTime := Some 4000\<rparr>)"
  have hs: "isInitialized s \<and> hasGeometry s
      \<and> isLoadingAnimation (CONFIG s) \<and> loadAnimationStartTime (CONFIG s) = Some 0
      \<and> loadProgress (nowDate (exampleFrame 4000) - 0) (loadAnimationDuration (CONFIG s)) = Some 1
      \<and> (1::real) \<ge> 1
      \<and> waveEnabled (CONFIG s) \<and> lastWaveTime (CONFIG s) = None \<and> 0 < waveInterval (CONFIG s)"
    by (simp add: s_def exampleSim_def exampleFrame_def defaultConfig_def loadProgress_def)
  have ht: "isInitialized t \<and> hasGeometry t \<and> \<not> isLoadingAnimation (CONFIG t)
        \<and> waveEnabled (CONFIG t) \<and> lastWaveTime (CONFIG t) = Some 4000"
    and ws: "waves (CONFIG t) = []"
    and m: "staysInModel t"
    by (simp_all add: t_def exampleSim_def defaultConfig_def staysInModel_def actualCount_def
        nth_Cons')
  from transition_example obtain s' where s': "updatePhysics (exampleFrame 4000) s = Some s'"
    unfolding s_def by auto
  from ht m obtain t1 where t1: "updatePhysics (exampleFrame 4016) t = Some t1"
    using settled_frame_total [of t "exampleFrame 4016"] by blast
  from ht m obtain t2 where t2: "updatePhysics (exampleFrame 12000) t = Some t2"
    using settled_frame_total [of t "exampleFrame 12000"] by blast
  note thm1 = first_wave_one_interval_after_settling
    [where s = s and ?t0.0 = 0 and f = "exampleFrame 4000" and progress = 1 and s' = s'
       and t = t and tw = 4000 and g = "exampleFrame 4016" and t' = t1]
  note thm2 = first_wave_one_interval_after_settling
    [where s = s and ?t0.0 = 0 and f = "exampleFrame 4000" and progress = 1 and s' = s'
       and t = t and tw = 4000 and g = "exampleFrame 12000" and t' = t2]
  have e: "nowDate (exampleFrame 4000) = 4000"
    "nowDate (exampleFrame 4016) - 4000 < waveInterval (CONFIG t)"
    "nowDate (exampleFrame 12000) - 4000 \<ge> waveInterval (CONFIG t)"
    "nowDate (exampleFrame 12000) = 12000"
    by (simp_all add: exampleFrame_def t_def exampleSim_def defaultConfig_def)
  have sw: "waves (CONFIG s) = []" by (simp add: s_def exampleSim_def defaultConfig_def)
  from thm1 hs s' have "lastWaveTime (CONFIG s') = Some (nowDate (exampleFrame 4000))"
    and "waves (CONFIG s') =
            filter (\<lambda>w. radius w < maxWaveRadius (exampleFrame 4000) + waveWidth (CONFIG s))
              (map (advanceWave (CONFIG s)) (waves (CONFIG s)))"
    by blast+
  then have one: "lastWaveTime (CONFIG s') = Some 4000 \<and> waves (CONFIG s') = []"
    by (simp add: e sw)
  from thm1 ht t1 e(2) have "lastWaveTime (CONFIG t1) = Some 4000"
    and "waves (CONFIG t1) =
           filter (\<lambda>w. radius w < maxWaveRadius (exampleFrame 4016) + waveWidth (CONFIG t))
             (map (advanceWave (CONFIG t)) (waves (CONFIG t)))"
    by blast+
  then have two: "lastWaveTime (CONFIG t1) = Some 4000 \<and> waves (CONFIG t1) = []"
    by (simp add: ws)
  from thm2 ht t2 e(3) have "lastWaveTime (CONFIG t2) = Some (nowDate (exampleFrame 12000))"
    and "waves (CONFIG t2) =
           filter (\<lambda>w. radius w < maxWaveRadius (exampleFrame 12000) + waveWidth (CONFIG t))
             (map (advanceWave (CONFIG t))
                (waves (CONFIG t)
                 @ [\<lparr>radius = 0, waveStartTime = nowDate (exampleFrame 12000),
                     waveId = nowDate (exampleFrame 12000)\<rparr>]))"
    by blast+
  then have three: "lastWaveTime (CONFIG t2) = Some 12000
      \<and> waves (CONFIG t2) = [\<lparr>radius = 54 / 625, waveStartTime = 12000, waveId = 12000\<rparr>]"
    by (simp add: ws e(4) maxWaveRadius_example advanceWave_def)
       (simp add: t_def exampleSim_def defaultConfig_def)
  from s' t1 t2 one two three show ?thesis unfolding s_def t_def by blast
qed

theorem no_wave_at_the_transition:
  "map_option (\<lambda>s. (isLoadingAnimation (CONFIG s), waves (CONFIG s), lastWaveTime (CONFIG s)))
     (updatePhysics (exampleFrame 4000)
        (exampleSim (defaultConfig\<lparr>loadAnimationStartTime := Some 0, waveEnabled := True\<rparr>)))
   = Some (False, [], Some 4000)
   \<and> map_option (\<lambda>s. (isLoadingAnimation (CONFIG s), waves (CONFIG s), lastWaveTime (CONFIG s)))
       (Option.bind
          (updatePhysics (exampleFrame 4000)
             (exampleSim (defaultConfig\<lparr>loadAnimationStartTime := Some 0, waveEnabled := True\<rparr>)))
          (updatePhysics (exampleFrame 4016)))
     = Some (False, [], Some 4000)"
  by (simp add: frame_eval loading_eval)

text \<open>
  Claim C5. In a settled frame with waves enabled, the list of waves after the frame is the
  list before it (with the wave that the frame creates, if any), each radius increased by
  \<open>waveSpeed * 0.016 * timeScale\<close>, without the waves whose increased radius has reached
  \<^verbatim>\<open>maxWaveRadius + CONFIG.waveWidth\<close>; \<^verbatim>\<open>maxWaveRadius\<close> is half the diagonal of the visible
  area (line 1653), the distance from the wave centre to a corner. The growth is strict when
  \<open>waveSpeed * timeScale\<close> is positive. The frame returns a state under \<open>staysInModel\<close>.
\<close>

theorem waves_grow_and_leave_at_half_diagonal:
  "(isInitialized t \<and> hasGeometry t \<and> \<not> isLoadingAnimation (CONFIG t)
      \<and> waveEnabled (CONFIG t)
    \<longrightarrow> (\<forall>t'. updatePhysics g t = Some t' \<longrightarrow>
            waves (CONFIG t') =
              filter (\<lambda>w. radius w < maxWaveRadius g + waveWidth (CONFIG t))
                (map (advanceWave (CONFIG t))
                   (waves (CONFIG t) @
                      (if nowDate g
                            - (case lastWaveTime (CONFIG t) of None \<Rightarrow> nowDate g | Some l \<Rightarrow> l)
                            \<ge> waveInterval (CONFIG t)
                       then [\<lparr>radius = 0, waveStartTime = nowDate g, waveId = nowDate g\<rparr>]
                       else []))))
        \<and> (staysInModel t \<longrightarrow> (\<exists>t'. updatePhysics g t = Some t')))
   \<and> advanceWave c w = w\<lparr>radius := radius w + waveSpeed c * 0.016 * timeScale c\<rparr>
   \<and> (0 < waveSpeed c * timeScale c \<longrightarrow> radius w < radius (advanceWave c w))
   \<and> maxWaveRadius g
       = sqrt ((cameraRight g - cameraLeft g)\<^sup>2 + (cameraTop g - cameraBottom g)\<^sup>2) / 2"
proof (intro conjI impI allI)
  fix t'
  assume "isInitialized t \<and> hasGeometry t \<and> \<not> isLoadingAnimation (CONFIG t)
      \<and> waveEnabled (CONFIG t)" and "updatePhysics g t = Some t'"
  then show "waves (CONFIG t') =
              filter (\<lambda>w. radius w < maxWaveRadius g + waveWidth (CONFIG t))
                (map (advanceWave (CONFIG t))
                   (waves (CONFIG t) @
                      (if nowDate g
                            - (case lastWaveTime (CONFIG t) of None \<Rightarrow> nowDate g | Some l \<Rightarrow> l)
                            \<ge> waveInterval (CONFIG t)
                       then [\<lparr>radius = 0, waveStartTime = nowDate g, waveId = nowDate g\<rparr>]
                       else [])))"
    by (intro settled_frame_wave_list) simp_all
next
  assume "isInitialized t \<and> hasGeometry t \<and> \<not> isLoadingAnimation (CONFIG t)
      \<and> waveEnabled (CONFIG t)" and "staysInModel t"
  then show "\<exists>t'. updatePhysics g t = Some t'" by (intro settled_frame_total) simp_all
next
  show "advanceWave c w = w\<lparr>radius := radius w + waveSpeed c * 0.016 * timeScale c\<rparr>"
    by (simp add: advanceWave_def)
next
  assume "0 < waveSpeed c * timeScale c"
  then show "radius w < radius (advanceWave c w)"
    by (simp add: advanceWave_def mult.commute)
next
  show "maxWaveRadius g
       = sqrt ((cameraRight g - cameraLeft g)\<^sup>2 + (cameraTop g - cameraBottom g)\<^sup>2) / 2"
    by (simp add: maxWaveRadius_def Let_def power2_eq_square)
qed

theorem waves_grow_and_leave_at_half_diagonal_witness:
  "\<exists>t'. updatePhysics (exampleFrame 4016)
          (exampleSim (defaultConfig
             \<lparr>isLoadingAnimation := False, waveEnabled := True, lastWaveTime := Some 4000,
              waves := [\<lparr>radius = 5, waveStartTime = 0, waveId = 0\<rparr>,
                        \<lparr>radius = 14 + 1 / 20, waveStartTime = 1, waveId = 1\<rparr>]\<rparr>)) = Some t'
        \<and> waves (CONFIG t') = [\<lparr>radius = 5 + 54 / 625, waveStartTime = 0, waveId = 0\<rparr>]"
proof -
  define t where "t = exampleSim (defaultConfig
             \<lparr>isLoadingAnimation := False, waveEnabled := True, lastWaveTime := Some 4000,
              waves := [\<lparr>radius = 5, waveStartTime = 0, waveId = 0\<rparr>,
                        \<lparr>radius = 14 + 1 / 20, waveStartTime = 1, waveId = 1\<rparr>]\<rparr>)"
  define g where "g = exampleFrame 4016"
  have h: "isInitialized t \<and> hasGeometry t \<and> \<not> isLoadingAnimation (CONFIG t)
      \<and> waveEnabled (CONFIG t)"
    and m: "staysInModel t"
    by (simp_all add: t_def exampleSim_def defaultConfig_def staysInModel_def actualCount_def
        nth_Cons')
  note th = waves_grow_and_leave_at_half_diagonal [where t = t and g = g]
  from th h m obtain t' where t': "updatePhysics g t = Some t'" by blast
  with th h have "waves (CONFIG t') =
              filter (\<lambda>w. radius w < maxWaveRadius g + waveWidth (CONFIG t))
                (map (advanceWave (CONFIG t))
                   (waves (CONFIG t) @
                      (if nowDate g
                            - (case lastWaveTime (CONFIG t) of None \<Rightarrow> nowDate g | Some l \<Rightarrow> l)
                            \<ge> waveInterval (CONFIG t)
                       then [\<lparr>radius = 0, waveStartTime = nowDate g, waveId = nowDate g\<rparr>]
                       else [])))"
    by blast
  then have "waves (CONFIG t') = [\<lparr>radius = 5 + 54 / 625, waveStartTime = 0, waveId = 0\<rparr>]"
    by (simp add: g_def maxWaveRadius_example)
       (simp add: t_def exampleSim_def defaultConfig_def exampleFrame_def advanceWave_def)
  with t' show ?thesis unfolding t_def g_def by blast
qed

theorem wave_removed_before_the_diagonal:
  "sqrt ((cameraRight (exampleFrame 4016) - cameraLeft (exampleFrame 4016))\<^sup>2
         + (cameraTop (exampleFrame 4016) - cameraBottom (exampleFrame 4016))\<^sup>2) = 25
   \<and> (\<exists>t'. updatePhysics (exampleFrame 4016)
          (exampleSim (defaultConfig
             \<lparr>isLoadingAnimation := False, waveEnabled := True, lastWaveTime := Some 4000,
              waves := [\<lparr>radius = 20, waveStartTime = 0, waveId = 0\<rparr>]\<rparr>)) = Some t'
        \<and> waves (CONFIG t') = [])"
proof -
  define t where "t = exampleSim (defaultConfig
             \<lparr>isLoadingAnimation := False, waveEnabled := True, lastWaveTime := Some 4000,
              waves := [\<lparr>radius = 20, waveStartTime = 0, waveId = 0\<rparr>]\<rparr>)"
  define g where "g = exampleFrame 4016"
  have h: "isInitialized t" "hasGeometry t" "\<not> isLoadingAnimation (CONFIG t)"
    "waveEnabled (CONFIG t)"
    and m: "staysInModel t"
    by (simp_all add: t_def exampleSim_def defaultConfig_def staysInModel_def actualCount_def
        nth_Cons')
  from settled_frame_total [OF h(1-3) m] obtain t' where t': "updatePhysics g t = Some t'" ..
  have "waves (CONFIG t') = []"
    unfolding settled_frame_wave_list [OF h t']
    by (simp add: g_def maxWaveRadius_example)
       (simp add: t_def exampleSim_def defaultConfig_def exampleFrame_def advanceWave_def)
  moreover have "sqrt ((cameraRight g - cameraLeft g)\<^sup>2 + (cameraTop g - cameraBottom g)\<^sup>2) = 25"
    by (simp add: g_def exampleFrame_def power2_eq_square sqrt_625)
  ultimately show ?thesis using t' unfolding t_def g_def by blast
qed

text \<open>
  Claim C7. The two timers live in \<^verbatim>\<open>Float32Array\<close>s, and lines 1879 and 1885 store the
  later of the stored value and \<open>now + delay\<close> rounded to single precision, where \<open>now\<close> is
  \<^verbatim>\<open>performance.now()\<close>. In a settled frame that processes an explosion (explosions are
  enabled and the list holds one not yet applied), every processed particle's entry of
  \<^verbatim>\<open>explosionReturnTimes\<close> becomes \<open>fround (max old (now + explosionReturnDelay))\<close> and its
  entry of \<^verbatim>\<open>explosionGlowEndTimes\<close> becomes \<open>fround (max old (now + explosionGlowDuration))\<close>,
  however many explosions the frame processes. The new value is not before the old one,
  which is a single; when no window is pending (the old value is not after \<open>now\<close>) and the
  delay is not negative, it is the rounding of \<open>now + delay\<close>, not \<open>now + delay\<close> itself.
\<close>

theorem explosion_timers_take_the_later_rounded:
  assumes "isInitialized s" and "hasGeometry s" and "\<not> isLoadingAnimation (CONFIG s)"
    and "explosionEnabled (CONFIG s)" and "\<not> list_all applied (explosions (CONFIG s))"
    and "i < actualCount s"
    and "i < length (explosionReturnTimes s)" and "i < length (explosionGlowEndTimes s)"
  shows "(\<forall>s'. updatePhysics f s = Some s' \<longrightarrow>
            explosionReturnTimes s' ! i
              = fround (max (explosionReturnTimes s ! i)
                            (nowPerf f + explosionReturnDelay (CONFIG s)))
            \<and> explosionGlowEndTimes s' ! i
              = fround (max (explosionGlowEndTimes s ! i)
                            (nowPerf f + explosionGlowDuration (CONFIG s)))
            \<and> (fround (explosionReturnTimes s ! i) = explosionReturnTimes s ! i
                 \<longrightarrow> explosionReturnTimes s ! i \<le> explosionReturnTimes s' ! i)
            \<and> (fround (explosionGlowEndTimes s ! i) = explosionGlowEndTimes s ! i
                 \<longrightarrow> explosionGlowEndTimes s ! i \<le> explosionGlowEndTimes s' ! i)
            \<and> (explosionReturnTimes s ! i \<le> nowPerf f \<and> 0 \<le> explosionReturnDelay (CONFIG s)
                 \<longrightarrow> explosionReturnTimes s' ! i
                       = fround (nowPerf f + explosionReturnDelay (CONFIG s)))
            \<and> (explosionGlowEndTimes s ! i \<le> nowPerf f \<and> 0 \<le> explosionGlowDuration (CONFIG s)
                 \<longrightarrow> explosionGlowEndTimes s' ! i
                       = fround (nowPerf f + explosionGlowDuration (CONFIG s))))
         \<and> (staysInModel s \<longrightarrow> (\<exists>s'. updatePhysics f s = Some s'))"
proof (intro conjI allI impI)
  assume "staysInModel s"
  with assms(1-3) show "\<exists>s'. updatePhysics f s = Some s'" by (rule settled_frame_total)
next
  fix s'
  assume run: "updatePhysics f s = Some s'"
  define s1 where "s1 = resetMouseVelocity s"
  let ?c1 = "fst (waveLogic f (CONFIG s1))"
  let ?L = "fst (startFrame f s1)"
  from run have run1: "settledPhysics f s1 = Some s'"
    unfolding updatePhysics_settled [OF assms(1-3)] s1_def .
  have i1: "i < actualCount s1" using assms(6) by (simp add: s1_def resetMouseVelocity_fields)
  have f1: "CONFIG s1 = CONFIG s" "explosionReturnTimes s1 = explosionReturnTimes s"
    "explosionGlowEndTimes s1 = explosionGlowEndTimes s"
    by (simp_all add: s1_def resetMouseVelocity_fields)
  from settledPhysics_motion [OF run1 i1] obtain q where
    q: "particleStep f ?c1 ?L i (readAt (scrollDirections s1) i) (readAt (baseSizes s1) i)
          (Some (originalPositions s1 ! i)) (positions s1 ! i) (velocities s1 ! i)
          (readAt (explosionReturnTimes s1) i) (readAt (explosionGlowEndTimes s1) i) = Some q"
    and r: "explosionReturnTimes s' ! i
              = writeAt (explosionReturnTimes s1) i (explosionReturnUntil q) ! i"
    and g: "explosionGlowEndTimes s' ! i
              = writeAt (explosionGlowEndTimes s1) i (explosionGlowUntil q) ! i"
    by blast
  from assms(5) have ne: "explosions (CONFIG s) \<noteq> []" by auto
  have h: "hasExplosions ?L" using assms(4) ne by (simp add: startFrame_locals f1)
  have na: "\<not> list_all applied (explosions ?c1)" using assms(5) by (simp add: waveLogic_fields f1)
  note tm = particleStep_timers [OF q h na]
  from tm(1) assms(7) r
  show R: "explosionReturnTimes s' ! i
          = fround (max (explosionReturnTimes s ! i) (nowPerf f + explosionReturnDelay (CONFIG s)))"
    by (simp add: f1 readAt_def writeAt_def waveLogic_explosion_fields)
  from tm(2) assms(8) g
  show G: "explosionGlowEndTimes s' ! i
          = fround (max (explosionGlowEndTimes s ! i) (nowPerf f + explosionGlowDuration (CONFIG s)))"
    by (simp add: f1 readAt_def writeAt_def waveLogic_fields)
  {
    assume a: "fround (explosionReturnTimes s ! i) = explosionReturnTimes s ! i"
    have "fround (explosionReturnTimes s ! i) \<le> explosionReturnTimes s' ! i"
      unfolding R by (rule fround_mono) simp
    with a show "explosionReturnTimes s ! i \<le> explosionReturnTimes s' ! i" by simp
  }
  {
    assume a: "fround (explosionGlowEndTimes s ! i) = explosionGlowEndTimes s ! i"
    have "fround (explosionGlowEndTimes s ! i) \<le> explosionGlowEndTimes s' ! i"
      unfolding G by (rule fround_mono) simp
    with a show "explosionGlowEndTimes s ! i \<le> explosionGlowEndTimes s' ! i" by simp
  }
  {
    assume "explosionReturnTimes s ! i \<le> nowPerf f \<and> 0 \<le> explosionReturnDelay (CONFIG s)"
    then have "max (explosionReturnTimes s ! i) (nowPerf f + explosionReturnDelay (CONFIG s))
                 = nowPerf f + explosionReturnDelay (CONFIG s)"
      by (intro max.absorb2) linarith
    with R show "explosionReturnTimes s' ! i = fround (nowPerf f + explosionReturnDelay (CONFIG s))"
      by simp
  }
  {
    assume "explosionGlowEndTimes s ! i \<le> nowPerf f \<and> 0 \<le> explosionGlowDuration (CONFIG s)"
    then have "max (explosionGlowEndTimes s ! i) (nowPerf f + explosionGlowDuration (CONFIG s))
                 = nowPerf f + explosionGlowDuration (CONFIG s)"
      by (intro max.absorb2) linarith
    with G show "explosionGlowEndTimes s' ! i
                   = fround (nowPerf f + explosionGlowDuration (CONFIG s))"
      by simp
  }
qed

theorem explosion_timers_take_the_later_rounded_witness:
  "\<exists>s'. updatePhysics (exampleFrame 5000) explodingSim = Some s'
        \<and> explosionReturnTimes explodingSim ! 0 = 0
        \<and> explosionGlowEndTimes explodingSim ! 0 = 0
        \<and> explosionReturnTimes s' ! 0 = 6200
        \<and> explosionGlowEndTimes s' ! 0 = 5500"
proof -
  have h: "isInitialized explodingSim" "hasGeometry explodingSim"
    "\<not> isLoadingAnimation (CONFIG explodingSim)"
    "explosionEnabled (CONFIG explodingSim)"
    "\<not> list_all applied (explosions (CONFIG explodingSim))"
    "0 < actualCount explodingSim"
    "0 < length (explosionReturnTimes explodingSim)"
    "0 < length (explosionGlowEndTimes explodingSim)"
    by (simp_all add: explodingSim_def exampleSim_def defaultConfig_def actualCount_def)
  note t = explosion_timers_take_the_later_rounded [OF h, of "exampleFrame 5000"]
  have m: "staysInModel explodingSim"
    by (simp add: staysInModel_def explodingSim_def exampleSim_def defaultConfig_def actualCount_def)
  have old: "explosionReturnTimes explodingSim ! 0 = 0" "explosionGlowEndTimes explodingSim ! 0 = 0"
    by (simp_all add: explodingSim_def exampleSim_def)
  have pre: "fround (explosionReturnTimes explodingSim ! 0) = explosionReturnTimes explodingSim ! 0"
    "fround (explosionGlowEndTimes explodingSim ! 0) = explosionGlowEndTimes explodingSim ! 0"
    "explosionReturnTimes explodingSim ! 0 \<le> nowPerf (exampleFrame 5000)
       \<and> 0 \<le> explosionReturnDelay (CONFIG explodingSim)"
    "explosionGlowEndTimes explodingSim ! 0 \<le> nowPerf (exampleFrame 5000)
       \<and> 0 \<le> explosionGlowDuration (CONFIG explodingSim)"
    by (simp_all add: old) (simp_all add: explodingSim_def exampleSim_def defaultConfig_def
        exampleFrame_def)
  from t m obtain s' where s': "updatePhysics (exampleFrame 5000) explodingSim = Some s'" by blast
  with t pre have
    "explosionReturnTimes s' ! 0
       = fround (nowPerf (exampleFrame 5000) + explosionReturnDelay (CONFIG explodingSim))"
    "explosionGlowEndTimes s' ! 0
       = fround (nowPerf (exampleFrame 5000) + explosionGlowDuration (CONFIG explodingSim))"
    "explosionReturnTimes explodingSim ! 0 \<le> explosionReturnTimes s' ! 0"
    "explosionGlowEndTimes explodingSim ! 0 \<le> explosionGlowEndTimes s' ! 0"
    by blast+
  then have "explosionReturnTimes s' ! 0 = 6200" "explosionGlowEndTimes s' ! 0 = 5500"
    by (simp_all add: explodingSim_def exampleSim_def defaultConfig_def exampleFrame_def
        fround_numeral)
  with s' old show ?thesis by blast
qed

theorem explosion_timer_not_exactly_now_plus_delay:
  "nowPerf (exampleFrame (50001 / 10)) + explosionReturnDelay (CONFIG explodingSim) = 62001 / 10
   \<and> nowPerf (exampleFrame (50001 / 10)) + explosionGlowDuration (CONFIG explodingSim) = 55001 / 10
   \<and> map_option (\<lambda>s. (explosionReturnTimes s, explosionGlowEndTimes s))
       (updatePhysics (exampleFrame (50001 / 10)) explodingSim)
     = Some ([12697805 / 2048, 12697805 / 2048], [11264205 / 2048, 11264205 / 2048])"
  by (simp add: frame_eval explodingSim_def fround_6200_1 fround_5500_1)




text \<open>
  Claim C9. The depth term of the brightness of particle \<open>i\<close> in a settled frame is
  \<open>k * maxBrightness * (1 - clamp01 (|z - camZ| / 70) * depthDarkeningStrength)\<close>, where \<open>z\<close>
  is the particle's own z coordinate when the frame starts and the range 0..70 is fixed
  (lines 1735-1750): \<open>k\<close> is 0 for an invisible particle (base size 0 and derived size 0,
  lines 2105-2110), 1/2 for a particle outside the shape when \<^verbatim>\<open>maxBrightness\<close> is below
  0.99 (lines 2152-2154), and 1 otherwise. The derived size comes from the waves at the
  particle's own position (lines 1953-1978), so the depth term is a function of the
  particle's own data and of the configuration, not of its depth alone. Two settled states
  with the same configuration and the same \<^verbatim>\<open>wasWaveActive\<close> run the same frame; both process
  particle \<open>i\<close>, and they agree on its z coordinate, on its whole position when waves are
  enabled, and on its entries of \<^verbatim>\<open>baseSizes\<close> and \<^verbatim>\<open>sizes\<close>. Whatever the other particles
  are, the two frames derive the same size for particle \<open>i\<close> and write the brightness
  \<open>min (d + waveGlow + explosionGlow) 1\<close> with one and the same depth term \<open>d\<close>, each with
  its own wave glow and explosion glow; with waves and explosions off the two colours are
  equal.
\<close>

theorem depth_term_of_own_particle_only:
  assumes "isInitialized s" and "hasGeometry s" and "\<not> isLoadingAnimation (CONFIG s)"
    and "hasColorAttribute s"
    and "isInitialized t" and "hasGeometry t" and "hasColorAttribute t"
    and "CONFIG t = CONFIG s" and "wasWaveActive t = wasWaveActive s"
    and "updatePhysics f s = Some s'" and "updatePhysics f t = Some t'"
    and "i < actualCount s" and "i < actualCount t"
    and "(case positions t ! i of (x, y, z) \<Rightarrow> z) = (case positions s ! i of (x, y, z) \<Rightarrow> z)"
    and "waveEnabled (CONFIG s) \<longrightarrow> positions t ! i = positions s ! i"
    and "readAt (baseSizes t) i = readAt (baseSizes s) i"
    and "readAt (sizes t) i = readAt (sizes s) i"
  shows "readAt (sizes t') i = readAt (sizes s') i
       \<and> (\<exists>d ws es wt et.
            totalWaveGlow (CONFIG s') (fst (startFrame f (resetMouseVelocity s)))
              (readAt (positions s') i) = Some ws
          \<and> explosionGlow f (CONFIG s') (readAt (explosionGlowEndTimes s') i) = Some es
          \<and> totalWaveGlow (CONFIG t') (fst (startFrame f (resetMouseVelocity t)))
              (readAt (positions t') i) = Some wt
          \<and> explosionGlow f (CONFIG t') (readAt (explosionGlowEndTimes t') i) = Some et
          \<and> colors s' ! i = (min (d + ws + es) 1, min (d + ws + es) 1, min (d + ws + es) 1)
          \<and> colors t' ! i = (min (d + wt + et) 1, min (d + wt + et) 1, min (d + wt + et) 1)
          \<and> d = (if readAt (baseSizes s) i = Some 0
                    \<and> (case readAt (sizes s') i of None \<Rightarrow> 0 | Some z \<Rightarrow> z) = 0
                 then 0
                 else (if particleCount (CONFIG s) \<le> i \<and> maxBrightness (CONFIG s) < 0.99
                       then 1 / 2 else 1)
                      * (maxBrightness (CONFIG s)
                         * (1 - clamp01 (\<bar>(case positions s ! i of (x, y, z) \<Rightarrow> z) - cameraZ f\<bar> / 70)
                                * depthDarkeningStrength (CONFIG s)))))
       \<and> (\<not> waveEnabled (CONFIG s) \<and> \<not> explosionEnabled (CONFIG s)
          \<longrightarrow> colors t' ! i = colors s' ! i)"
proof -
  let ?d = "scaledBrightness (CONFIG s) i
              (baseBrightness (CONFIG s) \<bar>(case positions s ! i of (x, y, z) \<Rightarrow> z) - cameraZ f\<bar>
                 (readAt (baseSizes s) i) (readAt (sizes s') i))"
  have lt: "\<not> isLoadingAnimation (CONFIG t)" using assms(3,8) by simp
  have sz: "readAt (sizes t') i = readAt (sizes s') i"
    by (rule settled_frames_same_size [OF assms(1-3,5,6,8,9,10,11,12,13,15,16,17)])
  from assms(1-4,10,12) obtain ws es where
    s1: "totalWaveGlow (CONFIG s') (fst (startFrame f (resetMouseVelocity s)))
           (readAt (positions s') i) = Some ws"
    and s2: "explosionGlow f (CONFIG s') (readAt (explosionGlowEndTimes s') i) = Some es"
    and s3: "colors s' ! i = (min (?d + ws + es) 1, min (?d + ws + es) 1, min (?d + ws + es) 1)"
    by (rule settled_frame_color) (simp add: Let_def)
  from assms(5,6) lt assms(7,11,13) obtain wt et where
    t1: "totalWaveGlow (CONFIG t') (fst (startFrame f (resetMouseVelocity t)))
           (readAt (positions t') i) = Some wt"
    and t2: "explosionGlow f (CONFIG t') (readAt (explosionGlowEndTimes t') i) = Some et"
    and t3: "colors t' ! i = (min (?d + wt + et) 1, min (?d + wt + et) 1, min (?d + wt + et) 1)"
    by (rule settled_frame_color) (simp add: Let_def assms(8,14,16) sz)
  have val: "?d = (if readAt (baseSizes s) i = Some 0
                    \<and> (case readAt (sizes s') i of None \<Rightarrow> 0 | Some z \<Rightarrow> z) = 0
                 then 0
                 else (if particleCount (CONFIG s) \<le> i \<and> maxBrightness (CONFIG s) < 0.99
                       then 1 / 2 else 1)
                      * (maxBrightness (CONFIG s)
                         * (1 - clamp01 (\<bar>(case positions s ! i of (x, y, z) \<Rightarrow> z) - cameraZ f\<bar> / 70)
                                * depthDarkeningStrength (CONFIG s))))"
    by (rule depth_term_value)
  have quiet: "colors t' ! i = colors s' ! i"
    if q: "\<not> waveEnabled (CONFIG s) \<and> \<not> explosionEnabled (CONFIG s)"
  proof -
    from q have qs: "\<not> waveEnabled (CONFIG s)" "\<not> explosionEnabled (CONFIG s)" by simp_all
    then have qt: "\<not> waveEnabled (CONFIG t)" "\<not> explosionEnabled (CONFIG t)"
      by (simp_all add: assms(8))
    show ?thesis
      unfolding settled_frame_color_quiet [OF assms(1-4,10,12) qs]
        settled_frame_color_quiet [OF assms(5,6) lt assms(7,11,13) qt]
      by (simp add: assms(8,14,16) sz)
  qed
  from sz s1 s2 s3 t1 t2 t3 val quiet show ?thesis by blast
qed

theorem depth_term_of_own_particle_only_witness:
  "(\<exists>s' t'.
      updatePhysics (exampleFrame 5000)
        (exampleSim (defaultConfig\<lparr>isLoadingAnimation := False, explosionEnabled := False\<rparr>))
        = Some s'
    \<and> updatePhysics (exampleFrame 5000)
        ((exampleSim (defaultConfig\<lparr>isLoadingAnimation := False, explosionEnabled := False\<rparr>))
           \<lparr>positions := [(- 2, 1, 0), (7, 0, - 20)]\<rparr>)
        = Some t'
    \<and> colors s' ! 0 = (239 / 350, 239 / 350, 239 / 350)
    \<and> colors t' ! 0 = (239 / 350, 239 / 350, 239 / 350))
   \<and> (\<exists>s' t'.
      updatePhysics (exampleFrame 4016)
        ((exampleSim (defaultConfig
            \<lparr>isLoadingAnimation := False, waveEnabled := True, waveForce := 0,
             waveGlowIntensity := 0, lastWaveTime := Some 4000,
             waves := [\<lparr>radius = 5 + 4 / 5 - 54 / 625, waveStartTime = 0, waveId = 0\<rparr>],
             explosionEnabled := False\<rparr>))
           \<lparr>sizes := [0, 4], baseSizes := [0, 4]\<rparr>) = Some s'
    \<and> updatePhysics (exampleFrame 4016)
        (((exampleSim (defaultConfig
            \<lparr>isLoadingAnimation := False, waveEnabled := True, waveForce := 0,
             waveGlowIntensity := 0, lastWaveTime := Some 4000,
             waves := [\<lparr>radius = 5 + 4 / 5 - 54 / 625, waveStartTime = 0, waveId = 0\<rparr>],
             explosionEnabled := False\<rparr>))
           \<lparr>sizes := [0, 4], baseSizes := [0, 4]\<rparr>)
           \<lparr>positions := [(3, 4, 0), (7, 0, - 20)]\<rparr>) = Some t'
    \<and> readAt (sizes s') 0 = Some 2 \<and> readAt (sizes t') 0 = Some 2)"
proof -
  define s where
    "s = exampleSim (defaultConfig\<lparr>isLoadingAnimation := False, explosionEnabled := False\<rparr>)"
  define t where "t = s\<lparr>positions := [(- 2, 1, 0), (7, 0, - 20)]\<rparr>"
  define f where "f = exampleFrame 5000"
  have hs: "isInitialized s" "hasGeometry s" "\<not> isLoadingAnimation (CONFIG s)"
    "hasColorAttribute s"
    "isInitialized t" "hasGeometry t" "hasColorAttribute t" "CONFIG t = CONFIG s"
    "wasWaveActive t = wasWaveActive s"
    and i: "0 < actualCount s" "0 < actualCount t"
    and ag: "(case positions t ! 0 of (x, y, z) \<Rightarrow> z) = (case positions s ! 0 of (x, y, z) \<Rightarrow> z)"
      "waveEnabled (CONFIG s) \<longrightarrow> positions t ! 0 = positions s ! 0"
      "readAt (baseSizes t) 0 = readAt (baseSizes s) 0"
      "readAt (sizes t) 0 = readAt (sizes s) 0"
    and q: "\<not> waveEnabled (CONFIG s) \<and> \<not> explosionEnabled (CONFIG s)"
    and mt: "staysInModel t"
    by (simp_all add: s_def t_def exampleSim_def defaultConfig_def actualCount_def
        staysInModel_def)
  from quiet_example obtain s' where s': "updatePhysics f s = Some s'"
    and cs: "colors s' ! 0 = (239 / 350, 239 / 350, 239 / 350)"
    unfolding s_def f_def by auto
  from settled_frame_total [OF hs(5,6) _ mt, of f] hs(3,8)
  obtain t' where t': "updatePhysics f t = Some t'" by auto
  from depth_term_of_own_particle_only [OF hs s' t' i ag] q
  have "colors t' ! 0 = colors s' ! 0" by blast
  with cs s' t' have one: "\<exists>s' t'. updatePhysics f s = Some s' \<and> updatePhysics f t = Some t'
      \<and> colors s' ! 0 = (239 / 350, 239 / 350, 239 / 350)
      \<and> colors t' ! 0 = (239 / 350, 239 / 350, 239 / 350)"
    by auto
  define a where
    "a = ((exampleSim (defaultConfig
            \<lparr>isLoadingAnimation := False, waveEnabled := True, waveForce := 0,
             waveGlowIntensity := 0, lastWaveTime := Some 4000,
             waves := [\<lparr>radius = 5 + 4 / 5 - 54 / 625, waveStartTime = 0, waveId = 0\<rparr>],
             explosionEnabled := False\<rparr>))
           \<lparr>sizes := [0, 4], baseSizes := [0, 4]\<rparr>)"
  define b where "b = a\<lparr>positions := [(3, 4, 0), (7, 0, - 20)]\<rparr>"
  define g where "g = exampleFrame 4016"
  have ha: "isInitialized a" "hasGeometry a" "\<not> isLoadingAnimation (CONFIG a)"
    "hasColorAttribute a"
    "isInitialized b" "hasGeometry b" "hasColorAttribute b" "CONFIG b = CONFIG a"
    "wasWaveActive b = wasWaveActive a"
    and j: "0 < actualCount a" "0 < actualCount b"
    and agb: "(case positions b ! 0 of (x, y, z) \<Rightarrow> z) = (case positions a ! 0 of (x, y, z) \<Rightarrow> z)"
      "waveEnabled (CONFIG a) \<longrightarrow> positions b ! 0 = positions a ! 0"
      "readAt (baseSizes b) 0 = readAt (baseSizes a) 0"
      "readAt (sizes b) 0 = readAt (sizes a) 0"
    and mb: "staysInModel b"
    by (simp_all add: a_def b_def exampleSim_def defaultConfig_def actualCount_def
        staysInModel_def nth_Cons')
  from revealed_example obtain a' where a': "updatePhysics g a = Some a'"
    and za: "readAt (sizes a') 0 = Some 2"
    unfolding a_def g_def by auto
  from settled_frame_total [OF ha(5,6) _ mb, of g] ha(3,8)
  obtain b' where b': "updatePhysics g b = Some b'" by auto
  from depth_term_of_own_particle_only [OF ha a' b' j agb]
  have "readAt (sizes b') 0 = readAt (sizes a') 0" by blast
  with za a' b' have two: "\<exists>s' t'. updatePhysics g a = Some s' \<and> updatePhysics g b = Some t'
      \<and> readAt (sizes s') 0 = Some 2 \<and> readAt (sizes t') 0 = Some 2"
    by auto
  from one two show ?thesis unfolding s_def t_def f_def a_def b_def g_def by blast
qed

theorem depth_term_depends_on_more_than_depth:
  "map_option (\<lambda>s. colors s ! 0)
     (updatePhysics (exampleFrame 4016)
        ((exampleSim (defaultConfig
            \<lparr>isLoadingAnimation := False, waveEnabled := True, waveForce := 0,
             waveGlowIntensity := 0, lastWaveTime := Some 4000,
             waves := [\<lparr>radius = 5 + 4 / 5 - 54 / 625, waveStartTime = 0, waveId = 0\<rparr>],
             explosionEnabled := False\<rparr>))
           \<lparr>sizes := [0, 4], baseSizes := [0, 4]\<rparr>))
   = Some (239 / 350, 239 / 350, 239 / 350)
   \<and> map_option (\<lambda>s. colors s ! 0)
     (updatePhysics (exampleFrame 4016)
        (((exampleSim (defaultConfig
            \<lparr>isLoadingAnimation := False, waveEnabled := True, waveForce := 0,
             waveGlowIntensity := 0, lastWaveTime := Some 4000,
             waves := [\<lparr>radius = 5 + 4 / 5 - 54 / 625, waveStartTime = 0, waveId = 0\<rparr>],
             explosionEnabled := False\<rparr>))
           \<lparr>sizes := [0, 4], baseSizes := [0, 4]\<rparr>)
           \<lparr>positions := [(30, 40, 0), (0, 0, - 58)],
            originalPositions := [(30, 40, 0), (0, 0, - 58)]\<rparr>))
   = Some (0, 0, 0)
   \<and> map_option (\<lambda>s. colors s ! 0)
     (updatePhysics (exampleFrame 5000)
        (exampleSim (defaultConfig\<lparr>isLoadingAnimation := False, explosionEnabled := False,
                                   particleCount := 0, maxBrightness := 1 / 2\<rparr>)))
   = Some (239 / 1400, 239 / 1400, 239 / 1400)
   \<and> (1 / 2) * (1 - clamp01 (\<bar>0 - 12\<bar> / 70) * depthDarkeningStrength defaultConfig) = 239 / 700"
  by (simp add: frame_eval wave_eval clamp01_def)

end
